(* ===== verification/Prelude.thy ===== *)
theory Prelude
  imports Main
begin

text \<open>
  Shared vocabulary of the development: the names of the model's types, a result type
  for code that throws, the integer facts on floor division that the calendar arithmetic
  of \<open>EcmaDate\<close> uses, and the list facts on prefixes and separators that the string
  and path models use. ECMAScript's \<open>Math.floor(x / k)\<close> on integral values is HOL's
  \<open>div\<close> on \<open>int\<close>, which rounds towards minus infinity as well.
\<close>

named_theorems model_simps \<open>evaluation rules of the model's operations\<close>

section \<open>Names of the model's types\<close>

text \<open>
  A JavaScript string is a sequence of UTF-16 code units. Every string of the configuration
  consists of code units below 256, so a \<open>char\<close> (one byte) holds each of them and a
  JavaScript string is a \<open>string\<close>. A time value is an integral number of milliseconds;
  the values the configuration meets lie within \<open>\<plusminus>8.64 \<times> 10\<^sup>1\<^sup>5\<close>, well inside the
  integers a double holds exactly, so it is an \<open>int\<close>. A Number that is an integer or
  NaN is an \<open>int option\<close>, \<open>None\<close> standing for NaN.
\<close>

type_synonym js_string = string
type_synonym time_value = int
type_synonym js_int = "int option"
type_synonym path = string

section \<open>Results of code that throws\<close>

text \<open>
  A JavaScript expression that may throw evaluates to \<open>'e + 'a\<close>: \<open>Inl\<close> is the thrown
  error, \<open>Inr\<close> the value. \<open>bind_res\<close> evaluates the rest of an expression only when the
  first part returned, as the evaluation of an object literal stops at the first throw.
\<close>

definition bind_res :: "'e + 'a \<Rightarrow> ('a \<Rightarrow> 'e + 'b) \<Rightarrow> 'e + 'b" where
  "bind_res m f = (case m of Inl e \<Rightarrow> Inl e | Inr a \<Rightarrow> f a)"

lemma bind_res_Inl [simp]: "bind_res (Inl e) f = Inl e"
  by (simp add: bind_res_def)

lemma bind_res_Inr [simp]: "bind_res (Inr a) f = f a"
  by (simp add: bind_res_def)

lemma bind_res_eq_Inr:
  "bind_res m f = Inr b \<longleftrightarrow> (\<exists>a. m = Inr a \<and> f a = Inr b)"
  by (cases m) auto

lemma bind_res_eq_Inl:
  "bind_res m f = Inl e \<longleftrightarrow> m = Inl e \<or> (\<exists>a. m = Inr a \<and> f a = Inl e)"
  by (cases m) auto

section \<open>Floor division on integers\<close>

lemma divmod_parts:
  fixes r k :: int
  assumes "0 < k"
  shows "r = k * (r div k) + r mod k \<and> 0 \<le> r mod k \<and> r mod k < k"
  using assms by simp

lemma succ_div:
  fixes a k :: int
  assumes k: "1 < k"
  shows "(a + 1) div k = a div k + (if (a + 1) mod k = 0 then 1 else 0)"
proof -
  define q where "q = a div k"
  define r where "r = a mod k"
  have a: "a = r + q * k" by (simp add: q_def r_def)
  have r: "0 \<le> r" "r < k" using k by (simp_all add: r_def)
  show ?thesis
  proof (cases "r + 1 = k")
    case True
    then have "a + 1 = (q + 1) * k" using a by (simp add: algebra_simps)
    then have "(a + 1) div k = q + 1" "(a + 1) mod k = 0" using k by simp_all
    then show ?thesis by (simp add: q_def)
  next
    case False
    then have r1: "0 \<le> r + 1" "r + 1 < k" using r by simp_all
    have e: "a + 1 = (r + 1) + q * k" using a by simp
    have "(a + 1) div k = q" unfolding e using r1 k by (simp add: div_pos_pos_trivial)
    moreover have "(a + 1) mod k = r + 1" unfolding e using r1 k by simp
    ultimately show ?thesis using r by (simp add: q_def)
  qed
qed

lemma mod_shift: "0 < k \<Longrightarrow> (y + j * k) mod k = (y::int) mod k"
  by simp

lemma mod_zero_dvd_mono:
  fixes y :: int
  assumes "y mod m = 0" and "k dvd m"
  shows "y mod k = 0"
  using assms by (auto simp: mod_eq_0_iff_dvd intro: dvd_trans)

lemma le_div_iff_mult_le:
  fixes d t k :: int
  assumes "0 < k"
  shows "k * d \<le> t \<longleftrightarrow> d \<le> t div k"
proof
  assume "k * d \<le> t"
  then have "(k * d) div k \<le> t div k" using assms by (rule zdiv_mono1)
  then show "d \<le> t div k" using assms by simp
next
  assume "d \<le> t div k"
  then have "k * d \<le> k * (t div k)" using assms by simp
  also have "\<dots> \<le> t" using divmod_parts [OF assms, of t] by linarith
  finally show "k * d \<le> t" .
qed

lemma mono_from_succ:
  fixes f :: "int \<Rightarrow> int"
  assumes step: "\<And>y. f y < f (y + 1)" and le: "a \<le> b"
  shows "f a \<le> f b"
proof -
  obtain n :: nat where b: "b = a + int n"
    using le by (metis le_iff_add zle_iff_zadd)
  have "f a \<le> f (a + int n)"
  proof (induction n)
    case 0
    then show ?case by simp
  next
    case (Suc n)
    have "f (a + int n) < f (a + int n + 1)" by (rule step)
    moreover have "f (a + int (Suc n)) = f (a + int n + 1)" by (simp add: algebra_simps)
    ultimately show ?case using Suc.IH by linarith
  qed
  then show ?thesis by (simp add: b)
qed

section \<open>Prefixes and separators\<close>

fun strip_prefix :: "'a list \<Rightarrow> 'a list \<Rightarrow> 'a list option" where
  "strip_prefix [] s = Some s"
| "strip_prefix (p # ps) [] = None"
| "strip_prefix (p # ps) (c # cs) = (if p = c then strip_prefix ps cs else None)"

lemma strip_prefix_append [simp]: "strip_prefix p (p @ s) = Some s"
  by (induction p) auto

lemma strip_prefix_Some: "strip_prefix p s = Some r \<Longrightarrow> s = p @ r"
  by (induction p s rule: strip_prefix.induct) (auto split: if_splits)

text \<open>Splitting at a separator and joining with it, as JavaScript's \<open>split\<close> and \<open>join\<close>.\<close>

fun split_on :: "'a \<Rightarrow> 'a list \<Rightarrow> 'a list list" where
  "split_on c [] = [[]]"
| "split_on c (x # xs) =
     (if x = c then [] # split_on c xs
      else (case split_on c xs of s # ss \<Rightarrow> (x # s) # ss | [] \<Rightarrow> [[x]]))"

fun join_on :: "'a \<Rightarrow> 'a list list \<Rightarrow> 'a list" where
  "join_on c [] = []"
| "join_on c [s] = s"
| "join_on c (s # ss) = s @ c # join_on c ss"

lemma split_on_nonempty [simp]: "split_on c xs \<noteq> []"
  by (induction xs) (auto split: list.split)

lemma join_on_Cons: "join_on c (s # ss) = s @ (if ss = [] then [] else c # join_on c ss)"
  by (cases ss) auto

lemma join_split_on [simp]: "join_on c (split_on c xs) = xs"
proof (induction xs)
  case Nil
  then show ?case by simp
next
  case (Cons x xs)
  then show ?case
    by (auto simp: join_on_Cons split: list.split)
qed

lemma split_on_no_sep: "c \<notin> set xs \<Longrightarrow> split_on c xs = [xs]"
  by (induction xs) auto

lemma split_on_append_sep:
  "c \<notin> set xs \<Longrightarrow> split_on c (xs @ c # ys) = xs # split_on c ys"
  by (induction xs) auto

lemma split_join_on:
  "ss \<noteq> [] \<Longrightarrow> \<forall>s \<in> set ss. c \<notin> set s \<Longrightarrow> split_on c (join_on c ss) = ss"
proof (induction c ss rule: join_on.induct)
  case (1 c)
  then show ?case by simp
next
  case (2 c s)
  then show ?case by (simp add: split_on_no_sep)
next
  case (3 c s v va)
  then show ?case by (simp add: split_on_append_sep)
qed

end
