(* ===== verification/EcmaDate.thy ===== *)
theory EcmaDate
  imports Prelude
begin

text \<open>
  The calendar arithmetic behind \<open>new Date().getFullYear()\<close>, the one computation of
  \<open>src/website/docusaurus.config.js\<close> (line 230, inside the footer's copyright template).
  The abstract operations are those of ECMA-262, section 21.4.1 (Day, DaysInYear,
  DayFromYear, TimeFromYear, YearFromTime, LocalTime, TimeClip), over time values in
  milliseconds. ECMA-262 defines YearFromTime as "the largest integer y such that
  TimeFromYear(y) \<le> t", which no engine computes by search; \<open>year_of_days\<close> is the
  closed-form computation by 400-, 100-, 4- and 1-year cycles that engines use, and
  \<open>getFullYear_greatest\<close> proves it equal to the specification's definition.
\<close>

section \<open>ECMA-262 time arithmetic\<close>

definition msPerDay :: int where
  "msPerDay = 86400000"

definition Day :: "time_value \<Rightarrow> int" where
  "Day t = t div msPerDay"

definition DaysInYear :: "int \<Rightarrow> int" where
  "DaysInYear y =
     (if y mod 4 \<noteq> 0 then 365
      else if y mod 100 \<noteq> 0 then 366
      else if y mod 400 \<noteq> 0 then 365
      else 366)"

definition DayFromYear :: "int \<Rightarrow> int" where
  "DayFromYear y =
     365 * (y - 1970) + (y - 1969) div 4 - (y - 1901) div 100 + (y - 1601) div 400"

definition TimeFromYear :: "int \<Rightarrow> time_value" where
  "TimeFromYear y = msPerDay * DayFromYear y"

text \<open>
  Days since 1970-01-01 to the year containing them. \<open>n\<close> counts days from
  0001-01-01 (719162 days before the epoch); a 400-year cycle has 146097 days, a century
  36524 (its last year may be a leap year: the \<open>min 3\<close> keeps day 146096 of a cycle in
  its 400th year), a 4-year cycle 1461, a year 365 (the \<open>min 3\<close> keeps the leap day in
  the 4th year).
\<close>

definition year_of_days :: "int \<Rightarrow> int" where
  "year_of_days d =
     (let n = d + 719162;
          r400 = n mod 146097;
          c100 = min 3 (r400 div 36524);
          r100 = r400 - 36524 * c100;
          c4 = r100 div 1461;
          c1 = min 3 ((r100 mod 1461) div 365)
      in 400 * (n div 146097) + 100 * c100 + 4 * c4 + c1 + 1)"

definition YearFromTime :: "time_value \<Rightarrow> int" where
  "YearFromTime t = year_of_days (Day t)"

definition maxTime :: int where
  "maxTime = 8640000000000000"

text \<open>TimeClip on an integral time: out of range is NaN.\<close>

definition TimeClip :: "time_value \<Rightarrow> time_value option" where
  "TimeClip t = (if maxTime < \<bar>t\<bar> then None else Some t)"

text \<open>
  LocalTime(t) = t + offset(t): the host's time zone gives an offset for every UTC time
  (it changes with daylight saving), so the zone is a function \<open>tza\<close> from UTC time
  to offset in milliseconds.
\<close>

definition LocalTime :: "(time_value \<Rightarrow> int) \<Rightarrow> time_value \<Rightarrow> time_value" where
  "LocalTime tza t = t + tza t"

section \<open>The calls of line 230\<close>

text \<open>
  \<open>new Date()\<close> with no argument reads the host clock, \<open>now\<close> milliseconds since the
  epoch, as a time value; \<open>getFullYear\<close> returns NaN for NaN and otherwise the year of
  the local time (ECMA-262 21.4.4.4).
\<close>

definition new_Date :: "int \<Rightarrow> time_value option" where
  "new_Date now = TimeClip now"

definition getFullYear :: "(time_value \<Rightarrow> int) \<Rightarrow> time_value option \<Rightarrow> js_int" where
  "getFullYear tza tv = (case tv of None \<Rightarrow> None | Some t \<Rightarrow> Some (YearFromTime (LocalTime tza t)))"

section \<open>Lengths of years\<close>

lemma DaysInYear_ge: "365 \<le> DaysInYear y"
  by (simp add: DaysInYear_def)

lemma DaysInYear_le: "DaysInYear y \<le> 366"
  by (simp add: DaysInYear_def)

lemma DayFromYear_succ: "DayFromYear (y + 1) = DayFromYear y + DaysInYear y"
proof -
  have m4: "(y - 1969 + 1) mod 4 = y mod 4"
    using mod_shift [of 4 y "-492"] by simp
  have m100: "(y - 1901 + 1) mod 100 = y mod 100"
    using mod_shift [of 100 y "-19"] by simp
  have m400: "(y - 1601 + 1) mod 400 = y mod 400"
    using mod_shift [of 400 y "-4"] by simp
  have d4: "(y + 1 - 1969) div 4 = (y - 1969) div 4 + (if y mod 4 = 0 then 1 else 0)"
    using succ_div [of 4 "y - 1969"] m4 by (simp add: algebra_simps)
  have d100: "(y + 1 - 1901) div 100 = (y - 1901) div 100 + (if y mod 100 = 0 then 1 else 0)"
    using succ_div [of 100 "y - 1901"] m100 by (simp add: algebra_simps)
  have d400: "(y + 1 - 1601) div 400 = (y - 1601) div 400 + (if y mod 400 = 0 then 1 else 0)"
    using succ_div [of 400 "y - 1601"] m400 by (simp add: algebra_simps)
  show ?thesis
    unfolding DayFromYear_def DaysInYear_def d4 d100 d400
    using mod_zero_dvd_mono [of y 400 100] mod_zero_dvd_mono [of y 100 4] by simp
qed

lemma DayFromYear_strict_step: "DayFromYear y < DayFromYear (y + 1)"
  using DayFromYear_succ [of y] DaysInYear_ge [of y] by simp

lemma DayFromYear_mono: "a \<le> b \<Longrightarrow> DayFromYear a \<le> DayFromYear b"
  by (rule mono_from_succ [where f = DayFromYear, OF DayFromYear_strict_step])

lemma DayFromYear_less_mono: "a < b \<Longrightarrow> DayFromYear a < DayFromYear b"
  using DayFromYear_mono [of "a + 1" b] DayFromYear_strict_step [of a] by simp

section \<open>The cycle computation\<close>

lemma DayFromYear_cycle_form:
  "DayFromYear (m + 1) + 719162 = 365 * m + m div 4 - m div 100 + m div 400"
proof -
  have a: "(m + 1 - 1969) div 4 = m div 4 - 492"
  proof -
    have "m + 1 - 1969 = m + (-492) * 4" by simp
    then show ?thesis by simp
  qed
  have b: "(m + 1 - 1901) div 100 = m div 100 - 19"
  proof -
    have "m + 1 - 1901 = m + (-19) * 100" by simp
    then show ?thesis by simp
  qed
  have c: "(m + 1 - 1601) div 400 = m div 400 - 4"
  proof -
    have "m + 1 - 1601 = m + (-4) * 400" by simp
    then show ?thesis by simp
  qed
  show ?thesis unfolding DayFromYear_def a b c by simp
qed

lemma DayFromYear_400:
  "DayFromYear (400 * q + x + 1) = 146097 * q + DayFromYear (x + 1)"
proof -
  have "(400 * q + x) div 4 = x div 4 + 100 * q"
  proof -
    have "400 * q + x = x + (100 * q) * 4" by simp
    then show ?thesis by simp
  qed
  moreover have "(400 * q + x) div 100 = x div 100 + 4 * q"
  proof -
    have "400 * q + x = x + (4 * q) * 100" by simp
    then show ?thesis by simp
  qed
  moreover have "(400 * q + x) div 400 = x div 400 + q"
  proof -
    have "400 * q + x = x + q * 400" by simp
    then show ?thesis by simp
  qed
  ultimately show ?thesis
    using DayFromYear_cycle_form [of "400 * q + x"] DayFromYear_cycle_form [of x] by simp
qed

lemma DayFromYear_in_cycle:
  assumes "0 \<le> b" "b \<le> 3" "0 \<le> c" "c \<le> 24" "0 \<le> e" "e \<le> 3"
  shows "DayFromYear (100 * b + 4 * c + e + 1) + 719162 = 36524 * b + 1461 * c + 365 * e"
proof -
  let ?x = "100 * b + 4 * c + e"
  have "?x div 4 = 25 * b + c"
  proof -
    have "?x = e + (25 * b + c) * 4" by simp
    then show ?thesis using assms by (simp add: div_pos_pos_trivial)
  qed
  moreover have "?x div 100 = b"
  proof -
    have "?x = (4 * c + e) + b * 100" by simp
    then show ?thesis using assms by (simp add: div_pos_pos_trivial)
  qed
  moreover have "?x div 400 = 0"
    using assms by (simp add: div_pos_pos_trivial)
  ultimately show ?thesis
    using DayFromYear_cycle_form [of ?x] by simp
qed

lemma DaysInYear_400: "DaysInYear (400 * q + y) = DaysInYear y"
proof -
  have "(400 * q + y) mod 4 = y mod 4"
    using mod_shift [of 4 y "100 * q"] by (simp add: algebra_simps)
  moreover have "(400 * q + y) mod 100 = y mod 100"
    using mod_shift [of 100 y "4 * q"] by (simp add: algebra_simps)
  moreover have "(400 * q + y) mod 400 = y mod 400"
    using mod_shift [of 400 y q] by (simp add: algebra_simps)
  ultimately show ?thesis by (simp add: DaysInYear_def)
qed

lemma DaysInYear_leap_in_cycle:
  assumes "0 \<le> b" "b \<le> 3" "0 \<le> c" "c \<le> 23"
  shows "DaysInYear (100 * b + 4 * c + 4) = 366"
proof -
  have "100 * b + 4 * c + 4 = 0 + (25 * b + c + 1) * 4" by simp
  then have m4: "(100 * b + 4 * c + 4) mod 4 = 0" by (simp only: mod_mult_self1) simp
  have "100 * b + 4 * c + 4 = (4 * c + 4) + b * 100" by simp
  then have "(100 * b + 4 * c + 4) mod 100 = (4 * c + 4) mod 100" by (simp only: mod_mult_self1)
  also have "\<dots> = 4 * c + 4" using assms by (simp add: mod_pos_pos_trivial)
  finally have "(100 * b + 4 * c + 4) mod 100 \<noteq> 0" using assms by simp
  with m4 show ?thesis by (simp add: DaysInYear_def)
qed

lemma cycle_remainder:
  fixes r :: int
  assumes r: "0 \<le> r" "r < 146097"
  defines "b \<equiv> min 3 (r div 36524)"
  defines "r1 \<equiv> r - 36524 * b"
  defines "c \<equiv> r1 div 1461"
  defines "e \<equiv> min 3 ((r1 mod 1461) div 365)"
  shows "0 \<le> b \<and> b \<le> 3 \<and> 0 \<le> c \<and> c \<le> 24 \<and> 0 \<le> e \<and> e \<le> 3 \<and>
         0 \<le> r - (36524 * b + 1461 * c + 365 * e) \<and>
         r - (36524 * b + 1461 * c + 365 * e) < DaysInYear (100 * b + 4 * c + e + 1)"
proof -
  define q1 where "q1 = r div 36524"
  define s1 where "s1 = r mod 36524"
  have d1: "r = 36524 * q1 + s1" "0 \<le> s1" "s1 < 36524"
    using divmod_parts [of 36524 r] by (simp_all add: q1_def s1_def)
  have q1: "0 \<le> q1" "q1 \<le> 4" using d1 r by arith+
  have b_eq: "b = min 3 q1" by (simp add: b_def q1_def)
  have r1_cases: "(q1 \<le> 3 \<and> r1 = s1) \<or> (q1 = 4 \<and> r1 = 36524)"
    using d1 q1 r by (auto simp: r1_def b_eq min_def)
  define t where "t = r1 mod 1461"
  have d2: "r1 = 1461 * c + t" "0 \<le> t" "t < 1461"
    using divmod_parts [of 1461 r1] by (simp_all add: c_def t_def)
  have c: "0 \<le> c" "c \<le> 24" using d2 r1_cases d1 by arith+
  define e1 where "e1 = t div 365"
  define u where "u = t mod 365"
  have d3: "t = 365 * e1 + u" "0 \<le> u" "u < 365"
    using divmod_parts [of 365 t] by (simp_all add: e1_def u_def)
  have e1: "0 \<le> e1" "e1 \<le> 4" using d2 d3 by arith+
  have e_eq: "e = min 3 e1" by (simp add: e_def e1_def t_def)
  have rem: "r - (36524 * b + 1461 * c + 365 * e) = t - 365 * e"
    using d2 by (simp add: r1_def)
  have low: "0 \<le> t - 365 * e" using d3 e1 by (auto simp: e_eq min_def)
  have high: "t - 365 * e < DaysInYear (100 * b + 4 * c + e + 1)"
  proof (cases "e1 \<le> 3")
    case True
    then have "t - 365 * e = u" using d3 by (simp add: e_eq min_def)
    then show ?thesis using d3 DaysInYear_ge [of "100 * b + 4 * c + e + 1"] by simp
  next
    case False
    then have e1_4: "e1 = 4" "e = 3" "u = 0" "t = 1460"
      using e1 d3 d2 by (auto simp: e_eq min_def)
    show ?thesis
    proof (cases "c \<le> 23")
      case True
      have "DaysInYear (100 * b + 4 * c + 4) = 366"
        using DaysInYear_leap_in_cycle [of b c] True c b_eq q1 by (simp add: min_def)
      then show ?thesis using e1_4 by (simp add: add.assoc)
    next
      case False
      then have "c = 24" using c by simp
      then have "r1 = 36524" using d2 e1_4 by simp
      then have "b = 3" using r1_cases d1 b_eq by (auto simp: min_def)
      then show ?thesis using e1_4 \<open>c = 24\<close> by (simp add: DaysInYear_def)
    qed
  qed
  show ?thesis
    using q1 c e1 low high rem by (auto simp: b_eq e_eq min_def)
qed

text \<open>The cycle computation finds the year whose first day is at or before \<open>d\<close>
  and whose successor's first day is after it.\<close>

lemma year_of_days_bracket:
  "DayFromYear (year_of_days d) \<le> d \<and> d < DayFromYear (year_of_days d + 1)"
proof -
  define n where "n = d + 719162"
  define q where "q = n div 146097"
  define r where "r = n mod 146097"
  define b where "b = min 3 (r div 36524)"
  define r1 where "r1 = r - 36524 * b"
  define c where "c = r1 div 1461"
  define e where "e = min 3 ((r1 mod 1461) div 365)"
  have n: "n = 146097 * q + r" "0 \<le> r" "r < 146097"
    using divmod_parts [of 146097 n] by (simp_all add: q_def r_def)
  have cyc: "0 \<le> b \<and> b \<le> 3 \<and> 0 \<le> c \<and> c \<le> 24 \<and> 0 \<le> e \<and> e \<le> 3 \<and>
         0 \<le> r - (36524 * b + 1461 * c + 365 * e) \<and>
         r - (36524 * b + 1461 * c + 365 * e) < DaysInYear (100 * b + 4 * c + e + 1)"
    using cycle_remainder [OF n(2,3)] unfolding b_def r1_def c_def e_def by simp
  have y: "year_of_days d = 400 * q + (100 * b + 4 * c + e) + 1"
    unfolding year_of_days_def Let_def n_def [symmetric] r_def [symmetric] q_def [symmetric]
      b_def [symmetric] r1_def [symmetric] c_def [symmetric] e_def [symmetric]
    by (simp only: add.assoc)
  have start: "DayFromYear (year_of_days d) = 146097 * q + 36524 * b + 1461 * c + 365 * e - 719162"
    using DayFromYear_400 [of q "100 * b + 4 * c + e"] DayFromYear_in_cycle [of b c e] cyc
    unfolding y by linarith
  have len: "DaysInYear (year_of_days d) = DaysInYear (100 * b + 4 * c + e + 1)"
    unfolding y using DaysInYear_400 [of q "100 * b + 4 * c + e + 1"] by (simp add: add.assoc)
  have "d = n - 719162" by (simp add: n_def)
  then show ?thesis
    using start len cyc n DayFromYear_succ [of "year_of_days d"] by linarith
qed

section \<open>YearFromTime against its specification\<close>

lemma TimeFromYear_le_iff: "TimeFromYear y \<le> t \<longleftrightarrow> DayFromYear y \<le> Day t"
  unfolding TimeFromYear_def Day_def by (rule le_div_iff_mult_le) (simp add: msPerDay_def)

lemma YearFromTime_bracket:
  "TimeFromYear (YearFromTime t) \<le> t \<and> t < TimeFromYear (YearFromTime t + 1)"
  using year_of_days_bracket [of "Day t"] TimeFromYear_le_iff [of "YearFromTime t" t]
    TimeFromYear_le_iff [of "YearFromTime t + 1" t]
  by (simp add: YearFromTime_def not_le [symmetric])

lemma YearFromTime_ge: "TimeFromYear y \<le> t \<Longrightarrow> y \<le> YearFromTime t"
proof (rule ccontr)
  assume le: "TimeFromYear y \<le> t" and "\<not> y \<le> YearFromTime t"
  then have "YearFromTime t + 1 \<le> y" by simp
  then have "DayFromYear (YearFromTime t + 1) \<le> DayFromYear y" by (rule DayFromYear_mono)
  moreover have "DayFromYear y \<le> Day t" using le by (simp add: TimeFromYear_le_iff)
  moreover have "Day t < DayFromYear (YearFromTime t + 1)"
    using YearFromTime_bracket [of t] TimeFromYear_le_iff [of "YearFromTime t + 1" t] by simp
  ultimately show False by simp
qed

lemma YearFromTime_Greatest: "YearFromTime t = (GREATEST y. TimeFromYear y \<le> t)"
  by (rule Greatest_equality [symmetric]) (simp_all add: YearFromTime_bracket YearFromTime_ge)

lemma YearFromTime_mono: "t \<le> t' \<Longrightarrow> YearFromTime t \<le> YearFromTime t'"
  using YearFromTime_bracket [of t] by (intro YearFromTime_ge) simp

lemma YearFromTime_extremes:
  "YearFromTime (maxTime + msPerDay - 1) = 275760"
  "YearFromTime (- maxTime - msPerDay + 1) = -271821"
  by (simp_all add: YearFromTime_def year_of_days_def Day_def msPerDay_def maxTime_def Let_def)

section \<open>Properties of getFullYear\<close>

text \<open>C4: the year \<open>getFullYear\<close> returns for a time value is ECMA-262's YearFromTime of
  the local time, literally: the largest \<open>y\<close> with \<open>TimeFromYear(y) \<le> LocalTime(t)\<close>.\<close>

theorem getFullYear_greatest:
  "getFullYear tza (Some t) = Some (GREATEST y. TimeFromYear y \<le> LocalTime tza t)"
  by (simp add: getFullYear_def YearFromTime_Greatest)

text \<open>C5: for any time zone whose offset stays under a day (as ECMA-262 requires of the
  host), the year of \<open>new Date()\<close> lies between -271821 and 275760, the years of the
  first and last representable time values.\<close>

theorem getFullYear_bounds:
  assumes tz: "\<forall>t. \<bar>tza t\<bar> < msPerDay" and y: "getFullYear tza (new_Date now) = Some y"
  shows "-271821 \<le> y \<and> y \<le> 275760"
proof -
  have now: "\<bar>now\<bar> \<le> maxTime" and yv: "y = YearFromTime (LocalTime tza now)"
    using y by (auto simp: getFullYear_def new_Date_def TimeClip_def split: if_splits)
  have "- maxTime - msPerDay + 1 \<le> LocalTime tza now" "LocalTime tza now \<le> maxTime + msPerDay - 1"
    using now tz [rule_format, of now] by (simp_all add: LocalTime_def)
  then have "YearFromTime (- maxTime - msPerDay + 1) \<le> y" "y \<le> YearFromTime (maxTime + msPerDay - 1)"
    unfolding yv by (simp_all add: YearFromTime_mono)
  then show ?thesis by (simp add: YearFromTime_extremes)
qed

theorem getFullYear_bounds_witness:
  "(\<forall>t. \<bar>(\<lambda>_. 0::int) t\<bar> < msPerDay) \<and> getFullYear (\<lambda>_. 0) (new_Date 0) = Some 1970 \<and>
   -271821 \<le> (1970::int) \<and> (1970::int) \<le> 275760"
proof -
  have tz: "\<forall>t. \<bar>(\<lambda>_. 0::int) t\<bar> < msPerDay" by (simp add: msPerDay_def)
  have y: "getFullYear (\<lambda>_. 0) (new_Date 0) = Some 1970"
    by (simp add: getFullYear_def new_Date_def TimeClip_def maxTime_def LocalTime_def
        YearFromTime_def year_of_days_def Day_def msPerDay_def Let_def)
  show ?thesis using getFullYear_bounds [OF tz y] tz y by simp
qed

end
