(* ===== verification/JsNumber.thy ===== *)
theory JsNumber
  imports Prelude
begin

text \<open>
  The string conversion a template literal applies to its substitutions: in
  \<open>`Copyright \<copyright> ${new Date().getFullYear()} ...`\<close> the year, a Number, becomes a string by
  ECMA-262's Number::toString (section 6.1.6.1.20) with radix 10. For NaN it is
  \<open>"NaN"\<close>; for an integer \<open>x\<close> with \<open>|x| < 10\<^sup>2\<^sup>1\<close> it is \<open>"-"\<close> for a negative
  value followed by the decimal digits of \<open>|x|\<close> without leading zeros (the exponent
  notation starts at \<open>10\<^sup>2\<^sup>1\<close>, far beyond any year, see \<open>EcmaDate\<close>). The inverse
  \<open>parse_integer\<close> reads such a string back; it is the reader of the round-trip lemma,
  not code of the repository.
\<close>

definition digit_char :: "nat \<Rightarrow> char" where
  "digit_char d = char_of (48 + d)"

definition char_digit :: "char \<Rightarrow> nat option" where
  "char_digit c = (let k = of_char c :: nat in if 48 \<le> k \<and> k < 58 then Some (k - 48) else None)"

fun nat_to_decimal :: "nat \<Rightarrow> string" where
  "nat_to_decimal n =
     (if n < 10 then [digit_char n] else nat_to_decimal (n div 10) @ [digit_char (n mod 10)])"

declare nat_to_decimal.simps [simp del]

definition Number_toString :: "js_int \<Rightarrow> js_string" where
  "Number_toString x =
     (case x of
        None \<Rightarrow> ''NaN''
      | Some i \<Rightarrow> if i < 0 then CHR ''-'' # nat_to_decimal (nat (- i)) else nat_to_decimal (nat i))"

fun decimal_value :: "nat \<Rightarrow> string \<Rightarrow> nat option" where
  "decimal_value acc [] = Some acc"
| "decimal_value acc (c # cs) =
     (case char_digit c of None \<Rightarrow> None | Some d \<Rightarrow> decimal_value (10 * acc + d) cs)"

definition parse_decimal :: "string \<Rightarrow> nat option" where
  "parse_decimal s = (if s = [] then None else decimal_value 0 s)"

definition parse_integer :: "string \<Rightarrow> int option" where
  "parse_integer s =
     (if s = ''NaN'' then None
      else if s \<noteq> [] \<and> hd s = CHR ''-'' then map_option (\<lambda>n. - int n) (parse_decimal (tl s))
      else map_option int (parse_decimal s))"

section \<open>Digits\<close>

lemma of_char_digit_char: "d < 10 \<Longrightarrow> of_char (digit_char d) = (48 + d :: nat)"
  by (simp add: digit_char_def)

lemma char_digit_digit_char [simp]: "d < 10 \<Longrightarrow> char_digit (digit_char d) = Some d"
  by (simp add: char_digit_def of_char_digit_char)

lemma digit_char_range:
  assumes "d < 10" and "digit_char d = c"
  shows "48 \<le> (of_char c :: nat) \<and> (of_char c :: nat) < 58"
  using assms of_char_digit_char [of d] by auto

lemma nat_to_decimal_nonempty [simp]: "nat_to_decimal n \<noteq> []"
  by (subst nat_to_decimal.simps) simp

lemma nat_to_decimal_digits: "c \<in> set (nat_to_decimal n) \<Longrightarrow> \<exists>d < 10. c = digit_char d"
proof (induction n rule: nat_to_decimal.induct)
  case (1 n)
  show ?case
  proof (cases "n < 10")
    case True
    with "1.prems" show ?thesis by (auto simp: nat_to_decimal.simps [of n])
  next
    case False
    with "1.prems" have "c \<in> set (nat_to_decimal (n div 10)) \<or> c = digit_char (n mod 10)"
      by (auto simp: nat_to_decimal.simps [of n])
    then show ?thesis
    proof
      assume "c \<in> set (nat_to_decimal (n div 10))"
      then show ?thesis using "1.IH" False by blast
    next
      assume "c = digit_char (n mod 10)"
      then show ?thesis by (intro exI [of _ "n mod 10"]) simp
    qed
  qed
qed

lemma nat_to_decimal_char_range:
  "c \<in> set (nat_to_decimal n) \<Longrightarrow> 48 \<le> (of_char c :: nat) \<and> (of_char c :: nat) < 58"
  using nat_to_decimal_digits [of c n] digit_char_range by blast

lemma hd_nat_to_decimal_not_minus: "hd (nat_to_decimal n) \<noteq> CHR ''-''"
  using nat_to_decimal_char_range [of "hd (nat_to_decimal n)" n] by auto

lemma space_notin_nat_to_decimal: "CHR '' '' \<notin> set (nat_to_decimal n)"
  using nat_to_decimal_char_range [of "CHR '' ''" n] by auto

section \<open>Reading the digits back\<close>

lemma decimal_value_append:
  "decimal_value acc (xs @ ys) = (case decimal_value acc xs of None \<Rightarrow> None | Some a \<Rightarrow> decimal_value a ys)"
  by (induction acc xs rule: decimal_value.induct) (auto split: option.split)

lemma decimal_value_nat_to_decimal:
  "decimal_value acc (nat_to_decimal n) = Some (acc * 10 ^ length (nat_to_decimal n) + n)"
proof (induction n arbitrary: acc rule: nat_to_decimal.induct)
  case (1 n)
  show ?case
  proof (cases "n < 10")
    case True
    then show ?thesis by (simp add: nat_to_decimal.simps [of n])
  next
    case False
    let ?p = "nat_to_decimal (n div 10)"
    have "decimal_value acc (nat_to_decimal n) = decimal_value acc (?p @ [digit_char (n mod 10)])"
      using False by (simp add: nat_to_decimal.simps [of n])
    also have "\<dots> = Some (10 * (acc * 10 ^ length ?p + n div 10) + n mod 10)"
      using "1.IH" False by (simp add: decimal_value_append)
    also have "10 * (acc * 10 ^ length ?p + n div 10) + n mod 10 = acc * 10 ^ (length ?p + 1) + n"
      by (simp add: algebra_simps)
    finally show ?thesis using False by (simp add: nat_to_decimal.simps [of n])
  qed
qed

lemma parse_decimal_nat_to_decimal [simp]: "parse_decimal (nat_to_decimal n) = Some n"
  by (simp add: parse_decimal_def decimal_value_nat_to_decimal)

lemma nat_to_decimal_not_NaN: "nat_to_decimal n \<noteq> ''NaN''"
  using nat_to_decimal_char_range [of "CHR ''N''" n] by auto

lemma parse_integer_Number_toString: "parse_integer (Number_toString x) = x"
proof (cases x)
  case None
  then show ?thesis by (simp add: Number_toString_def parse_integer_def)
next
  case (Some i)
  show ?thesis
  proof (cases "i < 0")
    case True
    then show ?thesis by (simp add: Some Number_toString_def parse_integer_def)
  next
    case False
    then show ?thesis
      using hd_nat_to_decimal_not_minus [of "nat i"] nat_to_decimal_not_NaN [of "nat i"]
      by (simp add: Some Number_toString_def parse_integer_def)
  qed
qed

lemma space_notin_Number_toString: "CHR '' '' \<notin> set (Number_toString x)"
  using space_notin_nat_to_decimal by (auto simp: Number_toString_def split: option.split)

end
