(* ===== verification/NodePath.thy ===== *)
theory NodePath
  imports Prelude
begin

text \<open>
  What \<open>require.resolve(request)\<close> does in Node.js, as the configuration calls it
  (\<open>require.resolve('./sidebars.js')\<close>, line 191, and
  \<open>require.resolve('./src/css/custom.css')\<close>, line 197): the POSIX path operations
  \<open>path.resolve\<close> and \<open>path.dirname\<close> of \<open>lib/path.js\<close>, and the resolution of
  \<open>Module._resolveFilename\<close> / \<open>Module._findPath\<close> of \<open>lib/internal/modules/cjs/loader.js\<close>:
  the lookup paths of a request; for a bare request the \<open>exports\<close> of the package's
  \<open>package.json\<close> under the CommonJS conditions (\<open>resolveExports\<close>); the exact file, the
  file with each registered extension; and for a directory its \<open>package.json\<close> \<open>main\<close>,
  then its index (\<open>tryPackage\<close>). The file system is a map from absolute paths to the
  kind of entry there, with the parsed \<open>package.json\<close> files beside it. A request that
  resolves nowhere throws \<open>MODULE_NOT_FOUND\<close>; a package whose \<open>exports\<close> or \<open>main\<close>
  is wrong throws its own error and stops the search. Not modelled: symbolic links
  (\<open>realpath\<close>), built-in module names, the global folders after the \<open>node_modules\<close>
  chain, a package resolving itself by name, arrays of fallbacks and \<open>*\<close> patterns in
  \<open>exports\<close>, and the \<open>module-sync\<close> condition of recent Node releases.
\<close>

datatype fkind = File | Dir

type_synonym fs = "path \<Rightarrow> fkind option"

text \<open>The errors resolution can throw, by their \<open>code\<close>, with the module, package path or
  target their message names.\<close>

datatype load_error =
    MODULE_NOT_FOUND js_string
  | ERR_PACKAGE_PATH_NOT_EXPORTED path js_string
  | ERR_INVALID_PACKAGE_TARGET path js_string
  | ERR_INVALID_PACKAGE_CONFIG path

section \<open>path.resolve\<close>

definition is_absolute :: "path \<Rightarrow> bool" where
  "is_absolute p \<longleftrightarrow> p \<noteq> [] \<and> hd p = CHR ''/''"

text \<open>
  The loop of \<open>path.resolve(...args)\<close>: from the last argument to the first, skip empty
  ones, prepend each as \<open>path + '/' + resolved\<close>, and stop at the first absolute one;
  without one, the working directory (absolute, as \<open>process.cwd()\<close> always is) comes first.
\<close>

fun resolve_prefix :: "path list \<Rightarrow> path \<Rightarrow> path \<times> bool" where
  "resolve_prefix [] acc = (acc, False)"
| "resolve_prefix (p # ps) acc =
     (if p = [] then resolve_prefix ps acc
      else if is_absolute p then (p @ CHR ''/'' # acc, True)
      else resolve_prefix ps (p @ CHR ''/'' # acc))"

text \<open>
  \<open>normalizeString\<close> with \<open>allowAboveRoot = false\<close>, segment by segment: empty
  segments and \<open>.\<close> are dropped, \<open>..\<close> removes the last kept segment (nothing at the
  root), every other segment is kept.
\<close>

fun norm_step :: "path list \<Rightarrow> path \<Rightarrow> path list" where
  "norm_step acc s =
     (if s = [] \<or> s = ''.'' then acc else if s = ''..'' then tl acc else s # acc)"

definition normalize_segs :: "path list \<Rightarrow> path list" where
  "normalize_segs ss = rev (foldl norm_step [] ss)"

definition abs_path :: "path list \<Rightarrow> path" where
  "abs_path segs = CHR ''/'' # join_on CHR ''/'' segs"

definition path_resolve :: "path \<Rightarrow> path list \<Rightarrow> path" where
  "path_resolve cwd args =
     (let (r, absolute) = resolve_prefix (rev args) [];
          full = (if absolute then r else cwd @ CHR ''/'' # r)
      in abs_path (normalize_segs (split_on CHR ''/'' full)))"

text \<open>
  \<open>path.dirname\<close>: scan from the end (down to index 1), skip trailing slashes, skip the
  last segment; the slash found there ends the result. None found gives \<open>/\<close> for an
  absolute path and \<open>.\<close> otherwise; a slash at index 1 of an absolute path gives \<open>//\<close>.
\<close>

definition dirname :: "path \<Rightarrow> path" where
  "dirname p =
     (if p = [] then ''.''
      else
        let r = dropWhile (\<lambda>c. c \<noteq> CHR ''/'') (dropWhile (\<lambda>c. c = CHR ''/'') (rev (tl p)))
        in if r = [] then (if hd p = CHR ''/'' then ''/'' else ''.'')
           else if hd p = CHR ''/'' \<and> tl r = [] then ''//''
           else hd p # rev (tl r))"

section \<open>Module resolution\<close>

text \<open>The keys of \<open>Module._extensions\<close>, in registration order.\<close>

definition extensions :: "js_string list" where
  "extensions = [''.js'', ''.json'', ''.node'']"

fun try_extensions :: "fs \<Rightarrow> path \<Rightarrow> js_string list \<Rightarrow> path option" where
  "try_extensions fs base [] = None"
| "try_extensions fs base (e # es) =
     (if fs (base @ e) = Some File then Some (base @ e) else try_extensions fs base es)"

text \<open>A request whose last segment is empty, \<open>.\<close> or \<open>..\<close> names a directory.\<close>

definition trailing_slash :: "js_string \<Rightarrow> bool" where
  "trailing_slash request \<longleftrightarrow>
     request \<noteq> [] \<and> last (split_on CHR ''/'' request) \<in> {[], ''.'', ''..''}"

subsection \<open>package.json\<close>

text \<open>The two fields of a \<open>package.json\<close> resolution reads. A value of \<open>exports\<close> is a
  target string, \<open>null\<close>, or an object whose keys are subpaths (starting with \<open>.\<close>) or
  conditions, in the order of the file.\<close>

datatype export_target = ExportPath js_string | ExportNull | ExportObject "(js_string \<times> export_target) list"

record package_json =
  pkg_main :: "js_string option"
  pkg_exports :: "export_target option"

type_synonym pkgs = "path \<Rightarrow> package_json option"

text \<open>\<open>getCjsConditions()\<close>: the conditions a \<open>require\<close> matches, besides \<open>default\<close>.\<close>

definition cjs_conditions :: "js_string list" where
  "cjs_conditions = [''require'', ''node'', ''node-addons'']"

text \<open>\<open>readPackage\<close>: the parsed \<open>package.json\<close> of a directory, if it has one.\<close>

definition read_package :: "fs \<Rightarrow> pkgs \<Rightarrow> path \<Rightarrow> path \<Rightarrow> package_json option" where
  "read_package fs pkgs cwd dir =
     (let pj = path_resolve cwd [dir, ''package.json''] in
      if fs dir = Some Dir \<and> fs pj = Some File then pkgs pj else None)"

text \<open>\<open>EXPORTS_PATTERN\<close>: a bare request is a package name, scoped (\<open>@scope/name\<close>) or
  not, followed by the subpath it asks of the package.\<close>

definition pkg_name_seg :: "js_string \<Rightarrow> bool" where
  "pkg_name_seg s \<longleftrightarrow> s \<noteq> [] \<and> CHR 0x5C \<notin> set s \<and> CHR ''%'' \<notin> set s"

definition exports_split :: "js_string \<Rightarrow> (js_string \<times> js_string) option" where
  "exports_split r =
     (case split_on CHR ''/'' r of
        [] \<Rightarrow> None
      | n # rest \<Rightarrow>
          if hd n = CHR ''@'' \<and> length n \<ge> 2 \<and> pkg_name_seg n \<and> rest \<noteq> [] \<and>
             pkg_name_seg (hd rest) \<and> hd (hd rest) \<noteq> CHR ''.''
          then Some (n @ CHR ''/'' # hd rest, concat (map (\<lambda>s. CHR ''/'' # s) (tl rest)))
          else if pkg_name_seg n \<and> hd n \<noteq> CHR ''.''
          then Some (n, concat (map (\<lambda>s. CHR ''/'' # s) rest))
          else None)"

text \<open>\<open>resolvePackageTarget\<close>: a target string must start with \<open>./\<close> and have no
  \<open>.\<close>, \<open>..\<close> or \<open>node_modules\<close> segment; in a conditions object the first key that is
  \<open>default\<close> or an active condition and resolves to something wins; \<open>null\<close> stops the
  search.\<close>

definition valid_export_target :: "js_string \<Rightarrow> bool" where
  "valid_export_target t \<longleftrightarrow>
     take 2 t = ''./'' \<and>
     list_all (\<lambda>s. s \<noteq> ''.'' \<and> s \<noteq> ''..'' \<and> s \<noteq> ''node_modules'') (split_on CHR ''/'' (drop 2 t))"

datatype target_result = Resolved js_string | TargetNull | TargetUndefined

fun resolve_target :: "js_string list \<Rightarrow> path \<Rightarrow> export_target \<Rightarrow> load_error + target_result"
and resolve_conditions ::
  "js_string list \<Rightarrow> path \<Rightarrow> (js_string \<times> export_target) list \<Rightarrow> load_error + target_result" where
  "resolve_target conds pkg (ExportPath t) =
     (if valid_export_target t then Inr (Resolved t) else Inl (ERR_INVALID_PACKAGE_TARGET pkg t))"
| "resolve_target conds pkg ExportNull = Inr TargetNull"
| "resolve_target conds pkg (ExportObject kvs) = resolve_conditions conds pkg kvs"
| "resolve_conditions conds pkg [] = Inr TargetUndefined"
| "resolve_conditions conds pkg ((k, t) # kvs) =
     (if k = ''default'' \<or> k \<in> set conds
      then (case resolve_target conds pkg t of
              Inr TargetUndefined \<Rightarrow> resolve_conditions conds pkg kvs
            | r \<Rightarrow> r)
      else resolve_conditions conds pkg kvs)"

text \<open>\<open>packageExportsResolve\<close> for a subpath without patterns: an \<open>exports\<close> that is a
  string or an object of conditions stands for \<open>{".": exports}\<close> (mixing subpath and
  condition keys is an error); the entry for the subpath must resolve to a target.\<close>

definition is_subpath_key :: "js_string \<Rightarrow> bool" where
  "is_subpath_key k \<longleftrightarrow> k \<noteq> [] \<and> hd k = CHR ''.''"

definition package_exports_resolve ::
  "js_string list \<Rightarrow> path \<Rightarrow> export_target \<Rightarrow> js_string \<Rightarrow> load_error + js_string" where
  "package_exports_resolve conds pkg exps subpath =
     bind_res
       (case exps of
          ExportObject kvs \<Rightarrow>
            if list_all (\<lambda>(k, _). is_subpath_key k) kvs then Inr (map_of kvs subpath)
            else if list_all (\<lambda>(k, _). \<not> is_subpath_key k) kvs
            then Inr (if subpath = ''.'' then Some exps else None)
            else Inl (ERR_INVALID_PACKAGE_CONFIG pkg)
        | _ \<Rightarrow> Inr (if subpath = ''.'' then Some exps else None))
       (\<lambda>entry. case entry of
          None \<Rightarrow> Inl (ERR_PACKAGE_PATH_NOT_EXPORTED pkg subpath)
        | Some t \<Rightarrow> bind_res (resolve_target conds pkg t) (\<lambda>r. case r of
            Resolved f \<Rightarrow> Inr f
          | _ \<Rightarrow> Inl (ERR_PACKAGE_PATH_NOT_EXPORTED pkg subpath)))"

text \<open>\<open>resolveExports(nmPath, request)\<close>: when the package named by the request sits in
  the lookup path and its \<open>package.json\<close> has \<open>exports\<close>, they decide, and the file they
  name must exist.\<close>

definition resolve_exports :: "fs \<Rightarrow> pkgs \<Rightarrow> path \<Rightarrow> path \<Rightarrow> js_string \<Rightarrow> load_error + path option" where
  "resolve_exports fs pkgs cwd nm request =
     (case exports_split request of
        None \<Rightarrow> Inr None
      | Some (name, expansion) \<Rightarrow>
          (let pkg = path_resolve cwd [nm, name] in
           case read_package fs pkgs cwd pkg of
             None \<Rightarrow> Inr None
           | Some pj \<Rightarrow>
               (case pkg_exports pj of
                  None \<Rightarrow> Inr None
                | Some exps \<Rightarrow>
                    if exps = ExportNull then Inr None
                    else bind_res (package_exports_resolve cjs_conditions pkg exps (CHR ''.'' # expansion))
                      (\<lambda>t. let f = path_resolve cwd [pkg, t] in
                           if fs f = Some File then Inr (Some f) else Inl (MODULE_NOT_FOUND f)))))"

text \<open>\<open>tryPackage\<close>: a directory's \<open>main\<close> as a file, with an extension, or as a directory
  with an index; failing that the directory's own index, and if there is none either, an
  error naming the \<open>main\<close> file. Without a \<open>main\<close>, only the directory's index.\<close>

definition try_package :: "fs \<Rightarrow> pkgs \<Rightarrow> path \<Rightarrow> path \<Rightarrow> load_error + path option" where
  "try_package fs pkgs cwd base =
     (let index = try_extensions fs (path_resolve cwd [base, ''index'']) extensions in
      case read_package fs pkgs cwd base of
        None \<Rightarrow> Inr index
      | Some pj \<Rightarrow>
          (case pkg_main pj of
             None \<Rightarrow> Inr index
           | Some m \<Rightarrow>
               if m = [] then Inr index
               else
                 (let filename = path_resolve cwd [base, m];
                      actual = (if fs filename = Some File then Some filename
                                else case try_extensions fs filename extensions of
                                       Some f \<Rightarrow> Some f
                                     | None \<Rightarrow> try_extensions fs (path_resolve cwd [filename, ''index'']) extensions)
                  in case actual of
                       Some f \<Rightarrow> Inr (Some f)
                     | None \<Rightarrow> (case index of
                                  Some f \<Rightarrow> Inr (Some f)
                                | None \<Rightarrow> Inl (MODULE_NOT_FOUND filename)))))"

subsection \<open>Module._findPath and Module._resolveFilename\<close>

text \<open>One lookup path of \<open>Module._findPath\<close>: the package's \<open>exports\<close> (for a request that
  is not absolute), the file itself, then with each extension (unless the request names a
  directory), then the directory as a package. \<open>Inr None\<close> goes on to the next path.\<close>

definition find_in :: "fs \<Rightarrow> pkgs \<Rightarrow> path \<Rightarrow> js_string \<Rightarrow> path \<Rightarrow> load_error + path option" where
  "find_in fs pkgs cwd request cur =
     bind_res (if is_absolute request then Inr None else resolve_exports fs pkgs cwd cur request)
       (\<lambda>exported. case exported of
          Some f \<Rightarrow> Inr (Some f)
        | None \<Rightarrow>
           (let base = path_resolve cwd [cur, request];
                file = (if trailing_slash request then None
                        else if fs base = Some File then Some base
                        else try_extensions fs base extensions)
            in case file of
                 Some f \<Rightarrow> Inr (Some f)
               | None \<Rightarrow> if fs base = Some Dir then try_package fs pkgs cwd base else Inr None))"

fun first_found :: "('a \<Rightarrow> 'e + 'b option) \<Rightarrow> 'a list \<Rightarrow> 'e + 'b option" where
  "first_found f [] = Inr None"
| "first_found f (x # xs) = bind_res (f x) (\<lambda>r. case r of Some y \<Rightarrow> Inr (Some y) | None \<Rightarrow> first_found f xs)"

text \<open>\<open>Module._resolveLookupPaths\<close>: a request is relative when it starts with
  \<open>.\<close> followed by nothing, \<open>.\<close> or \<open>/\<close>.\<close>

definition is_relative_request :: "js_string \<Rightarrow> bool" where
  "is_relative_request r \<longleftrightarrow>
     r \<noteq> [] \<and> hd r = CHR ''.'' \<and> (tl r = [] \<or> hd (tl r) = CHR ''.'' \<or> hd (tl r) = CHR ''/'')"

text \<open>\<open>Module._nodeModulePaths(from)\<close>: \<open>node_modules\<close> under every ancestor of
  \<open>from\<close>, the deepest first, except under a segment that is itself \<open>node_modules\<close>.\<close>

definition node_module_paths :: "path \<Rightarrow> path \<Rightarrow> path list" where
  "node_module_paths cwd from =
     (let segs = normalize_segs (split_on CHR ''/'' (tl (path_resolve cwd [from])));
          prefixes = map (\<lambda>n. take n segs) (rev [1..<Suc (length segs)])
      in map (\<lambda>ps. abs_path (ps @ [''node_modules'']))
             (filter (\<lambda>ps. last ps \<noteq> ''node_modules'') prefixes) @ [''/node_modules''])"

text \<open>\<open>Module._findPath\<close> over the lookup paths, and the throw of
  \<open>Module._resolveFilename\<close> when no path answers.\<close>

definition find_path :: "fs \<Rightarrow> pkgs \<Rightarrow> path \<Rightarrow> js_string \<Rightarrow> path list \<Rightarrow> load_error + path" where
  "find_path fs pkgs cwd request paths =
     bind_res (first_found (find_in fs pkgs cwd request) paths)
       (\<lambda>r. case r of Some f \<Rightarrow> Inr f | None \<Rightarrow> Inl (MODULE_NOT_FOUND request))"

definition require_resolve :: "fs \<Rightarrow> pkgs \<Rightarrow> path \<Rightarrow> path \<Rightarrow> js_string \<Rightarrow> load_error + path" where
  "require_resolve fs pkgs cwd parent request =
     find_path fs pkgs cwd request
       (if is_absolute request then [[]]
        else if is_relative_request request then [dirname parent]
        else node_module_paths cwd (dirname parent))"

text \<open>No file answers a request for \<open>base\<close>: neither the file, nor the file with an
  extension, nor a directory.\<close>

definition no_module_at :: "fs \<Rightarrow> path \<Rightarrow> bool" where
  "no_module_at fs base \<longleftrightarrow>
     fs base \<noteq> Some File \<and> fs base \<noteq> Some Dir \<and> list_all (\<lambda>x. fs (base @ x) \<noteq> Some File) extensions"

section \<open>Normal form of paths\<close>

definition clean_seg :: "path \<Rightarrow> bool" where
  "clean_seg s \<longleftrightarrow> s \<noteq> [] \<and> s \<noteq> ''.'' \<and> s \<noteq> ''..'' \<and> CHR ''/'' \<notin> set s"

text \<open>An absolute path without empty, \<open>.\<close> or \<open>..\<close> segments and without a trailing
  slash: the form \<open>path.resolve\<close> returns.\<close>

definition is_normalized :: "path \<Rightarrow> bool" where
  "is_normalized p \<longleftrightarrow>
     is_absolute p \<and> (tl p = [] \<or> list_all clean_seg (split_on CHR ''/'' (tl p)))"

lemma split_on_append: "split_on c (xs @ c # ys) = split_on c xs @ split_on c ys"
proof (induction xs)
  case Nil
  then show ?case by simp
next
  case (Cons x xs)
  obtain s ss where "split_on c xs = s # ss"
    using split_on_nonempty [of c xs] by (cases "split_on c xs") auto
  with Cons show ?case by simp
qed

lemma split_on_sep_free: "s \<in> set (split_on c xs) \<Longrightarrow> c \<notin> set s"
proof (induction xs arbitrary: s)
  case Nil
  then show ?case by simp
next
  case (Cons x xs)
  obtain t ts where t: "split_on c xs = t # ts"
    using split_on_nonempty [of c xs] by (cases "split_on c xs") auto
  show ?case
  proof (cases "x = c")
    case True
    with Cons show ?thesis by auto
  next
    case False
    with Cons.prems t have "s = x # t \<or> s \<in> set ts" by auto
    then show ?thesis using Cons.IH [of t] Cons.IH t False by auto
  qed
qed

lemma join_on_snoc:
  "join_on c (xs @ [y]) = (if xs = [] then y else join_on c xs @ c # y)"
  by (induction c xs rule: join_on.induct) auto

lemma foldl_norm_step_clean:
  "list_all clean_seg ss \<Longrightarrow> foldl norm_step acc ss = rev ss @ acc"
  by (induction ss arbitrary: acc) (auto simp: clean_seg_def)

lemma foldl_norm_step_keeps_clean:
  assumes "list_all clean_seg acc" and "\<forall>s \<in> set ss. CHR ''/'' \<notin> set s"
  shows "list_all clean_seg (foldl norm_step acc ss)"
  using assms
proof (induction ss arbitrary: acc)
  case Nil
  then show ?case by simp
next
  case (Cons s ss)
  have tl: "list_all clean_seg (tl acc)" using Cons.prems(1) by (cases acc) auto
  have "s \<noteq> [] \<and> s \<noteq> ''.'' \<and> s \<noteq> ''..'' \<Longrightarrow> clean_seg s"
    using Cons.prems(2) by (simp add: clean_seg_def)
  then have "list_all clean_seg (norm_step acc s)"
    using Cons.prems(1) tl by auto
  then show ?case using Cons.IH Cons.prems by simp
qed

lemma foldl_norm_step_join:
  "list_all clean_seg segs \<Longrightarrow>
   foldl norm_step acc (split_on CHR ''/'' (join_on CHR ''/'' segs)) = rev segs @ acc"
proof (cases "segs = []")
  case True
  then show ?thesis by simp
next
  case False
  assume "list_all clean_seg segs"
  moreover then have "\<forall>s \<in> set segs. CHR ''/'' \<notin> set s"
    by (simp add: clean_seg_def list_all_iff)
  ultimately show ?thesis
    using False by (simp add: split_join_on foldl_norm_step_clean)
qed

lemma normalize_segs_clean: "list_all clean_seg (normalize_segs (split_on CHR ''/'' p))"
proof -
  have "\<forall>s \<in> set (split_on CHR ''/'' p). CHR ''/'' \<notin> set s"
    by (blast dest: split_on_sep_free)
  then show ?thesis
    using foldl_norm_step_keeps_clean [of "[]" "split_on CHR ''/'' p"] by (simp add: normalize_segs_def)
qed

lemma is_normalized_abs_path: "list_all clean_seg segs \<Longrightarrow> is_normalized (abs_path segs)"
proof -
  assume clean: "list_all clean_seg segs"
  have "segs \<noteq> [] \<Longrightarrow> split_on CHR ''/'' (join_on CHR ''/'' segs) = segs"
    using clean by (intro split_join_on) (auto simp: clean_seg_def list_all_iff)
  moreover have "segs \<noteq> [] \<Longrightarrow> join_on CHR ''/'' segs \<noteq> []"
    using clean by (cases segs) (auto simp: clean_seg_def join_on_Cons)
  ultimately show ?thesis
    using clean by (cases "segs = []") (auto simp: is_normalized_def abs_path_def is_absolute_def)
qed

lemma is_normalized_path_resolve: "is_normalized (path_resolve cwd args)"
  unfolding path_resolve_def by (simp add: split_def Let_def is_normalized_abs_path normalize_segs_clean)

lemma is_normalized_E:
  assumes "is_normalized p"
  obtains segs where "p = abs_path segs" and "list_all clean_seg segs"
proof (cases "tl p = []")
  case True
  with assms have "p = abs_path []"
    by (cases p) (auto simp: is_normalized_def is_absolute_def abs_path_def)
  then show ?thesis using that by simp
next
  case False
  let ?segs = "split_on CHR ''/'' (tl p)"
  from assms False have clean: "list_all clean_seg ?segs" by (simp add: is_normalized_def)
  from assms have "p = CHR ''/'' # tl p" by (cases p) (auto simp: is_normalized_def is_absolute_def)
  then have "p = abs_path ?segs" by (simp add: abs_path_def)
  with clean show ?thesis using that by blast
qed

lemma abs_path_absolute [simp]: "is_absolute (abs_path segs)"
  by (simp add: abs_path_def is_absolute_def)

lemma abs_path_nonempty [simp]: "abs_path segs \<noteq> []"
  by (simp add: abs_path_def)

lemma foldl_norm_step_skip [simp]: "foldl norm_step acc ([] # ss) = foldl norm_step acc ss"
  by simp

lemma path_resolve_abs_path:
  assumes "list_all clean_seg segs"
  shows "path_resolve cwd [abs_path segs] = abs_path segs"
proof -
  have "split_on CHR ''/'' (abs_path segs @ ''/'') =
        [] # split_on CHR ''/'' (join_on CHR ''/'' segs) @ [[]]"
    by (simp add: abs_path_def split_on_append [of _ _ "[]", simplified])
  then show ?thesis
    using foldl_norm_step_join [OF assms, of "[]"]
    by (simp add: path_resolve_def normalize_segs_def)
qed

theorem path_resolve_idem:
  "path_resolve cwd [path_resolve cwd args] = path_resolve cwd args"
proof -
  obtain segs where p: "path_resolve cwd args = abs_path segs" and "list_all clean_seg segs"
    using is_normalized_path_resolve by (rule is_normalized_E)
  then show ?thesis by (simp add: path_resolve_abs_path)
qed

lemma path_resolve_child:
  assumes segs: "list_all clean_seg segs" and rel: "list_all clean_seg rel" "rel \<noteq> []"
  shows "path_resolve cwd [abs_path segs, ''./'' @ join_on CHR ''/'' rel] = abs_path (segs @ rel)"
proof -
  let ?R = "''./'' @ join_on CHR ''/'' rel"
  have R: "?R \<noteq> []" "\<not> is_absolute ?R" by (simp_all add: is_absolute_def)
  have split: "split_on CHR ''/'' (abs_path segs @ CHR ''/'' # ?R @ ''/'') =
     [] # split_on CHR ''/'' (join_on CHR ''/'' segs) @
     [''.''] @ split_on CHR ''/'' (join_on CHR ''/'' rel) @ [[]]"
    by (simp add: abs_path_def split_on_append [of _ _ "[]", simplified] split_on_append)
  have "normalize_segs (split_on CHR ''/'' (abs_path segs @ CHR ''/'' # ?R @ ''/'')) = segs @ rel"
    unfolding split normalize_segs_def
    using foldl_norm_step_join [OF segs, of "[]"] foldl_norm_step_join [OF rel(1), of "rev segs"]
    by simp
  then show ?thesis
    using R by (simp add: path_resolve_def abs_path_def [of "segs @ rel"])
qed

lemma path_resolve_join:
  assumes segs: "list_all clean_seg segs" and rel: "list_all clean_seg rel" "rel \<noteq> []"
  shows "path_resolve cwd [abs_path segs, join_on CHR ''/'' rel] = abs_path (segs @ rel)"
proof -
  let ?R = "join_on CHR ''/'' rel"
  have R: "?R \<noteq> []" "\<not> is_absolute ?R"
  proof -
    obtain r rs where rel_eq: "rel = r # rs" using rel(2) by (cases rel) auto
    have r: "r \<noteq> []" "CHR ''/'' \<notin> set r" using rel(1) rel_eq by (auto simp: clean_seg_def)
    then have "hd r \<noteq> CHR ''/''" using hd_in_set by metis
    then show "?R \<noteq> []" "\<not> is_absolute ?R" using r by (simp_all add: rel_eq join_on_Cons is_absolute_def)
  qed
  have split: "split_on CHR ''/'' (abs_path segs @ CHR ''/'' # ?R @ ''/'') =
     [] # split_on CHR ''/'' (join_on CHR ''/'' segs) @ split_on CHR ''/'' ?R @ [[]]"
    by (simp add: abs_path_def split_on_append [of _ _ "[]", simplified] split_on_append)
  have "normalize_segs (split_on CHR ''/'' (abs_path segs @ CHR ''/'' # ?R @ ''/'')) = segs @ rel"
    unfolding split normalize_segs_def
    using foldl_norm_step_join [OF segs, of "[]"] foldl_norm_step_join [OF rel(1), of "rev segs"]
    by simp
  then show ?thesis
    using R by (simp add: path_resolve_def abs_path_def [of "segs @ rel"])
qed

lemma dirname_abs_path:
  assumes segs: "list_all clean_seg segs" and name: "clean_seg name"
  shows "dirname (abs_path (segs @ [name])) = abs_path segs"
proof (cases "segs = []")
  case True
  have "dropWhile (\<lambda>c. c = CHR ''/'') (rev name) = rev name"
    using name by (cases "rev name") (auto simp: clean_seg_def)
  moreover have "dropWhile (\<lambda>c. c \<noteq> CHR ''/'') (rev name) = []"
    using name by (auto simp: clean_seg_def)
  ultimately show ?thesis using True by (simp add: dirname_def abs_path_def)
next
  case False
  let ?J = "join_on CHR ''/'' segs"
  have J: "?J \<noteq> []"
    using False segs by (cases segs) (auto simp: clean_seg_def join_on_Cons)
  have "dropWhile (\<lambda>c. c = CHR ''/'') (rev name @ CHR ''/'' # rev ?J) = rev name @ CHR ''/'' # rev ?J"
    using name by (cases "rev name") (auto simp: clean_seg_def)
  moreover have "dropWhile (\<lambda>c. c \<noteq> CHR ''/'') (rev name @ CHR ''/'' # rev ?J) = CHR ''/'' # rev ?J"
    using name by (auto simp: clean_seg_def dropWhile_append3)
  ultimately show ?thesis
    using False J by (simp add: dirname_def abs_path_def join_on_snoc)
qed

section \<open>Resolution of a relative request\<close>

lemma trailing_slash_clean:
  assumes "list_all clean_seg rel" "rel \<noteq> []"
  shows "\<not> trailing_slash (''./'' @ join_on CHR ''/'' rel)"
proof -
  have "split_on CHR ''/'' (''./'' @ join_on CHR ''/'' rel) = [''.''] @ rel"
    using assms by (simp add: split_on_append [of _ "''.''", simplified] split_join_on clean_seg_def list_all_iff)
  moreover have "clean_seg (last rel)" using assms by (simp add: list_all_iff)
  ultimately show ?thesis using assms by (auto simp: trailing_slash_def clean_seg_def)
qed

lemma exports_split_dot: "r \<noteq> [] \<Longrightarrow> hd r = CHR ''.'' \<Longrightarrow> exports_split r = None"
  by (cases r) (auto simp: exports_split_def split: list.split)

lemma require_resolve_relative:
  assumes segs: "list_all clean_seg segs" and name: "clean_seg name"
    and rel: "list_all clean_seg rel" "rel \<noteq> []"
  shows "require_resolve fs pkgs cwd (abs_path (segs @ [name])) (''./'' @ join_on CHR ''/'' rel) =
     (let base = abs_path (segs @ rel) in
      case (if fs base = Some File then Some base else try_extensions fs base extensions) of
        Some f \<Rightarrow> Inr f
      | None \<Rightarrow> if fs base = Some Dir
                then bind_res (try_package fs pkgs cwd base)
                       (\<lambda>r. case r of Some f \<Rightarrow> Inr f
                                   | None \<Rightarrow> Inl (MODULE_NOT_FOUND (''./'' @ join_on CHR ''/'' rel)))
                else Inl (MODULE_NOT_FOUND (''./'' @ join_on CHR ''/'' rel)))"
proof -
  define q where "q = ''./'' @ join_on CHR ''/'' rel"
  have rr: "is_relative_request q" by (simp add: q_def is_relative_request_def)
  have na: "\<not> is_absolute q" by (simp add: q_def is_absolute_def)
  have ts: "\<not> trailing_slash q" unfolding q_def by (rule trailing_slash_clean [OF rel])
  have ex: "exports_split q = None" by (rule exports_split_dot) (simp_all add: q_def)
  have pr: "path_resolve cwd [abs_path segs, q] = abs_path (segs @ rel)"
    unfolding q_def by (rule path_resolve_child [OF segs rel])
  show ?thesis
    unfolding q_def [symmetric]
    using rr na ts ex pr
    by (cases "try_package fs pkgs cwd (abs_path (segs @ rel))")
       (simp_all add: require_resolve_def find_path_def dirname_abs_path [OF segs name] find_in_def
         resolve_exports_def Let_def split: option.split)
qed

lemma try_extensions_File: "try_extensions fs base es = Some f \<Longrightarrow> fs f = Some File"
  by (induction es) (auto split: if_splits)

lemma try_package_File: "try_package fs pkgs cwd base = Inr (Some f) \<Longrightarrow> fs f = Some File"
  by (auto simp: try_package_def Let_def dest: try_extensions_File split: option.splits if_splits)

lemma resolve_exports_File: "resolve_exports fs pkgs cwd nm request = Inr (Some f) \<Longrightarrow> fs f = Some File"
  by (auto simp: resolve_exports_def Let_def bind_res_eq_Inr split: option.splits if_splits prod.splits)

lemma find_in_File: "find_in fs pkgs cwd request cur = Inr (Some f) \<Longrightarrow> fs f = Some File"
  by (auto simp: find_in_def Let_def bind_res_eq_Inr
      dest: try_extensions_File try_package_File resolve_exports_File split: option.splits if_splits)

lemma first_found_File:
  "(\<And>x f. g x = Inr (Some f) \<Longrightarrow> fs f = Some File) \<Longrightarrow> first_found g xs = Inr (Some f) \<Longrightarrow> fs f = Some File"
  by (induction xs) (auto simp: bind_res_eq_Inr split: option.splits)

lemma require_resolve_File:
  assumes "require_resolve fs pkgs cwd parent request = Inr f"
  shows "fs f = Some File"
proof -
  obtain ps where "first_found (find_in fs pkgs cwd request) ps = Inr (Some f)"
    using assms by (auto simp: require_resolve_def find_path_def bind_res_eq_Inr split: option.splits)
  then show ?thesis by (metis first_found_File find_in_File)
qed

section \<open>Resolution of a bare request\<close>

lemma node_module_paths_abs:
  assumes "list_all clean_seg segs"
  shows "node_module_paths cwd (abs_path segs) =
     map (\<lambda>ps. abs_path (ps @ [''node_modules'']))
         (filter (\<lambda>ps. last ps \<noteq> ''node_modules'') (map (\<lambda>n. take n segs) (rev [1..<Suc (length segs)])))
     @ [''/node_modules'']"
proof -
  have "normalize_segs (split_on CHR ''/'' (tl (abs_path segs))) = segs"
    using foldl_norm_step_join [OF assms, of "[]"] by (simp add: normalize_segs_def abs_path_def)
  then show ?thesis
    by (simp add: node_module_paths_def path_resolve_abs_path [OF assms])
qed

lemma try_extensions_none: "list_all (\<lambda>x. fs (base @ x) \<noteq> Some File) es \<Longrightarrow> try_extensions fs base es = None"
  by (induction es) auto

lemma first_found_None: "\<forall>x \<in> set xs. f x = Inr None \<Longrightarrow> first_found f xs = Inr None"
  by (induction xs) auto

lemma clean_seg_node_modules [simp]: "clean_seg ''node_modules''" "clean_seg ''index''"
  by (simp_all add: clean_seg_def)

lemma node_module_paths_first:
  assumes "list_all clean_seg segs" and "''node_modules'' \<notin> set segs"
  shows "\<exists>rest. node_module_paths cwd (abs_path segs) = abs_path (segs @ [''node_modules'']) # rest"
proof (cases "segs = []")
  case True
  show ?thesis unfolding node_module_paths_abs [OF assms(1)] by (simp add: True abs_path_def)
next
  case False
  then have "last segs \<noteq> ''node_modules''" using assms(2) last_in_set by metis
  moreover have "[1..<Suc (length segs)] = [1..<length segs] @ [length segs]"
    using False by (cases segs) auto
  ultimately show ?thesis unfolding node_module_paths_abs [OF assms(1)] by simp
qed

lemma node_module_paths_set:
  assumes "list_all clean_seg segs" and "d \<in> set (node_module_paths cwd (abs_path segs))"
  shows "\<exists>n \<le> length segs. d = abs_path (take n segs @ [''node_modules''])"
proof -
  from assms(2) consider "d = ''/node_modules''"
    | n where "n \<in> {1..length segs}" "d = abs_path (take n segs @ [''node_modules''])"
    unfolding node_module_paths_abs [OF assms(1)] by fastforce
  then show ?thesis
  proof cases
    case 1
    then show ?thesis by (intro exI [of _ 0]) (simp add: abs_path_def)
  next
    case 2
    then show ?thesis by auto
  qed
qed

lemma trailing_slash_seg: "clean_seg s \<Longrightarrow> \<not> trailing_slash s"
  by (simp add: trailing_slash_def split_on_no_sep clean_seg_def)

lemma abs_path_snoc_ext:
  "dir \<noteq> [] \<Longrightarrow> abs_path (dir @ [s]) @ x = abs_path (dir @ [s @ x])"
  by (simp add: abs_path_def join_on_snoc)

lemma path_resolve_seg:
  "list_all clean_seg dir \<Longrightarrow> clean_seg s \<Longrightarrow> path_resolve cwd [abs_path dir, s] = abs_path (dir @ [s])"
  using path_resolve_join [of dir "[s]"] by simp

lemma clean_seg_package_json [simp]: "clean_seg ''package.json''"
  by (simp add: clean_seg_def)

text \<open>A package in a lookup path whose \<open>exports\<close> answer the request's subpath with a
  target inside the package that exists: the lookup path answers with that file.\<close>

lemma find_in_exports:
  assumes dir: "list_all clean_seg dir" and pkg: "clean_seg pkg"
    and split: "exports_split pkg = Some (pkg, [])"
    and d: "fs (abs_path (dir @ [pkg])) = Some Dir"
    and pj: "fs (abs_path (dir @ [pkg, ''package.json''])) = Some File"
    and pkgs: "pkgs (abs_path (dir @ [pkg, ''package.json''])) = Some p"
    and exps: "pkg_exports p = Some exps" "exps \<noteq> ExportNull"
    and rel: "list_all clean_seg rel" "rel \<noteq> []"
    and res: "package_exports_resolve cjs_conditions (abs_path (dir @ [pkg])) exps ''.'' =
                Inr (''./'' @ join_on CHR ''/'' rel)"
    and f: "fs (abs_path (dir @ pkg # rel)) = Some File"
  shows "find_in fs pkgs cwd pkg (abs_path dir) = Inr (Some (abs_path (dir @ pkg # rel)))"
proof -
  have dp: "list_all clean_seg (dir @ [pkg])" using dir pkg by simp
  have na: "\<not> is_absolute pkg" using pkg by (cases pkg) (auto simp: clean_seg_def is_absolute_def)
  have base: "path_resolve cwd [abs_path dir, pkg] = abs_path (dir @ [pkg])"
    by (rule path_resolve_seg [OF dir pkg])
  have pjp: "path_resolve cwd [abs_path (dir @ [pkg]), ''package.json''] = abs_path (dir @ [pkg, ''package.json''])"
    using path_resolve_seg [OF dp, of "''package.json''"] by simp
  have rd: "read_package fs pkgs cwd (abs_path (dir @ [pkg])) = Some p"
    using d pj pkgs pjp by (simp add: read_package_def)
  have tgt: "path_resolve cwd [abs_path (dir @ [pkg]), ''./'' @ join_on CHR ''/'' rel] = abs_path (dir @ pkg # rel)"
    using path_resolve_child [OF dp rel] by simp
  have "resolve_exports fs pkgs cwd (abs_path dir) pkg = Inr (Some (abs_path (dir @ pkg # rel)))"
    using split base rd exps res tgt f by (simp add: resolve_exports_def)
  then show ?thesis using na by (simp add: find_in_def)
qed

lemma find_in_no_module:
  assumes dir: "list_all clean_seg dir" and pkg: "clean_seg pkg"
    and split: "exports_split pkg = Some (pkg, [])"
    and none: "no_module_at fs (abs_path (dir @ [pkg]))"
  shows "find_in fs pkgs cwd pkg (abs_path dir) = Inr None"
proof -
  have base: "path_resolve cwd [abs_path dir, pkg] = abs_path (dir @ [pkg])"
    by (rule path_resolve_seg [OF dir pkg])
  have "read_package fs pkgs cwd (abs_path (dir @ [pkg])) = None"
    using none by (simp add: read_package_def no_module_at_def)
  then show ?thesis
    using none base split trailing_slash_seg [OF pkg]
    by (simp add: find_in_def resolve_exports_def Let_def no_module_at_def try_extensions_none)
qed

end
