(* ===== verification/SiteConfig.thy ===== *)
theory SiteConfig
  imports EcmaDate JsNumber NodePath
begin

text \<open>
  The configuration object of \<open>src/website/docusaurus.config.js\<close>. The module's top
  level (lines 160-239) evaluates one object literal; three of its property values are
  computed while the literal is evaluated, in source order: \<open>sidebarPath\<close> by
  \<open>require.resolve('./sidebars.js')\<close> (line 191), \<open>customCss\<close> by
  \<open>require.resolve('./src/css/custom.css')\<close> (line 197), and the footer's
  \<open>copyright\<close> by a template literal around \<open>new Date().getFullYear()\<close> (line 230).
  Everything else is constant data. A \<open>require.resolve\<close> that finds no file throws, and
  the throw aborts the evaluation of the literal and the loading of the module, so
  \<open>load_config\<close> returns \<open>load_error + site_config\<close>. The environment of one
  evaluation is the file system, the working directory, the configuration file's own path,
  the clock and the time zone.

  Before the literal, the module's import of \<open>prism-react-renderer\<close> (line 161) runs:
  \<open>import_prism\<close> resolves the bare request through the \<open>node_modules\<close> folders above
  the file, and \<open>load_module\<close> is that import followed by \<open>load_config\<close>.

  Lines 1-155 hold an earlier configuration, commented out; \<open>legacy_load_config\<close> models
  what it would evaluate to, so that the two versions can be compared (\<open>Validation\<close>).
\<close>

section \<open>Data\<close>

text \<open>The string unions of the configuration schema, as datatypes.\<close>

datatype report_severity = Ignore | Log | Warn | Throw

datatype nav_position = Left | Right

text \<open>A link goes either to an internal route (\<open>to\<close>) or to a URL (\<open>href\<close>).\<close>

datatype link_target = To js_string | Href js_string

text \<open>Navbar items: \<open>{type: 'docSidebar', sidebarId, position, label}\<close> and
  \<open>{to | href, label, position}\<close>; \<open>position\<close> may be absent.\<close>

datatype navbar_item =
    DocSidebar js_string js_string "nav_position option"
  | NavLink link_target js_string "nav_position option"

text \<open>A footer link \<open>{label, to | href}\<close>; line 140 of the earlier configuration has
  one without \<open>label\<close>.\<close>

datatype footer_item = FooterLink "js_string option" link_target

record footer_column =
  column_title :: js_string
  column_items :: "footer_item list"

record i18n_config =
  defaultLocale :: js_string
  locales :: "js_string list"

record docs_options =
  sidebarPath :: path
  docs_editUrl :: "js_string option"

record feed_options =
  feed_type :: "js_string list"
  feed_xslt :: bool

record blog_options =
  showReadingTime :: bool
  feedOptions :: "feed_options option"
  blog_editUrl :: "js_string option"
  onInlineTags :: "report_severity option"
  onInlineAuthors :: "report_severity option"
  onUntruncatedBlogPosts :: "report_severity option"

record theme_options =
  customCss :: path

record classic_options =
  docs :: docs_options
  blog :: blog_options
  theme :: theme_options

record logo_config =
  logo_alt :: js_string
  logo_src :: js_string

record navbar_config =
  navbar_title :: js_string
  navbar_logo :: logo_config
  navbar_items :: "navbar_item list"

text \<open>An absent \<open>footer.links\<close> is the schema's default, the empty list.\<close>

record footer_config =
  footer_style :: js_string
  footer_links :: "footer_column list"
  footer_copyright :: js_string

text \<open>A theme of the \<open>prism-react-renderer\<close> package (its type \<open>PrismTheme\<close>): the
  \<open>plain\<close> entry gives the text and background colour of a code block; the per-token
  \<open>styles\<close> are not modelled.\<close>

record PrismTheme =
  plain_color :: js_string
  plain_backgroundColor :: js_string

record prism_config =
  prism_theme :: PrismTheme
  prism_darkTheme :: PrismTheme

record theme_config =
  social_card_image :: js_string
  respectPrefersColorScheme :: bool
  navbar :: navbar_config
  footer :: footer_config
  prism :: prism_config

record site_config =
  title :: "js_string option"
  tagline :: "js_string option"
  favicon :: js_string
  future_v4 :: bool
  url :: js_string
  baseUrl :: js_string
  organizationName :: js_string
  projectName :: js_string
  onBrokenLinks :: report_severity
  onBrokenAnchors :: "report_severity option"
  i18n :: i18n_config
  presets :: "(js_string \<times> classic_options) list"
  themeConfig :: theme_config

record load_env =
  env_fs :: fs
  env_pkgs :: pkgs
  env_cwd :: path
  env_config_file :: path
  env_now :: int
  env_tza :: "time_value \<Rightarrow> int"

section \<open>The computed values\<close>

text \<open>Line 161, \<open>import { themes as prismThemes } from 'prism-react-renderer'\<close>. Docusaurus
  loads the file through a CommonJS transform (which is also what makes \<open>require\<close> available
  to the module), so the import is a \<open>require\<close> of a bare request: resolved through the
  \<open>node_modules\<close> folders above the configuration file and the package's \<open>exports\<close>
  under the CommonJS conditions, and it runs before the body.
  The two themes the body reads are the package's constants.\<close>

definition import_prism :: "load_env \<Rightarrow> load_error + path" where
  "import_prism e =
     require_resolve (env_fs e) (env_pkgs e) (env_cwd e) (env_config_file e) ''prism-react-renderer''"

definition prismThemes_github :: PrismTheme where
  "prismThemes_github = \<lparr>plain_color = ''#393A34'', plain_backgroundColor = ''#f6f8fa''\<rparr>"

definition prismThemes_dracula :: PrismTheme where
  "prismThemes_dracula = \<lparr>plain_color = ''#F8F8F2'', plain_backgroundColor = ''#282A36''\<rparr>"

text \<open>The \<open>exports\<close> of the \<open>package.json\<close> of \<open>prism-react-renderer\<close> as its 2.x
  releases publish it: an ES module build for \<open>import\<close>, a CommonJS build for
  \<open>require\<close>.\<close>

definition prism_exports :: export_target where
  "prism_exports =
     ExportObject [(''.'', ExportObject
       [(''types'', ExportPath ''./dist/index.d.ts''), (''import'', ExportPath ''./dist/index.mjs''),
        (''require'', ExportPath ''./dist/index.js'')])]"

definition resolve_sidebars :: "load_env \<Rightarrow> load_error + path" where
  "resolve_sidebars e = require_resolve (env_fs e) (env_pkgs e) (env_cwd e) (env_config_file e) ''./sidebars.js''"

definition resolve_custom_css :: "load_env \<Rightarrow> load_error + path" where
  "resolve_custom_css e =
     require_resolve (env_fs e) (env_pkgs e) (env_cwd e) (env_config_file e) ''./src/css/custom.css''"

text \<open>The template literal of line 230; \<open>CHR 0xA9\<close> is the code unit of the copyright sign.\<close>

definition copyright_text :: "load_env \<Rightarrow> js_string" where
  "copyright_text e =
     ''Copyright '' @ CHR 0xA9 # '' '' @ Number_toString (getFullYear (env_tza e) (new_Date (env_now e))) @
     '' Elishba Mehmood. Built with Docusaurus.''"

section \<open>The object literal\<close>

definition github_repo_url :: js_string where
  "github_repo_url = ''https://github.com/ElishbaMehmood-01/Teaching-AI-Native-Book''"

definition site_config_literal :: "path \<Rightarrow> path \<Rightarrow> js_string \<Rightarrow> site_config" where
  "site_config_literal sidebar css copyright =
     \<lparr>title = Some ''Teaching AI-Native Book'',
      tagline = Some ''An AI-native, spec-driven book on modern software development'',
      favicon = ''img/favicon.ico'',
      future_v4 = True,
      url = ''https://elishbamehmood-01.github.io'',
      baseUrl = ''/Teaching-AI-Native-Book/'',
      organizationName = ''ElishbaMehmood-01'',
      projectName = ''Teaching-AI-Native-Book'',
      onBrokenLinks = Throw,
      onBrokenAnchors = None,
      i18n = \<lparr>defaultLocale = ''en'', locales = [''en'']\<rparr>,
      presets =
        [(''classic'',
          \<lparr>docs = \<lparr>sidebarPath = sidebar, docs_editUrl = None\<rparr>,
           blog = \<lparr>showReadingTime = True, feedOptions = None, blog_editUrl = None,
                   onInlineTags = None, onInlineAuthors = None, onUntruncatedBlogPosts = None\<rparr>,
           theme = \<lparr>customCss = css\<rparr>\<rparr>)],
      themeConfig =
        \<lparr>social_card_image = ''img/docusaurus-social-card.jpg'',
         respectPrefersColorScheme = True,
         navbar =
           \<lparr>navbar_title = ''Teaching AI-Native Book'',
            navbar_logo = \<lparr>logo_alt = ''AI-Native Logo'', logo_src = ''img/logo.svg''\<rparr>,
            navbar_items =
              [DocSidebar ''tutorialSidebar'' ''Book'' (Some Left),
               NavLink (Href github_repo_url) ''GitHub'' (Some Right)]\<rparr>,
         footer = \<lparr>footer_style = ''dark'', footer_links = [], footer_copyright = copyright\<rparr>,
         prism = \<lparr>prism_theme = prismThemes_github, prism_darkTheme = prismThemes_dracula\<rparr>\<rparr>\<rparr>"

text \<open>Evaluation of the module: the two \<open>require.resolve\<close> calls in source order, then
  the literal with the copyright computed from the clock.\<close>

definition load_config :: "load_env \<Rightarrow> load_error + site_config" where
  "load_config e =
     bind_res (resolve_sidebars e) (\<lambda>sidebar.
     bind_res (resolve_custom_css e) (\<lambda>css.
     Inr (site_config_literal sidebar css (copyright_text e))))"

text \<open>The whole module: the import first, then the literal; \<open>export default\<close> hands the
  object to the caller.\<close>

definition load_module :: "load_env \<Rightarrow> load_error + site_config" where
  "load_module e = bind_res (import_prism e) (\<lambda>_. load_config e)"

section \<open>The earlier configuration (commented out, lines 12-153)\<close>

definition legacy_copyright_text :: "load_env \<Rightarrow> js_string" where
  "legacy_copyright_text e =
     ''Copyright '' @ CHR 0xA9 # '' '' @ Number_toString (getFullYear (env_tza e) (new_Date (env_now e))) @
     '' My Project, Inc. Built with Docusaurus.''"

definition docusaurus_template_url :: js_string where
  "docusaurus_template_url =
     ''https://github.com/facebook/docusaurus/tree/main/packages/create-docusaurus/templates/shared/''"

definition legacy_config_literal :: "path \<Rightarrow> js_string \<Rightarrow> site_config" where
  "legacy_config_literal sidebar copyright =
     \<lparr>title = None,
      tagline = None,
      favicon = ''img/favicon.ico'',
      future_v4 = True,
      url = ''https://your-docusaurus-site.example.com'',
      baseUrl = ''/Teaching-AI-Native-Book/'',
      organizationName = ''ElishbaMehmood-01'',
      projectName = ''Teaching-AI-Native_Book'',
      onBrokenLinks = Throw,
      onBrokenAnchors = None,
      i18n = \<lparr>defaultLocale = ''en'', locales = [''en'']\<rparr>,
      presets =
        [(''classic'',
          \<lparr>docs = \<lparr>sidebarPath = sidebar, docs_editUrl = Some docusaurus_template_url\<rparr>,
           blog = \<lparr>showReadingTime = True,
                   feedOptions = Some \<lparr>feed_type = [''rss'', ''atom''], feed_xslt = True\<rparr>,
                   blog_editUrl = Some docusaurus_template_url,
                   onInlineTags = Some Warn, onInlineAuthors = Some Warn,
                   onUntruncatedBlogPosts = Some Warn\<rparr>,
           theme = \<lparr>customCss = ''./src/css/custom.css''\<rparr>\<rparr>)],
      themeConfig =
        \<lparr>social_card_image = ''img/docusaurus-social-card.jpg'',
         respectPrefersColorScheme = True,
         navbar =
           \<lparr>navbar_title = ''My Site'',
            navbar_logo = \<lparr>logo_alt = ''My Site Logo'', logo_src = ''img/logo.svg''\<rparr>,
            navbar_items =
              [DocSidebar ''tutorialSidebar'' ''Tutorial'' (Some Left),
               NavLink (To ''/blog'') ''Blog'' (Some Left),
               NavLink (Href github_repo_url) ''GitHub'' (Some Right)]\<rparr>,
         footer =
           \<lparr>footer_style = ''dark'',
            footer_links =
              [\<lparr>column_title = ''Docs'',
                column_items = [FooterLink (Some ''Tutorial'') (To ''/docs/intro'')]\<rparr>,
               \<lparr>column_title = ''Community'',
                column_items =
                  [FooterLink (Some ''Stack Overflow'')
                     (Href ''https://stackoverflow.com/questions/tagged/docusaurus''),
                   FooterLink (Some ''Discord'') (Href ''https://discordapp.com/invite/docusaurus''),
                   FooterLink (Some ''X'') (Href ''https://x.com/docusaurus'')]\<rparr>,
               \<lparr>column_title = ''More'',
                column_items =
                  [FooterLink (Some ''Blog'') (To ''/blog''),
                   FooterLink None (Href github_repo_url)]\<rparr>],
            footer_copyright = copyright\<rparr>,
         prism = \<lparr>prism_theme = prismThemes_github, prism_darkTheme = prismThemes_dracula\<rparr>\<rparr>\<rparr>"

definition legacy_load_config :: "load_env \<Rightarrow> load_error + site_config" where
  "legacy_load_config e =
     bind_res (resolve_sidebars e) (\<lambda>sidebar.
     Inr (legacy_config_literal sidebar (legacy_copyright_text e)))"

section \<open>Loading from a site directory\<close>

text \<open>The configuration file sits in a directory whose normalized absolute path has the
  segments \<open>segs\<close>; the two requests resolve against that directory.\<close>

definition site_file :: "path list \<Rightarrow> path list \<Rightarrow> path" where
  "site_file segs rel = abs_path (segs @ rel)"

abbreviation config_file_at :: "path list \<Rightarrow> path" where
  "config_file_at segs \<equiv> site_file segs [''docusaurus.config.js'']"

abbreviation sidebars_at :: "path list \<Rightarrow> path" where
  "sidebars_at segs \<equiv> site_file segs [''sidebars.js'']"

abbreviation custom_css_at :: "path list \<Rightarrow> path" where
  "custom_css_at segs \<equiv> site_file segs [''src'', ''css'', ''custom.css'']"

text \<open>The package directory of \<open>prism-react-renderer\<close> in the site's own \<open>node_modules\<close>,
  its \<open>package.json\<close>, and the CommonJS build its \<open>exports\<close> name for \<open>require\<close>.\<close>

abbreviation prism_pkg_at :: "path list \<Rightarrow> path" where
  "prism_pkg_at segs \<equiv> site_file segs [''node_modules'', ''prism-react-renderer'']"

abbreviation prism_pkgjson_at :: "path list \<Rightarrow> path" where
  "prism_pkgjson_at segs \<equiv> site_file segs [''node_modules'', ''prism-react-renderer'', ''package.json'']"

abbreviation prism_cjs_at :: "path list \<Rightarrow> path" where
  "prism_cjs_at segs \<equiv> site_file segs [''node_modules'', ''prism-react-renderer'', ''dist'', ''index.js'']"

lemma clean_seg_literals [simp]:
  "clean_seg ''docusaurus.config.js''" "clean_seg ''sidebars.js''" "clean_seg ''src''"
  "clean_seg ''css''" "clean_seg ''custom.css''" "clean_seg ''prism-react-renderer''"
  "clean_seg ''index.js''" "clean_seg ''dist''"
  by (simp_all add: clean_seg_def)

lemma resolve_sidebars_at:
  assumes "list_all clean_seg segs" and "env_config_file e = config_file_at segs"
  shows "resolve_sidebars e =
     (if env_fs e (sidebars_at segs) = Some File then Inr (sidebars_at segs)
      else case try_extensions (env_fs e) (sidebars_at segs) extensions of
             Some f \<Rightarrow> Inr f
           | None \<Rightarrow> if env_fs e (sidebars_at segs) = Some Dir
                     then bind_res (try_package (env_fs e) (env_pkgs e) (env_cwd e) (sidebars_at segs))
                            (\<lambda>r. case r of Some f \<Rightarrow> Inr f | None \<Rightarrow> Inl (MODULE_NOT_FOUND ''./sidebars.js''))
                     else Inl (MODULE_NOT_FOUND ''./sidebars.js''))"
  using require_resolve_relative [OF assms(1), of "''docusaurus.config.js''" "[''sidebars.js'']"
      "env_fs e" "env_pkgs e" "env_cwd e"] assms(2)
  by (simp add: resolve_sidebars_def site_file_def Let_def split: option.split)

lemma resolve_custom_css_at:
  assumes "list_all clean_seg segs" and "env_config_file e = config_file_at segs"
  shows "resolve_custom_css e =
     (if env_fs e (custom_css_at segs) = Some File then Inr (custom_css_at segs)
      else case try_extensions (env_fs e) (custom_css_at segs) extensions of
             Some f \<Rightarrow> Inr f
           | None \<Rightarrow> if env_fs e (custom_css_at segs) = Some Dir
                     then bind_res (try_package (env_fs e) (env_pkgs e) (env_cwd e) (custom_css_at segs))
                            (\<lambda>r. case r of Some f \<Rightarrow> Inr f | None \<Rightarrow> Inl (MODULE_NOT_FOUND ''./src/css/custom.css''))
                     else Inl (MODULE_NOT_FOUND ''./src/css/custom.css''))"
  using require_resolve_relative [OF assms(1), of "''docusaurus.config.js''"
      "[''src'', ''css'', ''custom.css'']" "env_fs e" "env_pkgs e" "env_cwd e"] assms(2)
  by (simp add: resolve_custom_css_def site_file_def Let_def split: option.split)

lemma dirname_config_file_at:
  "list_all clean_seg segs \<Longrightarrow> dirname (config_file_at segs) = abs_path segs"
  by (simp add: site_file_def dirname_abs_path)

lemma prism_bare_request:
  "\<not> is_absolute ''prism-react-renderer''" "\<not> is_relative_request ''prism-react-renderer''"
  by (simp_all add: is_absolute_def is_relative_request_def)

lemma prism_exports_split: "exports_split ''prism-react-renderer'' = Some (''prism-react-renderer'', [])"
  by (simp add: exports_split_def pkg_name_seg_def)

lemma prism_exports_not_null: "prism_exports \<noteq> ExportNull"
  by (simp add: prism_exports_def)

lemma prism_exports_require:
  "package_exports_resolve cjs_conditions pkg prism_exports ''.'' = Inr (''./'' @ join_on CHR ''/'' [''dist'', ''index.js''])"
  by (simp add: package_exports_resolve_def prism_exports_def is_subpath_key_def cjs_conditions_def
      valid_export_target_def)

lemma import_prism_missing:
  assumes segs: "list_all clean_seg segs" and cf: "env_config_file e = config_file_at segs"
    and none: "\<forall>n \<le> length segs. no_module_at (env_fs e) (site_file (take n segs) [''node_modules'', ''prism-react-renderer''])"
  shows "import_prism e = Inl (MODULE_NOT_FOUND ''prism-react-renderer'')"
proof -
  have "\<forall>d \<in> set (node_module_paths (env_cwd e) (abs_path segs)).
          find_in (env_fs e) (env_pkgs e) (env_cwd e) ''prism-react-renderer'' d = Inr None"
  proof
    fix d
    assume "d \<in> set (node_module_paths (env_cwd e) (abs_path segs))"
    then obtain n where n: "n \<le> length segs" "d = abs_path (take n segs @ [''node_modules''])"
      using node_module_paths_set [OF segs] by blast
    have "list_all clean_seg (take n segs @ [''node_modules''])"
      using segs by (auto simp: list_all_iff dest: in_set_takeD)
    then show "find_in (env_fs e) (env_pkgs e) (env_cwd e) ''prism-react-renderer'' d = Inr None"
      using find_in_no_module [of "take n segs @ [''node_modules'']" "''prism-react-renderer''"] none n
        prism_exports_split
      by (simp add: site_file_def)
  qed
  then show ?thesis
    using cf prism_bare_request
    by (simp add: import_prism_def require_resolve_def find_path_def dirname_config_file_at [OF segs]
        first_found_None)
qed

lemma load_module_Inr: "load_module e = Inr c \<Longrightarrow> load_config e = Inr c"
  by (auto simp: load_module_def bind_res_eq_Inr)

text \<open>Reading the year back out of the footer: the reader of the round-trip property,
  not code of the repository.\<close>

definition footer_year :: "js_string \<Rightarrow> js_int option" where
  "footer_year s =
     (case strip_prefix (''Copyright '' @ CHR 0xA9 # '' '') s of
        None \<Rightarrow> None
      | Some rest \<Rightarrow>
          if dropWhile (\<lambda>c. c \<noteq> CHR '' '') rest = '' Elishba Mehmood. Built with Docusaurus.''
          then Some (parse_integer (takeWhile (\<lambda>c. c \<noteq> CHR '' '') rest))
          else None)"

lemma footer_year_copyright_text:
  "footer_year (copyright_text e) = Some (getFullYear (env_tza e) (new_Date (env_now e)))"
proof -
  let ?y = "Number_toString (getFullYear (env_tza e) (new_Date (env_now e)))"
  have nospace: "\<forall>c \<in> set ?y. c \<noteq> CHR '' ''" using space_notin_Number_toString by blast
  have "copyright_text e = (''Copyright '' @ CHR 0xA9 # '' '') @ (?y @ '' Elishba Mehmood. Built with Docusaurus.'')"
    by (simp add: copyright_text_def)
  then show ?thesis
    using nospace
    by (simp only: footer_year_def strip_prefix_append option.case takeWhile_append2 dropWhile_append2)
       (simp add: parse_integer_Number_toString)
qed

section \<open>Properties of loading\<close>

text \<open>C1: with both files in the site directory, loading the module yields the object
  literal with the two absolute paths in place of the \<open>require.resolve\<close> calls and the
  copyright of the current year.\<close>

theorem load_config_from_site_dir:
  assumes "list_all clean_seg segs" and "env_config_file e = config_file_at segs"
    and "env_fs e (sidebars_at segs) = Some File" and "env_fs e (custom_css_at segs) = Some File"
  shows "load_config e = Inr (site_config_literal (sidebars_at segs) (custom_css_at segs) (copyright_text e))"
  using assms resolve_sidebars_at [OF assms(1,2)] resolve_custom_css_at [OF assms(1,2)]
  by (simp add: load_config_def)

text \<open>C2: when no module answers \<open>./sidebars.js\<close>, loading throws \<open>MODULE_NOT_FOUND\<close>
  for that request, whatever the state of \<open>custom.css\<close>: the first throw of the literal wins.\<close>

theorem load_config_sidebars_first:
  assumes "list_all clean_seg segs" and "env_config_file e = config_file_at segs"
    and "no_module_at (env_fs e) (sidebars_at segs)"
  shows "load_config e = Inl (MODULE_NOT_FOUND ''./sidebars.js'')"
  using assms resolve_sidebars_at [OF assms(1,2)]
  by (simp add: load_config_def no_module_at_def try_extensions_none)

text \<open>C3: with the sidebars file present and no module answering
  \<open>./src/css/custom.css\<close>, loading throws \<open>MODULE_NOT_FOUND\<close> for the stylesheet.\<close>

theorem load_config_custom_css_missing:
  assumes "list_all clean_seg segs" and "env_config_file e = config_file_at segs"
    and "env_fs e (sidebars_at segs) = Some File" and "no_module_at (env_fs e) (custom_css_at segs)"
  shows "load_config e = Inl (MODULE_NOT_FOUND ''./src/css/custom.css'')"
  using assms resolve_sidebars_at [OF assms(1,2)] resolve_custom_css_at [OF assms(1,2)]
  by (simp add: load_config_def no_module_at_def try_extensions_none)

text \<open>What every caller needs: a loaded configuration is the literal with some resolved
  paths and the copyright of the load.\<close>

lemma load_config_Inr_literal:
  "load_config e = Inr c \<Longrightarrow> \<exists>sidebar css. c = site_config_literal sidebar css (copyright_text e)"
  by (auto simp: load_config_def bind_res_eq_Inr)

lemma load_config_footer_copyright:
  "load_config e = Inr c \<Longrightarrow> footer_copyright (footer (themeConfig c)) = copyright_text e"
  by (auto dest!: load_config_Inr_literal simp: site_config_literal_def)

text \<open>C7: in every configuration that loads, the one preset is \<open>classic\<close> and its
  sidebar and stylesheet paths name files that exist.\<close>

theorem load_config_resolved_files:
  assumes "load_config e = Inr c"
  shows "\<exists>opts. presets c = [(''classic'', opts)] \<and>
           env_fs e (sidebarPath (docs opts)) = Some File \<and>
           env_fs e (customCss (theme opts)) = Some File"
  using assms
  by (auto simp: load_config_def bind_res_eq_Inr site_config_literal_def resolve_sidebars_def
      resolve_custom_css_def dest: require_resolve_File)

text \<open>C6: the year can be read back from the footer of every configuration that loads,
  and it is the value of \<open>new Date().getFullYear()\<close> (NaN included).\<close>

theorem load_config_copyright_year:
  assumes "load_config e = Inr c"
  shows "footer_year (footer_copyright (footer (themeConfig c))) =
         Some (getFullYear (env_tza e) (new_Date (env_now e)))"
  using load_config_footer_copyright [OF assms] by (simp add: footer_year_copyright_text)

text \<open>C14: the import runs before the body: when no \<open>node_modules\<close> folder above the
  configuration file holds \<open>prism-react-renderer\<close>, loading the module throws
  \<open>MODULE_NOT_FOUND\<close> for the package, whatever the state of \<open>sidebars.js\<close> and
  \<open>custom.css\<close>.\<close>

theorem load_module_prism_missing:
  assumes segs: "list_all clean_seg segs" and cf: "env_config_file e = config_file_at segs"
    and none: "\<forall>n \<le> length segs.
                 no_module_at (env_fs e) (site_file (take n segs) [''node_modules'', ''prism-react-renderer''])"
  shows "load_module e = Inl (MODULE_NOT_FOUND ''prism-react-renderer'')"
  using import_prism_missing [OF segs cf none] by (simp add: load_module_def)

text \<open>C15: the import of line 161 loads the CommonJS build of the copy of
  \<open>prism-react-renderer\<close> in the site's own \<open>node_modules\<close>, as its \<open>exports\<close> name it
  for \<open>require\<close>, whatever its \<open>main\<close> says and whatever other copies sit further up;
  then the module's outcome is that of its body.\<close>

theorem load_module_imports_prism_cjs:
  assumes segs: "list_all clean_seg segs" and nm: "''node_modules'' \<notin> set segs"
    and cf: "env_config_file e = config_file_at segs"
    and pkg: "env_fs e (prism_pkg_at segs) = Some Dir"
    and pj: "env_fs e (prism_pkgjson_at segs) = Some File"
    and pkgs: "env_pkgs e (prism_pkgjson_at segs) = Some p" and exps: "pkg_exports p = Some prism_exports"
    and cjs: "env_fs e (prism_cjs_at segs) = Some File"
  shows "import_prism e = Inr (prism_cjs_at segs) \<and> load_module e = load_config e"
proof -
  obtain rest where paths:
    "node_module_paths (env_cwd e) (abs_path segs) = abs_path (segs @ [''node_modules'']) # rest"
    using node_module_paths_first [OF segs nm] by blast
  have "find_in (env_fs e) (env_pkgs e) (env_cwd e) ''prism-react-renderer'' (abs_path (segs @ [''node_modules''])) =
        Inr (Some (abs_path ((segs @ [''node_modules'']) @ ''prism-react-renderer'' # [''dist'', ''index.js''])))"
    by (rule find_in_exports [where exps = prism_exports and p = p])
       (simp_all add: segs pkg [unfolded site_file_def] pj [unfolded site_file_def]
         pkgs [unfolded site_file_def] exps cjs [unfolded site_file_def]
         prism_exports_split prism_exports_require prism_exports_not_null)
  then have "import_prism e = Inr (prism_cjs_at segs)"
    using cf paths prism_bare_request
    by (simp add: import_prism_def require_resolve_def find_path_def site_file_def
        dirname_config_file_at [OF segs, unfolded site_file_def])
  then show ?thesis by (cases "load_config e") (simp_all add: load_module_def)
qed

section \<open>A site directory to run the theorems on\<close>

definition example_segs :: "path list" where
  "example_segs = [''home'', ''site'', ''website'']"

text \<open>The package as its 2.x releases install it.\<close>

definition example_prism_package_json :: package_json where
  "example_prism_package_json = \<lparr>pkg_main = Some ''dist/index.js'', pkg_exports = Some prism_exports\<rparr>"

definition example_env :: load_env where
  "example_env =
     \<lparr>env_fs = (\<lambda>p. if p = sidebars_at example_segs \<or> p = custom_css_at example_segs
                        \<or> p = prism_pkgjson_at example_segs \<or> p = prism_cjs_at example_segs then Some File
                     else if p = prism_pkg_at example_segs then Some Dir else None),
      env_pkgs = (\<lambda>p. if p = prism_pkgjson_at example_segs then Some example_prism_package_json else None),
      env_cwd = ''/home/site'',
      env_config_file = config_file_at example_segs,
      env_now = 1762646400000,
      env_tza = (\<lambda>_. 0)\<rparr>"

lemma example_segs_clean: "list_all clean_seg example_segs"
  by (simp add: example_segs_def clean_seg_def)

lemma example_sidebars_ne_css: "sidebars_at example_segs \<noteq> custom_css_at example_segs"
  by (simp add: example_segs_def site_file_def abs_path_def)

lemma example_segs_no_node_modules: "''node_modules'' \<notin> set example_segs"
  by (simp add: example_segs_def)

lemma example_load_config_exists_at:
  "\<exists>c. load_config (example_env\<lparr>env_now := n, env_tza := z\<rparr>) = Inr c"
  using resolve_sidebars_at [OF example_segs_clean, of "example_env\<lparr>env_now := n, env_tza := z\<rparr>"]
    resolve_custom_css_at [OF example_segs_clean, of "example_env\<lparr>env_now := n, env_tza := z\<rparr>"]
  by (simp add: load_config_def example_env_def)

lemma example_load_config_exists: "\<exists>c. load_config example_env = Inr c"
  using example_load_config_exists_at [where n = "env_now example_env" and z = "env_tza example_env"]
  by simp

lemma example_legacy_load_config:
  "legacy_load_config example_env =
     Inr (legacy_config_literal (sidebars_at example_segs) (legacy_copyright_text example_env))"
  using resolve_sidebars_at [OF example_segs_clean, of example_env]
  by (simp add: legacy_load_config_def example_env_def)

theorem load_config_from_site_dir_witness:
  "list_all clean_seg example_segs \<and> env_config_file example_env = config_file_at example_segs \<and>
   env_fs example_env (sidebars_at example_segs) = Some File \<and>
   env_fs example_env (custom_css_at example_segs) = Some File \<and>
   load_config example_env =
     Inr (site_config_literal (sidebars_at example_segs) (custom_css_at example_segs)
            (copyright_text example_env))"
proof -
  have h: "env_config_file example_env = config_file_at example_segs"
    "env_fs example_env (sidebars_at example_segs) = Some File"
    "env_fs example_env (custom_css_at example_segs) = Some File"
    by (simp_all add: example_env_def)
  show ?thesis
    using load_config_from_site_dir [OF example_segs_clean h] example_segs_clean h by simp
qed

theorem load_config_sidebars_first_witness:
  "list_all clean_seg example_segs \<and>
   env_config_file (example_env\<lparr>env_fs := (\<lambda>_. None)\<rparr>) = config_file_at example_segs \<and>
   no_module_at (env_fs (example_env\<lparr>env_fs := (\<lambda>_. None)\<rparr>)) (sidebars_at example_segs) \<and>
   load_config (example_env\<lparr>env_fs := (\<lambda>_. None)\<rparr>) = Inl (MODULE_NOT_FOUND ''./sidebars.js'')"
proof -
  have h: "env_config_file (example_env\<lparr>env_fs := (\<lambda>_. None)\<rparr>) = config_file_at example_segs"
    "no_module_at (env_fs (example_env\<lparr>env_fs := (\<lambda>_. None)\<rparr>)) (sidebars_at example_segs)"
    by (simp_all add: example_env_def no_module_at_def extensions_def)
  show ?thesis
    using load_config_sidebars_first [OF example_segs_clean h] example_segs_clean h by simp
qed

theorem load_config_custom_css_missing_witness:
  "list_all clean_seg example_segs \<and>
   env_config_file (example_env\<lparr>env_fs := [sidebars_at example_segs \<mapsto> File]\<rparr>) = config_file_at example_segs \<and>
   env_fs (example_env\<lparr>env_fs := [sidebars_at example_segs \<mapsto> File]\<rparr>) (sidebars_at example_segs) = Some File \<and>
   no_module_at (env_fs (example_env\<lparr>env_fs := [sidebars_at example_segs \<mapsto> File]\<rparr>)) (custom_css_at example_segs) \<and>
   load_config (example_env\<lparr>env_fs := [sidebars_at example_segs \<mapsto> File]\<rparr>) =
     Inl (MODULE_NOT_FOUND ''./src/css/custom.css'')"
proof -
  have h: "env_config_file (example_env\<lparr>env_fs := [sidebars_at example_segs \<mapsto> File]\<rparr>) = config_file_at example_segs"
    "env_fs (example_env\<lparr>env_fs := [sidebars_at example_segs \<mapsto> File]\<rparr>) (sidebars_at example_segs) = Some File"
    "no_module_at (env_fs (example_env\<lparr>env_fs := [sidebars_at example_segs \<mapsto> File]\<rparr>)) (custom_css_at example_segs)"
    by (simp_all add: example_env_def no_module_at_def extensions_def example_segs_def site_file_def abs_path_def)
  show ?thesis
    using load_config_custom_css_missing [OF example_segs_clean h] example_segs_clean h by simp
qed

theorem load_config_resolved_files_witness:
  "\<exists>c. load_config example_env = Inr c \<and>
      (\<exists>opts. presets c = [(''classic'', opts)] \<and>
         env_fs example_env (sidebarPath (docs opts)) = Some File \<and>
         env_fs example_env (customCss (theme opts)) = Some File)"
proof -
  obtain c where c: "load_config example_env = Inr c" using example_load_config_exists by blast
  show ?thesis using load_config_resolved_files [OF c] c by blast
qed

theorem load_config_copyright_year_witness:
  "\<exists>c. load_config example_env = Inr c \<and>
      footer_year (footer_copyright (footer (themeConfig c))) =
        Some (getFullYear (env_tza example_env) (new_Date (env_now example_env)))"
proof -
  obtain c where c: "load_config example_env = Inr c" using example_load_config_exists by blast
  show ?thesis using load_config_copyright_year [OF c] c by blast
qed

theorem load_module_prism_missing_witness:
  "list_all clean_seg example_segs \<and>
   env_config_file (example_env\<lparr>env_fs := [sidebars_at example_segs \<mapsto> File]\<rparr>) = config_file_at example_segs \<and>
   length example_segs = 3 \<and>
   no_module_at [sidebars_at example_segs \<mapsto> File] (site_file [] [''node_modules'', ''prism-react-renderer'']) \<and>
   no_module_at [sidebars_at example_segs \<mapsto> File] (site_file [''home''] [''node_modules'', ''prism-react-renderer'']) \<and>
   no_module_at [sidebars_at example_segs \<mapsto> File]
     (site_file [''home'', ''site''] [''node_modules'', ''prism-react-renderer'']) \<and>
   no_module_at [sidebars_at example_segs \<mapsto> File]
     (site_file [''home'', ''site'', ''website''] [''node_modules'', ''prism-react-renderer'']) \<and>
   load_module (example_env\<lparr>env_fs := [sidebars_at example_segs \<mapsto> File]\<rparr>) =
     Inl (MODULE_NOT_FOUND ''prism-react-renderer'')"
proof -
  let ?e = "example_env\<lparr>env_fs := [sidebars_at example_segs \<mapsto> File]\<rparr>"
  have cf: "env_config_file ?e = config_file_at example_segs" by (simp add: example_env_def)
  have "n \<le> 3 \<Longrightarrow> no_module_at [sidebars_at example_segs \<mapsto> File]
          (site_file (take n example_segs) [''node_modules'', ''prism-react-renderer''])" for n :: nat
    by (cases n; cases "n - 1"; cases "n - 2")
       (simp_all add: no_module_at_def extensions_def example_segs_def site_file_def abs_path_def)
  then have none: "\<forall>n \<le> length example_segs.
      no_module_at (env_fs ?e) (site_file (take n example_segs) [''node_modules'', ''prism-react-renderer''])"
    by (simp add: example_segs_def)
  have each: "no_module_at [sidebars_at example_segs \<mapsto> File] (site_file (take n example_segs) [''node_modules'', ''prism-react-renderer''])"
    if "n \<le> 3" for n
    using none that by (simp add: example_segs_def example_env_def)
  show ?thesis
    using load_module_prism_missing [OF example_segs_clean cf none] example_segs_clean cf
      each [of 0] each [of 1] each [of 2] each [of 3]
    by (simp add: example_segs_def)
qed

theorem load_module_imports_prism_cjs_witness:
  "list_all clean_seg example_segs \<and> ''node_modules'' \<notin> set example_segs \<and>
   env_config_file example_env = config_file_at example_segs \<and>
   env_fs example_env (prism_pkg_at example_segs) = Some Dir \<and>
   env_fs example_env (prism_pkgjson_at example_segs) = Some File \<and>
   env_pkgs example_env (prism_pkgjson_at example_segs) = Some example_prism_package_json \<and>
   pkg_exports example_prism_package_json = Some prism_exports \<and>
   env_fs example_env (prism_cjs_at example_segs) = Some File \<and>
   import_prism example_env = Inr (prism_cjs_at example_segs) \<and>
   load_module example_env = load_config example_env"
proof -
  have h: "env_config_file example_env = config_file_at example_segs"
    "env_fs example_env (prism_pkg_at example_segs) = Some Dir"
    "env_fs example_env (prism_pkgjson_at example_segs) = Some File"
    "env_pkgs example_env (prism_pkgjson_at example_segs) = Some example_prism_package_json"
    "pkg_exports example_prism_package_json = Some prism_exports"
    "env_fs example_env (prism_cjs_at example_segs) = Some File"
    by (simp_all add: example_env_def example_prism_package_json_def example_segs_def site_file_def abs_path_def)
  show ?thesis
    using load_module_imports_prism_cjs [OF example_segs_clean example_segs_no_node_modules h]
      example_segs_clean example_segs_no_node_modules h by simp
qed

end
