(* ===== verification/Navbar.thy ===== *)
theory Navbar
  imports SiteConfig
begin

text \<open>
  How the classic theme lays out \<open>themeConfig.navbar.items\<close>: \<open>splitNavbarItems\<close>
  (\<open>@docusaurus/theme-common\<close>, internal navbar utilities) puts an item on the left
  when its position, defaulting to \<open>'right'\<close>, is \<open>'left'\<close>, and on the right otherwise;
  both sides keep the order of the configuration. The configuration gives both of its items
  an explicit position (lines 218 and 224), so the default is not exercised by it.
\<close>

definition item_position :: "navbar_item \<Rightarrow> nav_position option" where
  "item_position i = (case i of DocSidebar _ _ p \<Rightarrow> p | NavLink _ _ p \<Rightarrow> p)"

definition is_left :: "navbar_item \<Rightarrow> bool" where
  "is_left i \<longleftrightarrow> (case item_position i of None \<Rightarrow> Right | Some p \<Rightarrow> p) = Left"

definition splitNavbarItems :: "navbar_item list \<Rightarrow> navbar_item list \<times> navbar_item list" where
  "splitNavbarItems items = (filter is_left items, filter (\<lambda>i. \<not> is_left i) items)"

end
