(* ===== verification/Validation.thy ===== *)
theory Validation
  imports SiteConfig
begin

text \<open>
  What the configuration promises to its consumer. The spec (sections 6 and 8) names the
  checks a valid configuration passes: the base path starts and ends with a slash, the
  locale list contains the default locale, the required top-level strings are non-empty,
  and every navbar and footer link is a well-formed label/target pair. Docusaurus's own
  schema normalizes \<open>baseUrl\<close> by adding a missing leading and trailing slash. For a
  GitHub Pages deployment the spec requires the URL and base path to match the hosting
  platform's layout: \<open>https://<owner>.github.io\<close> (the host in lower case) and
  \<open>/<project>/\<close>. These definitions are the consumer's side of the interface; the
  theorems show that every configuration \<open>load_config\<close> produces meets them.
\<close>

section \<open>The checks\<close>

definition base_url_ok :: "js_string \<Rightarrow> bool" where
  "base_url_ok b \<longleftrightarrow> b \<noteq> [] \<and> hd b = CHR ''/'' \<and> last b = CHR ''/''"

definition locales_ok :: "i18n_config \<Rightarrow> bool" where
  "locales_ok i \<longleftrightarrow> defaultLocale i \<in> set (locales i)"

definition required_fields_ok :: "site_config \<Rightarrow> bool" where
  "required_fields_ok c \<longleftrightarrow>
     favicon c \<noteq> [] \<and> url c \<noteq> [] \<and> baseUrl c \<noteq> [] \<and> organizationName c \<noteq> [] \<and>
     projectName c \<noteq> [] \<and> presets c \<noteq> []"

definition link_target_ok :: "link_target \<Rightarrow> bool" where
  "link_target_ok t = (case t of To s \<Rightarrow> s \<noteq> [] | Href s \<Rightarrow> s \<noteq> [])"

fun navbar_item_ok :: "navbar_item \<Rightarrow> bool" where
  "navbar_item_ok (DocSidebar sid label pos) \<longleftrightarrow> sid \<noteq> [] \<and> label \<noteq> []"
| "navbar_item_ok (NavLink t label pos) \<longleftrightarrow> link_target_ok t \<and> label \<noteq> []"

fun footer_item_ok :: "footer_item \<Rightarrow> bool" where
  "footer_item_ok (FooterLink label t) \<longleftrightarrow> label \<noteq> None \<and> label \<noteq> Some [] \<and> link_target_ok t"

definition links_ok :: "site_config \<Rightarrow> bool" where
  "links_ok c \<longleftrightarrow>
     list_all navbar_item_ok (navbar_items (navbar (themeConfig c))) \<and>
     list_all (\<lambda>col. list_all footer_item_ok (column_items col)) (footer_links (footer (themeConfig c)))"

definition config_valid :: "site_config \<Rightarrow> bool" where
  "config_valid c \<longleftrightarrow>
     base_url_ok (baseUrl c) \<and> locales_ok (i18n c) \<and> required_fields_ok c \<and> links_ok c"

text \<open>Docusaurus's schema: \<open>addLeadingSlash(addTrailingSlash(baseUrl))\<close>.\<close>

definition addTrailingSlash :: "js_string \<Rightarrow> js_string" where
  "addTrailingSlash s = (if s \<noteq> [] \<and> last s = CHR ''/'' then s else s @ ''/'')"

definition addLeadingSlash :: "js_string \<Rightarrow> js_string" where
  "addLeadingSlash s = (if s \<noteq> [] \<and> hd s = CHR ''/'' then s else CHR ''/'' # s)"

definition normalize_base_url :: "js_string \<Rightarrow> js_string" where
  "normalize_base_url s = addLeadingSlash (addTrailingSlash s)"

section \<open>GitHub Pages\<close>

text \<open>\<open>String.prototype.toLowerCase\<close> on the ASCII letters of an owner name.\<close>

definition ascii_lower :: "char \<Rightarrow> char" where
  "ascii_lower c =
     (case map_of (zip ''ABCDEFGHIJKLMNOPQRSTUVWXYZ'' ''abcdefghijklmnopqrstuvwxyz'') c of
        Some l \<Rightarrow> l
      | None \<Rightarrow> c)"

definition github_pages_url :: "js_string \<Rightarrow> js_string" where
  "github_pages_url owner = ''https://'' @ map ascii_lower owner @ ''.github.io''"

definition github_repo_link :: "js_string \<Rightarrow> js_string \<Rightarrow> js_string" where
  "github_repo_link owner project = ''https://github.com/'' @ owner @ ''/'' @ project"

definition github_pages_consistent :: "site_config \<Rightarrow> bool" where
  "github_pages_consistent c \<longleftrightarrow>
     url c = github_pages_url (organizationName c) \<and>
     baseUrl c = ''/'' @ projectName c @ ''/'' \<and>
     NavLink (Href (github_repo_link (organizationName c) (projectName c))) ''GitHub'' (Some Right)
       \<in> set (navbar_items (navbar (themeConfig c)))"

definition site_root :: "site_config \<Rightarrow> js_string" where
  "site_root c = url c @ baseUrl c"

section \<open>Properties\<close>

lemma base_url_ok_normalize: "base_url_ok (normalize_base_url s)"
  by (cases s rule: rev_cases)
     (auto simp: base_url_ok_def normalize_base_url_def addLeadingSlash_def addTrailingSlash_def)

lemma normalize_base_url_ok: "base_url_ok s \<Longrightarrow> normalize_base_url s = s"
  by (simp add: base_url_ok_def normalize_base_url_def addLeadingSlash_def addTrailingSlash_def)

lemma normalize_base_url_idem: "normalize_base_url (normalize_base_url s) = normalize_base_url s"
  using base_url_ok_normalize normalize_base_url_ok by blast

lemma site_config_literal_valid: "config_valid (site_config_literal sidebar css copyright)"
  by (simp add: config_valid_def site_config_literal_def base_url_ok_def locales_ok_def
      required_fields_ok_def links_ok_def link_target_ok_def github_repo_url_def)

lemma site_config_literal_github_pages:
  "github_pages_consistent (site_config_literal sidebar css copyright)"
  by (simp add: github_pages_consistent_def site_config_literal_def github_pages_url_def
      ascii_lower_def github_repo_link_def github_repo_url_def)

text \<open>C8: every configuration that loads passes the spec's validity checks.\<close>

theorem load_config_valid:
  assumes "load_config e = Inr c"
  shows "config_valid c"
  using assms by (auto dest!: load_config_Inr_literal simp: site_config_literal_valid)

text \<open>C9: every configuration that loads matches the GitHub Pages layout of its owner and
  project: the URL is the owner's pages host, the base path is the project, and the navbar's
  GitHub link points at the owner's repository of that name.\<close>

theorem load_config_github_pages:
  assumes "load_config e = Inr c"
  shows "github_pages_consistent c \<and> site_root c = ''https://elishbamehmood-01.github.io/Teaching-AI-Native-Book/''"
proof
  show "github_pages_consistent c"
    using assms by (auto dest!: load_config_Inr_literal simp: site_config_literal_github_pages)
  show "site_root c = ''https://elishbamehmood-01.github.io/Teaching-AI-Native-Book/''"
    using assms by (auto dest!: load_config_Inr_literal simp: site_root_def site_config_literal_def)
qed

theorem load_config_valid_witness:
  "\<exists>c. load_config example_env = Inr c \<and> config_valid c"
proof -
  obtain c where c: "load_config example_env = Inr c" using example_load_config_exists by blast
  show ?thesis using load_config_valid [OF c] c by blast
qed

theorem load_config_github_pages_witness:
  "\<exists>c. load_config example_env = Inr c \<and> github_pages_consistent c \<and>
      site_root c = ''https://elishbamehmood-01.github.io/Teaching-AI-Native-Book/''"
proof -
  obtain c where c: "load_config example_env = Inr c" using example_load_config_exists by blast
  show ?thesis using load_config_github_pages [OF c] c by blast
qed

end
