(* ===== verification/BrokenLinks.thy ===== *)
theory BrokenLinks
  imports SiteConfig "HOL-Library.Sublist"
begin

text \<open>
  What \<open>onBrokenLinks: 'throw'\<close> (line 179) asks of the build, and what the key the file
  leaves out, \<open>onBrokenAnchors\<close>, gets by default. After rendering, Docusaurus collects the
  links and the anchors of every page and checks them (\<open>handleBrokenLinks\<close>,
  \<open>packages/docusaurus/src/server/brokenLinks.ts\<close>). A link whose path is no route is a
  broken path link. A link whose path is a route but whose non-empty \<open>#hash\<close> names no
  anchor collected on the target page is a broken anchor. The broken paths are reported
  first, through \<open>logger.report(onBrokenLinks)\<close>, then the broken anchors through
  \<open>logger.report(onBrokenAnchors)\<close>, whose schema default is \<open>'warn'\<close>. Both checks are
  skipped when both severities are \<open>'ignore'\<close>. \<open>'ignore'\<close> does nothing, \<open>'log'\<close> and
  \<open>'warn'\<close> print, \<open>'throw'\<close> throws and aborts the build. The console is a list of
  entries passed through; a throw is the \<open>Inl\<close> branch. Links are absolute paths; the
  resolution of relative links, the URI-decoded variants and the trailing-slash variants of
  routes are not modelled.
\<close>

datatype log_entry = Info js_string | Warning js_string

datatype build_error = ConfigError load_error | ValidationError | BuildFailure js_string

text \<open>What the build collected on each page: its path, its links and its anchors.\<close>

type_synonym page_links = "(path \<times> js_string list \<times> js_string list) list"

definition report :: "report_severity \<Rightarrow> js_string \<Rightarrow> log_entry list \<Rightarrow> build_error + log_entry list" where
  "report sev msg logs =
     (case sev of
        Ignore \<Rightarrow> Inr logs
      | Log \<Rightarrow> Inr (logs @ [Info msg])
      | Warn \<Rightarrow> Inr (logs @ [Warning msg])
      | Throw \<Rightarrow> Inl (BuildFailure msg))"

text \<open>The schema default of the key the configuration does not set.\<close>

definition effective_onBrokenAnchors :: "site_config \<Rightarrow> report_severity" where
  "effective_onBrokenAnchors c = (case onBrokenAnchors c of None \<Rightarrow> Warn | Some s \<Rightarrow> s)"

text \<open>\<open>parseURLPath\<close>: the pathname stops at the first \<open>?\<close> or \<open>#\<close>; the hash is what
  follows the first \<open>#\<close>, absent when there is none.\<close>

definition link_pathname :: "js_string \<Rightarrow> js_string" where
  "link_pathname l = takeWhile (\<lambda>c. c \<noteq> CHR ''#'' \<and> c \<noteq> CHR ''?'') l"

definition link_hash :: "js_string \<Rightarrow> js_string option" where
  "link_hash l = (case dropWhile (\<lambda>c. c \<noteq> CHR ''#'') l of [] \<Rightarrow> None | _ # h \<Rightarrow> Some h)"

definition is_path_broken :: "js_string list \<Rightarrow> js_string \<Rightarrow> bool" where
  "is_path_broken routes l \<longleftrightarrow> link_pathname l \<notin> set routes"

text \<open>\<open>isAnchorBrokenLink\<close>: no hash or an empty one is never broken; neither is a link to
  a page that collected nothing.\<close>

definition is_anchor_broken :: "page_links \<Rightarrow> js_string \<Rightarrow> bool" where
  "is_anchor_broken pages l \<longleftrightarrow>
     (case link_hash l of
        None \<Rightarrow> False
      | Some h \<Rightarrow> h \<noteq> [] \<and>
          (case map_of pages (link_pathname l) of
             None \<Rightarrow> False
           | Some (_, anchors) \<Rightarrow> h \<notin> set anchors))"

text \<open>\<open>getBrokenLinks\<close>: every link of every page, a path link when its path is broken,
  else an anchor link when its anchor is; the flag says which.\<close>

definition get_broken_links :: "js_string list \<Rightarrow> page_links \<Rightarrow> (path \<times> js_string \<times> bool) list" where
  "get_broken_links routes pages =
     concat (map (\<lambda>(p, ls, _).
       concat (map (\<lambda>l. if is_path_broken routes l then [(p, l, False)]
                         else if is_anchor_broken pages l then [(p, l, True)] else []) ls)) pages)"

definition broken_links :: "js_string list \<Rightarrow> page_links \<Rightarrow> (path \<times> js_string) list" where
  "broken_links routes pages = map (\<lambda>(p, l, _). (p, l)) (filter (\<lambda>(_, _, a). \<not> a) (get_broken_links routes pages))"

definition broken_anchors :: "js_string list \<Rightarrow> page_links \<Rightarrow> (path \<times> js_string) list" where
  "broken_anchors routes pages = map (\<lambda>(p, l, _). (p, l)) (filter (\<lambda>(_, _, a). a) (get_broken_links routes pages))"

definition broken_links_message :: "(path \<times> js_string) list \<Rightarrow> js_string" where
  "broken_links_message bl =
     ''Docusaurus found broken links!'' @
     concat (map (\<lambda>(p, l). ''\<newline>- Broken link on source page path = '' @ p @ '' -> linking to '' @ l) bl)"

definition broken_anchors_message :: "(path \<times> js_string) list \<Rightarrow> js_string" where
  "broken_anchors_message bl =
     ''Docusaurus found broken anchors!'' @
     concat (map (\<lambda>(p, l). ''\<newline>- Broken anchor on source page path = '' @ p @ '' -> linking to '' @ l) bl)"

text \<open>\<open>handleBrokenLinks\<close> and \<open>reportBrokenLinks\<close>: the path report, then the anchor
  report, each only when its list is not empty.\<close>

definition handle_broken_links ::
  "report_severity \<Rightarrow> report_severity \<Rightarrow> js_string list \<Rightarrow> page_links \<Rightarrow> log_entry list \<Rightarrow>
   build_error + log_entry list" where
  "handle_broken_links onLinks onAnchors routes pages logs =
     (if onLinks = Ignore \<and> onAnchors = Ignore then Inr logs
      else let bl = broken_links routes pages; ba = broken_anchors routes pages in
           bind_res (if bl = [] then Inr logs else report onLinks (broken_links_message bl) logs)
             (\<lambda>logs'. if ba = [] then Inr logs' else report onAnchors (broken_anchors_message ba) logs'))"

lemma page_broken_split:
  "map (\<lambda>(p, l, _). (p, l)) (filter (\<lambda>(_, _, a). \<not> a)
     (concat (map (\<lambda>l. if A l then [(p, l, False)] else if B l then [(p, l, True)] else []) ls))) =
   map (\<lambda>l. (p, l)) (filter A ls)"
  "map (\<lambda>(p, l, _). (p, l)) (filter (\<lambda>(_, _, a). a)
     (concat (map (\<lambda>l. if A l then [(p, l, False)] else if B l then [(p, l, True)] else []) ls))) =
   map (\<lambda>l. (p, l)) (filter (\<lambda>l. \<not> A l \<and> B l) ls)"
  by (induction ls) auto

lemma get_broken_links_split:
  "map (\<lambda>(p, l, _). (p, l)) (filter (\<lambda>(_, _, a). \<not> a)
     (concat (map (\<lambda>(p, ls, _). concat (map (\<lambda>l. if A l then [(p, l, False)]
        else if B l then [(p, l, True)] else []) ls)) ps))) =
   concat (map (\<lambda>(p, ls, _). map (\<lambda>l. (p, l)) (filter A ls)) ps)"
  "map (\<lambda>(p, l, _). (p, l)) (filter (\<lambda>(_, _, a). a)
     (concat (map (\<lambda>(p, ls, _). concat (map (\<lambda>l. if A l then [(p, l, False)]
        else if B l then [(p, l, True)] else []) ls)) ps))) =
   concat (map (\<lambda>(p, ls, _). map (\<lambda>l. (p, l)) (filter (\<lambda>l. \<not> A l \<and> B l) ls)) ps)"
  by (induction ps) (auto simp: page_broken_split)

lemma broken_links_eq:
  "broken_links routes pages =
     concat (map (\<lambda>(p, ls, _). map (\<lambda>l. (p, l)) (filter (is_path_broken routes) ls)) pages)"
  unfolding broken_links_def get_broken_links_def by (rule get_broken_links_split(1))

lemma broken_anchors_eq:
  "broken_anchors routes pages =
     concat (map (\<lambda>(p, ls, _). map (\<lambda>l. (p, l))
       (filter (\<lambda>l. \<not> is_path_broken routes l \<and> is_anchor_broken pages l) ls)) pages)"
  unfolding broken_anchors_def get_broken_links_def by (rule get_broken_links_split(2))

lemma broken_links_Nil_iff:
  "broken_links routes pages = [] \<longleftrightarrow>
     (\<forall>(p, ls, _) \<in> set pages. \<forall>l \<in> set ls. link_pathname l \<in> set routes)"
  by (auto simp: broken_links_eq filter_empty_conv is_path_broken_def)

text \<open>Under \<open>'throw'\<close> for paths and \<open>'warn'\<close> for anchors: a broken path aborts before
  the anchors are looked at; otherwise each broken anchor list gives one warning.\<close>

lemma handle_broken_links_Throw_Warn:
  "handle_broken_links Throw Warn routes pages logs =
     (if broken_links routes pages \<noteq> [] then Inl (BuildFailure (broken_links_message (broken_links routes pages)))
      else if broken_anchors routes pages = [] then Inr logs
      else Inr (logs @ [Warning (broken_anchors_message (broken_anchors routes pages))]))"
  by (simp add: handle_broken_links_def report_def Let_def)

lemma literal_severities:
  "onBrokenLinks (site_config_literal sidebar css copyright) = Throw"
  "effective_onBrokenAnchors (site_config_literal sidebar css copyright) = Warn"
  by (simp_all add: site_config_literal_def effective_onBrokenAnchors_def)

text \<open>C10: with the configuration's policies (\<open>'throw'\<close> at line 179, and \<open>onBrokenAnchors\<close>
  left at its default \<open>'warn'\<close>), the check aborts the build with the list of broken links
  whenever a link misses every route; when none does, it passes the console through
  untouched if every anchor exists, and otherwise adds one warning listing the broken
  anchors and lets the build go on.\<close>

theorem load_config_broken_links_throw:
  assumes "load_config e = Inr c"
  shows "handle_broken_links (onBrokenLinks c) (effective_onBrokenAnchors c) routes pages logs =
           (if broken_links routes pages \<noteq> []
            then Inl (BuildFailure (broken_links_message (broken_links routes pages)))
            else if broken_anchors routes pages = [] then Inr logs
            else Inr (logs @ [Warning (broken_anchors_message (broken_anchors routes pages))]))"
  using assms
  by (auto dest!: load_config_Inr_literal simp: literal_severities handle_broken_links_Throw_Warn)

theorem load_config_broken_links_throw_witness:
  "\<exists>c. load_config example_env = Inr c \<and>
      handle_broken_links (onBrokenLinks c) (effective_onBrokenAnchors c)
        [''/Teaching-AI-Native-Book/'']
        [(''/Teaching-AI-Native-Book/'', [''/Teaching-AI-Native-Book/docs/intro#top''], [])] [] =
      Inl (BuildFailure (broken_links_message
             [(''/Teaching-AI-Native-Book/'', ''/Teaching-AI-Native-Book/docs/intro#top'')])) \<and>
      handle_broken_links (onBrokenLinks c) (effective_onBrokenAnchors c)
        [''/Teaching-AI-Native-Book/'']
        [(''/Teaching-AI-Native-Book/'', [''/Teaching-AI-Native-Book/#top''], [''intro''])] [] =
      Inr [Warning (broken_anchors_message
             [(''/Teaching-AI-Native-Book/'', ''/Teaching-AI-Native-Book/#top'')])]"
proof -
  obtain c where c: "load_config example_env = Inr c" using example_load_config_exists by blast
  have "broken_links [''/Teaching-AI-Native-Book/'']
          [(''/Teaching-AI-Native-Book/'', [''/Teaching-AI-Native-Book/docs/intro#top''], [])] =
        [(''/Teaching-AI-Native-Book/'', ''/Teaching-AI-Native-Book/docs/intro#top'')]"
    by (simp add: broken_links_eq is_path_broken_def link_pathname_def)
  moreover have "broken_links [''/Teaching-AI-Native-Book/'']
          [(''/Teaching-AI-Native-Book/'', [''/Teaching-AI-Native-Book/#top''], [''intro''])] = []"
    by (simp add: broken_links_eq is_path_broken_def link_pathname_def)
  moreover have "broken_anchors [''/Teaching-AI-Native-Book/'']
          [(''/Teaching-AI-Native-Book/'', [''/Teaching-AI-Native-Book/#top''], [''intro''])] =
        [(''/Teaching-AI-Native-Book/'', ''/Teaching-AI-Native-Book/#top'')]"
    by (simp add: broken_anchors_eq is_path_broken_def is_anchor_broken_def link_pathname_def link_hash_def)
  ultimately show ?thesis
    using load_config_broken_links_throw [OF c, of "[''/Teaching-AI-Native-Book/'']"
        "[(''/Teaching-AI-Native-Book/'', [''/Teaching-AI-Native-Book/docs/intro#top''], [])]" "[]"]
      load_config_broken_links_throw [OF c, of "[''/Teaching-AI-Native-Book/'']"
        "[(''/Teaching-AI-Native-Book/'', [''/Teaching-AI-Native-Book/#top''], [''intro''])]" "[]"] c
    by auto
qed

end
