(* ===== verification/Build.thy ===== *)
theory Build
  imports Validation BrokenLinks
begin

text \<open>
  The life of the configuration in a build (spec section 3): the module is evaluated once at
  start-up (\<open>load_module\<close>: the import, then the literal), the result is validated against the schema (spec section 7:
  an invalid configuration makes the tool fail at start-up), the site is rendered and its
  links and anchors are checked under \<open>onBrokenLinks\<close> and \<open>onBrokenAnchors\<close>, and the
  build ends in success or failure.
  The configuration is never changed after loading. The build is a step relation on
  phases, each phase carrying the configuration it works with; the broken-link check starts
  with an empty console.
\<close>

datatype phase =
    Start
  | Loaded site_config
  | Validated site_config
  | Built site_config "log_entry list"
  | Failed build_error

inductive build_step :: "load_env \<Rightarrow> js_string list \<Rightarrow> page_links \<Rightarrow> phase \<Rightarrow> phase \<Rightarrow> bool"
  for e :: load_env and routes :: "js_string list" and pages :: page_links where
  load: "load_module e = Inr c \<Longrightarrow> build_step e routes pages Start (Loaded c)"
| load_fails: "load_module e = Inl err \<Longrightarrow> build_step e routes pages Start (Failed (ConfigError err))"
| validate: "config_valid c \<Longrightarrow> build_step e routes pages (Loaded c) (Validated c)"
| invalid: "\<not> config_valid c \<Longrightarrow> build_step e routes pages (Loaded c) (Failed ValidationError)"
| links: "handle_broken_links (onBrokenLinks c) (effective_onBrokenAnchors c) routes pages [] = Inr logs \<Longrightarrow>
          build_step e routes pages (Validated c) (Built c logs)"
| links_fail: "handle_broken_links (onBrokenLinks c) (effective_onBrokenAnchors c) routes pages [] = Inl err \<Longrightarrow>
          build_step e routes pages (Validated c) (Failed err)"

inductive build_reachable :: "load_env \<Rightarrow> js_string list \<Rightarrow> page_links \<Rightarrow> phase \<Rightarrow> bool"
  for e :: load_env and routes :: "js_string list" and pages :: page_links where
  start: "build_reachable e routes pages Start"
| step: "build_reachable e routes pages ph \<Longrightarrow> build_step e routes pages ph ph' \<Longrightarrow>
         build_reachable e routes pages ph'"

inductive_cases build_step_StartE: "build_step e routes pages Start ph"
inductive_cases build_step_LoadedE: "build_step e routes pages (Loaded c) ph"
inductive_cases build_step_ValidatedE: "build_step e routes pages (Validated c) ph"
inductive_cases build_step_BuiltE: "build_step e routes pages (Built c logs) ph"
inductive_cases build_step_FailedE: "build_step e routes pages (Failed err) ph"

fun phase_config :: "phase \<Rightarrow> site_config option" where
  "phase_config Start = None"
| "phase_config (Loaded c) = Some c"
| "phase_config (Validated c) = Some c"
| "phase_config (Built c logs) = Some c"
| "phase_config (Failed err) = None"

fun is_final :: "phase \<Rightarrow> bool" where
  "is_final (Built c logs) = True"
| "is_final (Failed err) = True"
| "is_final _ = False"

text \<open>What each phase knows: the invariant of the build.\<close>

fun build_inv :: "load_env \<Rightarrow> js_string list \<Rightarrow> page_links \<Rightarrow> phase \<Rightarrow> bool" where
  "build_inv e routes pages Start = True"
| "build_inv e routes pages (Loaded c) \<longleftrightarrow> load_module e = Inr c"
| "build_inv e routes pages (Validated c) \<longleftrightarrow> load_module e = Inr c \<and> config_valid c"
| "build_inv e routes pages (Built c logs) \<longleftrightarrow>
     load_module e = Inr c \<and> config_valid c \<and>
     handle_broken_links (onBrokenLinks c) (effective_onBrokenAnchors c) routes pages [] = Inr logs"
| "build_inv e routes pages (Failed err) = True"

lemma build_step_inv:
  "build_step e routes pages ph ph' \<Longrightarrow> build_inv e routes pages ph \<Longrightarrow> build_inv e routes pages ph'"
  by (induction rule: build_step.induct) auto

lemma build_reachable_inv: "build_reachable e routes pages ph \<Longrightarrow> build_inv e routes pages ph"
proof (induction rule: build_reachable.induct)
  case start
  then show ?case by simp
next
  case (step ph ph')
  then show ?case by (blast intro: build_step_inv)
qed

lemma build_step_final_stuck: "is_final ph \<Longrightarrow> \<not> build_step e routes pages ph ph'"
  by (cases ph) (auto elim: build_step_BuiltE build_step_FailedE)

lemma build_step_deterministic:
  "build_step e routes pages ph ph1 \<Longrightarrow> build_step e routes pages ph ph2 \<Longrightarrow> ph1 = ph2"
proof (induction rule: build_step.induct)
  case (load c)
  then show ?case by (auto elim: build_step_StartE)
next
  case (load_fails err)
  then show ?case by (auto elim: build_step_StartE)
next
  case (validate c)
  then show ?case by (auto elim: build_step_LoadedE)
next
  case (invalid c)
  then show ?case by (auto elim: build_step_LoadedE)
next
  case (links c logs)
  then show ?case by (auto elim: build_step_ValidatedE)
next
  case (links_fail c err)
  then show ?case by (auto elim: build_step_ValidatedE)
qed

lemma build_reachable_trans_step:
  "build_reachable e routes pages ph \<Longrightarrow> build_step e routes pages ph ph' \<Longrightarrow>
   build_reachable e routes pages ph'"
  by (rule build_reachable.step)

end
