(* ===== verification/ColorMode.thy ===== *)
theory ColorMode
  imports SiteConfig
begin

text \<open>
  What the site does with \<open>themeConfig.colorMode\<close> (lines 205-207) and \<open>themeConfig.prism\<close>
  (lines 232-235) in the browser. The classic theme normalises \<open>colorMode\<close> with its defaults
  (\<open>defaultMode: 'light'\<close>, \<open>disableSwitch: false\<close>, \<open>respectPrefersColorScheme: false\<close>),
  then:
  \<^item> an inline script in the page head chooses the first colour mode, before React runs
    (\<open>noFlashColorMode\<close>): the choice stored under the key \<open>theme\<close> of localStorage if
    there is one, else the operating system's preference if \<open>respectPrefersColorScheme\<close>,
    else \<open>defaultMode\<close>;
  \<^item> \<open>setColorMode\<close> of the colour-mode context changes the mode, storing the new one, or,
    given \<open>null\<close>, falls back to the preference and deletes the stored one;
  \<^item> the navbar switch sets the opposite mode; a change of the preference resets the mode
    (a listener on \<open>(prefers-color-scheme: dark)\<close>, installed unless the switch is disabled
    and the preference ignored); a choice stored by another tab is adopted (a \<open>storage\<close>
    listener, installed unless the switch is disabled);
  \<^item> code blocks use \<open>prism.darkTheme\<close> in dark mode and \<open>prism.theme\<close> otherwise
    (\<open>usePrismTheme\<close>).
  The page is a record of the mode (React state and the \<open>data-theme\<close> attribute, kept equal by
  an effect), the stored choice and the preference; \<open>cm_step\<close> is the handler of each event
  and \<open>cm_reachable\<close> the states a tab can reach. Print media and the \<open>?docusaurus-theme\<close>
  query parameter are not modelled; localStorage only ever holds what \<open>setColorMode\<close> wrote.
\<close>

section \<open>Data\<close>

datatype ColorMode = Light | Dark

text \<open>The answer of \<open>matchMedia\<close> for \<open>prefers-color-scheme\<close>.\<close>

datatype prefers_color_scheme = PrefersDark | PrefersLight | NoPreference

record colorMode_config =
  defaultMode :: ColorMode
  disableSwitch :: bool
  cm_respectPrefersColorScheme :: bool

record page_state =
  colorMode :: ColorMode
  stored_theme :: "ColorMode option"
  os_scheme :: prefers_color_scheme

datatype cm_event =
    Reload
  | ClickToggle
  | SystemChange prefers_color_scheme
  | StorageFromOtherTab ColorMode

section \<open>Operations\<close>

text \<open>The schema of \<open>themeConfig.colorMode\<close>: absent keys take their defaults.\<close>

definition colorMode_of :: "theme_config \<Rightarrow> colorMode_config" where
  "colorMode_of tc =
     \<lparr>defaultMode = Light, disableSwitch = False,
      cm_respectPrefersColorScheme = respectPrefersColorScheme tc\<rparr>"

definition matches_dark :: "prefers_color_scheme \<Rightarrow> bool" where
  "matches_dark p \<longleftrightarrow> p = PrefersDark"

definition noFlashColorMode :: "colorMode_config \<Rightarrow> ColorMode option \<Rightarrow> prefers_color_scheme \<Rightarrow> ColorMode" where
  "noFlashColorMode cfg stored p =
     (case stored of
        Some m \<Rightarrow> m
      | None \<Rightarrow>
          if cm_respectPrefersColorScheme cfg \<and> p = PrefersDark then Dark
          else if cm_respectPrefersColorScheme cfg \<and> p = PrefersLight then Light
          else defaultMode cfg)"

definition page_load :: "colorMode_config \<Rightarrow> ColorMode option \<Rightarrow> prefers_color_scheme \<Rightarrow> page_state" where
  "page_load cfg stored p = \<lparr>colorMode = noFlashColorMode cfg stored p, stored_theme = stored, os_scheme = p\<rparr>"

text \<open>\<open>setColorMode(newColorMode)\<close> with \<open>persist\<close> left at its default \<open>true\<close>;
  \<open>None\<close> is \<open>null\<close>.\<close>

definition setColorMode :: "colorMode_config \<Rightarrow> ColorMode option \<Rightarrow> page_state \<Rightarrow> page_state" where
  "setColorMode cfg new s =
     (case new of
        Some m \<Rightarrow> s\<lparr>colorMode := m, stored_theme := Some m\<rparr>
      | None \<Rightarrow>
          s\<lparr>colorMode := (if cm_respectPrefersColorScheme cfg
                          then (if matches_dark (os_scheme s) then Dark else Light)
                          else defaultMode cfg),
            stored_theme := None\<rparr>)"

definition toggle_mode :: "ColorMode \<Rightarrow> ColorMode" where
  "toggle_mode m = (if m = Dark then Light else Dark)"

text \<open>The media-query listener fires only when the answer to the dark query changes.\<close>

fun cm_step :: "colorMode_config \<Rightarrow> cm_event \<Rightarrow> page_state \<Rightarrow> page_state" where
  "cm_step cfg Reload s = page_load cfg (stored_theme s) (os_scheme s)"
| "cm_step cfg ClickToggle s =
     (if disableSwitch cfg then s else setColorMode cfg (Some (toggle_mode (colorMode s))) s)"
| "cm_step cfg (SystemChange p) s =
     (let s' = s\<lparr>os_scheme := p\<rparr>
      in if (disableSwitch cfg \<and> \<not> cm_respectPrefersColorScheme cfg)
            \<or> matches_dark p = matches_dark (os_scheme s)
         then s' else setColorMode cfg None s')"
| "cm_step cfg (StorageFromOtherTab m) s =
     (let s' = s\<lparr>stored_theme := Some m\<rparr>
      in if disableSwitch cfg then s' else setColorMode cfg (Some m) s')"

inductive cm_reachable :: "colorMode_config \<Rightarrow> page_state \<Rightarrow> bool" for cfg :: colorMode_config where
  load: "cm_reachable cfg (page_load cfg stored p)"
| step: "cm_reachable cfg s \<Longrightarrow> cm_reachable cfg (cm_step cfg ev s)"

definition usePrismTheme :: "prism_config \<Rightarrow> ColorMode \<Rightarrow> PrismTheme" where
  "usePrismTheme p m = (if m = Dark then prism_darkTheme p else prism_theme p)"

section \<open>Reading colours\<close>

text \<open>A CSS colour \<open>#rrggbb\<close> and the W3C perceived brightness (0-255) of a colour; the
  readers of the properties, not code of the site.\<close>

definition hex_digit :: "char \<Rightarrow> nat option" where
  "hex_digit c =
     map_of (zip ''0123456789abcdefABCDEF''
                 [0, 1, 2, 3, 4, 5, 6, 7, 8, 9, 10, 11, 12, 13, 14, 15, 10, 11, 12, 13, 14, 15]) c"

definition parse_hex_color :: "js_string \<Rightarrow> (nat \<times> nat \<times> nat) option" where
  "parse_hex_color s =
     (if length s = 7 \<and> hd s = CHR ''#'' then
        (case those (map hex_digit (tl s)) of
           Some [r1, r2, g1, g2, b1, b2] \<Rightarrow> Some (16 * r1 + r2, 16 * g1 + g2, 16 * b1 + b2)
         | _ \<Rightarrow> None)
      else None)"

definition brightness :: "js_string \<Rightarrow> nat option" where
  "brightness s =
     map_option (\<lambda>(r, g, b). (299 * r + 587 * g + 114 * b) div 1000) (parse_hex_color s)"

definition dark_background :: "PrismTheme \<Rightarrow> bool" where
  "dark_background t \<longleftrightarrow>
     (case brightness (plain_backgroundColor t) of Some b \<Rightarrow> b < 128 | None \<Rightarrow> False)"

definition readable :: "PrismTheme \<Rightarrow> bool" where
  "readable t \<longleftrightarrow>
     (case (brightness (plain_color t), brightness (plain_backgroundColor t)) of
        (Some f, Some b) \<Rightarrow> 125 \<le> (if f \<le> b then b - f else f - b)
      | _ \<Rightarrow> False)"

definition system_mode :: "colorMode_config \<Rightarrow> prefers_color_scheme \<Rightarrow> ColorMode" where
  "system_mode cfg p =
     (if cm_respectPrefersColorScheme cfg then (if matches_dark p then Dark else Light) else defaultMode cfg)"

text \<open>The invariant: the page shows the stored choice, and without one the preference.\<close>

definition cm_inv :: "colorMode_config \<Rightarrow> page_state \<Rightarrow> bool" where
  "cm_inv cfg s \<longleftrightarrow>
     colorMode s = (case stored_theme s of Some m \<Rightarrow> m | None \<Rightarrow> system_mode cfg (os_scheme s))"

section \<open>The invariant\<close>

lemma noFlashColorMode_system_mode:
  "defaultMode cfg = Light \<Longrightarrow>
   noFlashColorMode cfg stored p = (case stored of Some m \<Rightarrow> m | None \<Rightarrow> system_mode cfg p)"
  by (cases p) (simp_all add: noFlashColorMode_def system_mode_def matches_dark_def split: option.split)

lemma cm_inv_page_load: "defaultMode cfg = Light \<Longrightarrow> cm_inv cfg (page_load cfg stored p)"
  by (simp add: cm_inv_def page_load_def noFlashColorMode_system_mode split: option.split)

lemma cm_inv_step:
  assumes "\<not> disableSwitch cfg" and "defaultMode cfg = Light" and "cm_inv cfg s"
  shows "cm_inv cfg (cm_step cfg ev s)"
proof (cases ev)
  case Reload
  then show ?thesis using assms(2) by (simp add: cm_inv_page_load)
next
  case ClickToggle
  then show ?thesis using assms(1) by (simp add: cm_inv_def setColorMode_def)
next
  case (SystemChange p)
  then show ?thesis
    using assms by (auto simp: cm_inv_def setColorMode_def system_mode_def Let_def split: option.split)
next
  case (StorageFromOtherTab m)
  then show ?thesis using assms(1) by (simp add: cm_inv_def setColorMode_def)
qed

lemma cm_reachable_inv:
  assumes "cm_reachable cfg s" and "\<not> disableSwitch cfg" and "defaultMode cfg = Light"
  shows "cm_inv cfg s"
  using assms by (induction rule: cm_reachable.induct) (simp_all add: cm_inv_page_load cm_inv_step)

lemma colorMode_of_literal:
  "colorMode_of (themeConfig (site_config_literal sidebar css copyright)) =
   \<lparr>defaultMode = Light, disableSwitch = False, cm_respectPrefersColorScheme = True\<rparr>"
  by (simp add: colorMode_of_def site_config_literal_def)

lemma brightness_theme_colours:
  "brightness ''#393A34'' = Some 57" "brightness ''#f6f8fa'' = Some 247"
  "brightness ''#F8F8F2'' = Some 247" "brightness ''#282A36'' = Some 42"
  by (simp_all add: brightness_def parse_hex_color_def hex_digit_def)

lemma prism_literal:
  "prism (themeConfig (site_config_literal sidebar css copyright)) =
   \<lparr>prism_theme = prismThemes_github, prism_darkTheme = prismThemes_dracula\<rparr>"
  by (simp add: site_config_literal_def)

section \<open>Properties of the site's colour modes\<close>

text \<open>C16: with \<open>respectPrefersColorScheme: true\<close> (line 206), in every state a tab of the
  site can reach by page loads, clicks on the switch, changes of the system preference and
  choices made in other tabs, the page shows the choice stored in localStorage, and without
  one follows the system: dark exactly when the system prefers dark.\<close>

theorem load_config_color_mode:
  assumes "load_config e = Inr c" and "cm_reachable (colorMode_of (themeConfig c)) s"
  shows "colorMode s =
           (case stored_theme s of Some m \<Rightarrow> m | None \<Rightarrow> if os_scheme s = PrefersDark then Dark else Light)"
proof -
  obtain sidebar css where c: "c = site_config_literal sidebar css (copyright_text e)"
    using load_config_Inr_literal [OF assms(1)] by blast
  have "cm_inv (colorMode_of (themeConfig c)) s"
    using assms(2) by (rule cm_reachable_inv) (simp_all add: c colorMode_of_literal)
  then show ?thesis
    by (simp add: c colorMode_of_literal cm_inv_def system_mode_def matches_dark_def split: option.split)
qed

text \<open>C17: the code blocks follow the page: in dark mode they get the dark theme
  (\<open>prismThemes.dracula\<close>, a dark background) and in light mode the light one
  (\<open>prismThemes.github\<close>, a light background), and in both modes text and background differ
  in brightness by at least 125, the W3C threshold of readable colour pairs.\<close>

theorem load_config_prism_modes:
  assumes "load_config e = Inr c"
  shows "(dark_background (usePrismTheme (prism (themeConfig c)) m) \<longleftrightarrow> m = Dark) \<and>
         readable (usePrismTheme (prism (themeConfig c)) m)"
proof -
  obtain sidebar css where c: "c = site_config_literal sidebar css (copyright_text e)"
    using load_config_Inr_literal [OF assms(1)] by blast
  have t: "usePrismTheme (prism (themeConfig c)) m = (if m = Dark then prismThemes_dracula else prismThemes_github)"
    by (simp add: c prism_literal usePrismTheme_def)
  show ?thesis
    unfolding t
    by (simp add: dark_background_def readable_def brightness_theme_colours
        prismThemes_github_def prismThemes_dracula_def)
qed

theorem load_config_color_mode_witness:
  "\<exists>c. load_config example_env = Inr c \<and>
      cm_reachable (colorMode_of (themeConfig c))
        (cm_step (colorMode_of (themeConfig c)) (SystemChange PrefersDark)
          (page_load (colorMode_of (themeConfig c)) None PrefersLight)) \<and>
      colorMode (cm_step (colorMode_of (themeConfig c)) (SystemChange PrefersDark)
          (page_load (colorMode_of (themeConfig c)) None PrefersLight)) = Dark"
proof -
  obtain c where c: "load_config example_env = Inr c" using example_load_config_exists by blast
  let ?cfg = "colorMode_of (themeConfig c)"
  have r: "cm_reachable ?cfg (cm_step ?cfg (SystemChange PrefersDark) (page_load ?cfg None PrefersLight))"
    by (rule cm_reachable.step [OF cm_reachable.load])
  have "stored_theme (cm_step ?cfg (SystemChange PrefersDark) (page_load ?cfg None PrefersLight)) = None"
    "os_scheme (cm_step ?cfg (SystemChange PrefersDark) (page_load ?cfg None PrefersLight)) = PrefersDark"
    by (simp_all add: Let_def setColorMode_def page_load_def)
  then show ?thesis
    using load_config_color_mode [OF c r] c r by simp
qed

theorem load_config_prism_modes_witness:
  "\<exists>c. load_config example_env = Inr c \<and>
      dark_background (usePrismTheme (prism (themeConfig c)) Dark) \<and>
      \<not> dark_background (usePrismTheme (prism (themeConfig c)) Light) \<and>
      readable (usePrismTheme (prism (themeConfig c)) Dark) \<and>
      readable (usePrismTheme (prism (themeConfig c)) Light)"
proof -
  obtain c where c: "load_config example_env = Inr c" using example_load_config_exists by blast
  show ?thesis
    using load_config_prism_modes [OF c, of Dark] load_config_prism_modes [OF c, of Light] c by auto
qed

end
