(* ===== verification/Assets.thy ===== *)
theory Assets
  imports Build "HOL-Library.Sublist"
begin

text \<open>
  The static assets the configuration names by path: \<open>favicon: 'img/favicon.ico'\<close>
  (line 167), the social card \<open>image: 'img/docusaurus-social-card.jpg'\<close> (line 204) and the
  navbar logo \<open>src: 'img/logo.svg'\<close> (line 212). The theme turns each path into the URL the
  page references with \<open>addBaseUrl\<close> of Docusaurus's \<open>useBaseUrl\<close>: the favicon link and the
  logo image get the path under \<open>baseUrl\<close>, the \<open>og:image\<close> and \<open>twitter:image\<close> metadata
  the absolute URL (\<open>absolute: true\<close>). The router is the browser router, the default the
  configuration keeps.
\<close>

section \<open>addBaseUrl\<close>

datatype router = BrowserRouter | HashRouter

text \<open>\<open>hasProtocol\<close>: the regular expression \<open>^(?:\w*:|\/\/)\<close>.\<close>

definition is_word_char :: "char \<Rightarrow> bool" where
  "is_word_char c \<longleftrightarrow>
     c \<in> set ''ABCDEFGHIJKLMNOPQRSTUVWXYZabcdefghijklmnopqrstuvwxyz0123456789_''"

definition hasProtocol :: "js_string \<Rightarrow> bool" where
  "hasProtocol u \<longleftrightarrow>
     (case dropWhile is_word_char u of c # _ \<Rightarrow> c = CHR '':'' | [] \<Rightarrow> False) \<or> take 2 u = ''//''"

text \<open>\<open>s.replace(/^\//, '')\<close> and \<open>s.replace(/\/$/, '')\<close>.\<close>

definition strip_leading_slash :: "js_string \<Rightarrow> js_string" where
  "strip_leading_slash s = (case s of c # r \<Rightarrow> if c = CHR ''/'' then r else s | [] \<Rightarrow> [])"

definition strip_trailing_slash :: "js_string \<Rightarrow> js_string" where
  "strip_trailing_slash s = (if s \<noteq> [] \<and> last s = CHR ''/'' then butlast s else s)"

definition addBaseUrl ::
  "js_string \<Rightarrow> js_string \<Rightarrow> js_string \<Rightarrow> bool \<Rightarrow> bool \<Rightarrow> router \<Rightarrow> js_string" where
  "addBaseUrl siteUrl base_url u forcePrependBaseUrl absolute rt =
     (if u = [] \<or> hd u = CHR ''#'' \<or> hasProtocol u then u
      else if rt = HashRouter then (if hd u = CHR ''/'' then CHR ''.'' # u else ''./'' @ u)
      else if forcePrependBaseUrl then base_url @ strip_leading_slash u
      else if u = strip_trailing_slash base_url then base_url
      else
        let basePath = (if \<not> prefix base_url u then base_url @ strip_leading_slash u else u)
        in if absolute then siteUrl @ basePath else basePath)"

text \<open>\<open>useBaseUrl(url)\<close> and \<open>withBaseUrl(url, {absolute: true})\<close> of the site.\<close>

definition useBaseUrl :: "site_config \<Rightarrow> js_string \<Rightarrow> js_string" where
  "useBaseUrl c u = addBaseUrl (url c) (baseUrl c) u False False BrowserRouter"

definition useAbsoluteUrl :: "site_config \<Rightarrow> js_string \<Rightarrow> js_string" where
  "useAbsoluteUrl c u = addBaseUrl (url c) (baseUrl c) u False True BrowserRouter"

text \<open>The three asset URLs of every page: the favicon link, the logo image, the social card.\<close>

definition page_asset_urls :: "site_config \<Rightarrow> js_string \<times> js_string \<times> js_string" where
  "page_asset_urls c =
     (useBaseUrl c (favicon c),
      useBaseUrl c (logo_src (navbar_logo (navbar (themeConfig c)))),
      useAbsoluteUrl c (social_card_image (themeConfig c)))"

text \<open>A local path: not empty, not an anchor, no protocol.\<close>

definition local_path :: "js_string \<Rightarrow> bool" where
  "local_path u \<longleftrightarrow> u \<noteq> [] \<and> hd u \<noteq> CHR ''#'' \<and> \<not> hasProtocol u"

section \<open>Lemmas\<close>

lemma hasProtocol_slash_start:
  assumes "u \<noteq> []" "hd u = CHR ''/''" "take 2 u \<noteq> ''//''"
  shows "\<not> hasProtocol u"
proof -
  have "\<not> is_word_char (CHR ''/'')" by (simp add: is_word_char_def)
  then have "dropWhile is_word_char u = u" using assms(1,2) by (cases u) auto
  then show ?thesis using assms by (cases u) (auto simp: hasProtocol_def)
qed

lemma addBaseUrl_local:
  "local_path u \<Longrightarrow>
   addBaseUrl s b u False False BrowserRouter =
     (if u = strip_trailing_slash b then b
      else if \<not> prefix b u then b @ strip_leading_slash u else u)"
  by (simp add: addBaseUrl_def local_path_def Let_def)

lemma strip_trailing_slash_prefix: "prefix (strip_trailing_slash b) b"
  by (simp add: strip_trailing_slash_def prefix_def) (metis append_butlast_last_id)

lemma addBaseUrl_under_base:
  "local_path u \<Longrightarrow> prefix b (addBaseUrl s b u False False BrowserRouter)"
  by (simp add: addBaseUrl_local)

lemma addBaseUrl_fixed:
  assumes "prefix b r"
  shows "addBaseUrl s b r False False BrowserRouter = r"
proof (cases "local_path r")
  case True
  have "r = strip_trailing_slash b \<Longrightarrow> r = b"
    using assms strip_trailing_slash_prefix [of b] prefix_length_le prefix_length_prefix
    by (metis prefix_order.antisym prefix_same_cases)
  then show ?thesis using True assms by (auto simp: addBaseUrl_local)
next
  case False
  then show ?thesis by (auto simp: addBaseUrl_def local_path_def)
qed

lemma site_literal_urls:
  "url (site_config_literal sidebar css copyright) = ''https://elishbamehmood-01.github.io''"
  "baseUrl (site_config_literal sidebar css copyright) = ''/Teaching-AI-Native-Book/''"
  by (simp_all add: site_config_literal_def)

lemma addBaseUrl_absolute_local:
  "local_path u \<Longrightarrow> u \<noteq> strip_trailing_slash b \<Longrightarrow>
   addBaseUrl s b u False True BrowserRouter = s @ addBaseUrl s b u False False BrowserRouter"
  by (simp add: addBaseUrl_def local_path_def Let_def)

lemma local_path_literals:
  "local_path ''img/favicon.ico''" "local_path ''img/logo.svg''"
  "local_path ''img/docusaurus-social-card.jpg''"
  by (simp_all add: local_path_def hasProtocol_def is_word_char_def)

lemma addBaseUrl_idem:
  "addBaseUrl s b (addBaseUrl s b u False False BrowserRouter) False False BrowserRouter =
   addBaseUrl s b u False False BrowserRouter"
proof (cases "local_path u")
  case True
  then show ?thesis by (rule addBaseUrl_fixed [OF addBaseUrl_under_base])
next
  case False
  then have "addBaseUrl s b u False False BrowserRouter = u"
    by (auto simp: addBaseUrl_def local_path_def)
  then show ?thesis by simp
qed

lemma page_asset_urls_literal:
  "page_asset_urls (site_config_literal sidebar css copyright) =
     (''/Teaching-AI-Native-Book/img/favicon.ico'', ''/Teaching-AI-Native-Book/img/logo.svg'',
      ''https://elishbamehmood-01.github.io/Teaching-AI-Native-Book/img/docusaurus-social-card.jpg'')"
proof -
  let ?c = "site_config_literal sidebar css copyright"
  have f: "favicon ?c = ''img/favicon.ico''" "logo_src (navbar_logo (navbar (themeConfig ?c))) = ''img/logo.svg''"
    "social_card_image (themeConfig ?c) = ''img/docusaurus-social-card.jpg''"
    by (simp_all add: site_config_literal_def)
  have st: "strip_trailing_slash ''/Teaching-AI-Native-Book/'' = ''/Teaching-AI-Native-Book''"
    by (simp add: strip_trailing_slash_def)
  show ?thesis
    unfolding page_asset_urls_def useBaseUrl_def useAbsoluteUrl_def f
    using local_path_literals st
    by (simp add: site_literal_urls addBaseUrl_local addBaseUrl_absolute_local strip_leading_slash_def)
qed

section \<open>Properties\<close>

text \<open>C18: every local path the site turns into a URL (favicon, logo, images, links) lands
  under the base path \<open>/Teaching-AI-Native-Book/\<close> that GitHub Pages serves the project
  from, and with \<open>absolute: true\<close> under the site root
  \<open>https://elishbamehmood-01.github.io/Teaching-AI-Native-Book/\<close>, except the base path
  written without its final slash, which comes back as the base path itself.\<close>

theorem load_config_assets_under_base:
  assumes "load_config e = Inr c" and "local_path u"
  shows "prefix ''/Teaching-AI-Native-Book/'' (useBaseUrl c u) \<and>
         (u \<noteq> ''/Teaching-AI-Native-Book'' \<longrightarrow>
            prefix ''https://elishbamehmood-01.github.io/Teaching-AI-Native-Book/'' (useAbsoluteUrl c u)) \<and>
         (u = ''/Teaching-AI-Native-Book'' \<longrightarrow> useAbsoluteUrl c u = ''/Teaching-AI-Native-Book/'')"
proof -
  obtain sidebar css where c: "c = site_config_literal sidebar css (copyright_text e)"
    using load_config_Inr_literal [OF assms(1)] by blast
  have st: "strip_trailing_slash ''/Teaching-AI-Native-Book/'' = ''/Teaching-AI-Native-Book''"
    by (simp add: strip_trailing_slash_def)
  have base: "prefix ''/Teaching-AI-Native-Book/'' (useBaseUrl c u)"
    using addBaseUrl_under_base [OF assms(2)] by (simp add: useBaseUrl_def c site_literal_urls)
  moreover have "u \<noteq> ''/Teaching-AI-Native-Book'' \<Longrightarrow>
      useAbsoluteUrl c u = ''https://elishbamehmood-01.github.io'' @ useBaseUrl c u"
    using addBaseUrl_absolute_local [OF assms(2)] st
    by (simp add: useAbsoluteUrl_def useBaseUrl_def c site_literal_urls)
  moreover have "u = ''/Teaching-AI-Native-Book'' \<Longrightarrow> useAbsoluteUrl c u = ''/Teaching-AI-Native-Book/''"
    using assms(2) st by (simp add: useAbsoluteUrl_def c site_literal_urls addBaseUrl_def local_path_def)
  ultimately show ?thesis
    using base by (auto simp: prefix_def)
qed

theorem load_config_assets_under_base_witness:
  "\<exists>c. load_config example_env = Inr c \<and> local_path ''img/logo.svg'' \<and>
      prefix ''/Teaching-AI-Native-Book/'' (useBaseUrl c ''img/logo.svg'') \<and>
      prefix ''https://elishbamehmood-01.github.io/Teaching-AI-Native-Book/'' (useAbsoluteUrl c ''img/logo.svg'')"
proof -
  obtain c where c: "load_config example_env = Inr c" using example_load_config_exists by blast
  show ?thesis using load_config_assets_under_base [OF c local_path_literals(2)] c local_path_literals(2) by auto
qed

end
