(* ===== verification/ModulePaths.thy ===== *)
theory ModulePaths
  imports SiteConfig
begin

text \<open>
  Node's \<open>Module._nodeModulePaths(from)\<close> as Node writes it: after \<open>path.resolve\<close>, and
  with \<open>/\<close> answered at once, one loop runs from the last character of the path to the
  first, keeping in \<open>p\<close> how much of \<open>node_modules\<close> (matched backwards against
  \<open>nmChars\<close>) the current segment has spelt and in \<open>last\<close> (here \<open>lasti\<close>) where the
  segment ends; at each slash it pushes \<open>from.slice(0, last) + '/node_modules'\<close> unless
  the segment was exactly \<open>node_modules\<close>. The loop is a \<open>partial_function (option)\<close>:
  not returning would be \<open>None\<close>. \<open>NodePath.node_module_paths\<close> is the segment-level
  reference; this theory proves that the loop always returns and returns exactly that list,
  so the resolution of the import of line 161 is the same with either.
\<close>

section \<open>The loop\<close>

definition nmChars :: "char list" where
  "nmChars = rev ''node_modules''"

partial_function (option) nmp_loop :: "path \<Rightarrow> int \<Rightarrow> int \<Rightarrow> nat \<Rightarrow> path list \<Rightarrow> path list option" where
  "nmp_loop from i p lasti paths =
     (if i < 0 then Some paths
      else
        let code = from ! nat i in
        if code = CHR ''/'' then
          nmp_loop from (i - 1) 0 (nat i)
            (if p \<noteq> int (length nmChars) then paths @ [take lasti from @ ''/node_modules''] else paths)
        else if p \<noteq> -1 then
          nmp_loop from (i - 1)
            (if nat p < length nmChars \<and> nmChars ! nat p = code then p + 1 else -1) lasti paths
        else nmp_loop from (i - 1) p lasti paths)"

declare nmp_loop.simps [code]

definition nodeModulePaths :: "path \<Rightarrow> path \<Rightarrow> path list option" where
  "nodeModulePaths cwd from0 =
     (let from = path_resolve cwd [from0]
      in if from = ''/'' then Some [''/node_modules'']
         else map_option (\<lambda>ps. ps @ [''/node_modules''])
                (nmp_loop from (int (length from) - 1) 0 (length from) []))"

text \<open>The resolution of the bare request of line 161 with the lookup paths computed by the
  loop (\<open>Module._resolveFilename\<close> then \<open>Module._findPath\<close> over them).\<close>

definition import_prism_node :: "load_env \<Rightarrow> (load_error + path) option" where
  "import_prism_node e =
     map_option (find_path (env_fs e) (env_pkgs e) (env_cwd e) ''prism-react-renderer'')
       (nodeModulePaths (env_cwd e) (dirname (env_config_file e)))"

text \<open>How much of \<open>node_modules\<close> the scanned suffix of a segment spells (backwards), and
  the entries the loop pushes for a path with segments \<open>segs\<close>.\<close>

definition nm_state :: "char list \<Rightarrow> int" where
  "nm_state ys =
     (if length ys \<le> length nmChars \<and> rev ys = take (length ys) nmChars then int (length ys) else -1)"

definition nm_entries :: "path list \<Rightarrow> path list" where
  "nm_entries segs =
     map (\<lambda>ps. abs_path (ps @ [''node_modules'']))
       (filter (\<lambda>ps. last ps \<noteq> ''node_modules'') (map (\<lambda>n. take n segs) (rev [1..<Suc (length segs)])))"

section \<open>The loop returns, and computes the reference list\<close>

lemma nmp_loop_returns: "\<exists>r. nmp_loop from i p lasti paths = Some r"
proof (induction "nat (i + 1)" arbitrary: i p lasti paths)
  case 0
  then have "i < 0" by simp
  then show ?case by (simp add: nmp_loop.simps)
next
  case (Suc n)
  then have "\<not> i < 0" "n = nat ((i - 1) + 1)" by simp_all
  then show ?case using Suc.hyps(1) by (simp add: nmp_loop.simps [of "from" i] Let_def)
qed

lemma nm_state_Nil [simp]: "nm_state [] = 0"
  by (simp add: nm_state_def)

lemma nm_state_Cons:
  "nm_state (c # ys) =
     (if nm_state ys \<noteq> -1 \<and> nat (nm_state ys) < length nmChars \<and> nmChars ! nat (nm_state ys) = c
      then nm_state ys + 1 else -1)"
proof (cases "length ys < length nmChars \<and> rev ys = take (length ys) nmChars")
  case True
  then have "take (Suc (length ys)) nmChars = take (length ys) nmChars @ [nmChars ! length ys]"
    by (simp add: take_Suc_conv_app_nth)
  then show ?thesis using True by (auto simp: nm_state_def)
next
  case False
  then show ?thesis
    by (auto simp: nm_state_def take_Suc_conv_app_nth split: if_splits dest: arg_cong [of _ _ length])
qed

lemma nm_state_full: "nm_state s = int (length nmChars) \<longleftrightarrow> s = ''node_modules''"
  by (auto simp: nm_state_def nmChars_def)

lemma nmp_loop_char:
  assumes "0 \<le> i" and "from ! nat i = c" and "c \<noteq> CHR ''/''"
  shows "nmp_loop from i (nm_state ys) lasti paths = nmp_loop from (i - 1) (nm_state (c # ys)) lasti paths"
  using assms by (simp add: nmp_loop.simps [of "from" i] nm_state_Cons Let_def)

lemma nmp_loop_scan:
  assumes "CHR ''/'' \<notin> set xs"
  shows "nmp_loop (pre @ xs @ post) (int (length pre + length xs) - 1) (nm_state ys) lasti paths =
         nmp_loop (pre @ xs @ post) (int (length pre) - 1) (nm_state (xs @ ys)) lasti paths"
  using assms
proof (induction xs arbitrary: post ys rule: rev_induct)
  case Nil
  then show ?case by simp
next
  case (snoc c xs)
  have c: "c \<noteq> CHR ''/''" "CHR ''/'' \<notin> set xs" using snoc.prems by auto
  have at: "(pre @ xs @ c # post) ! nat (int (length pre + length xs)) = c"
    unfolding nat_int by (simp add: nth_append)
  have "nmp_loop (pre @ xs @ c # post) (int (length pre + length xs)) (nm_state ys) lasti paths =
        nmp_loop (pre @ xs @ c # post) (int (length pre + length xs) - 1) (nm_state (c # ys)) lasti paths"
    using nmp_loop_char [OF _ at c(1)] by simp
  also have "\<dots> = nmp_loop (pre @ xs @ c # post) (int (length pre) - 1) (nm_state (xs @ c # ys)) lasti paths"
    using snoc.IH [OF c(2), of "c # post" "c # ys"] by simp
  finally show ?case by simp
qed

lemma nmp_loop_segment:
  assumes "CHR ''/'' \<notin> set s"
  shows "nmp_loop (pre @ CHR ''/'' # s @ post) (int (length pre + 1 + length s) - 1) 0 lasti paths =
         nmp_loop (pre @ CHR ''/'' # s @ post) (int (length pre) - 1) 0 (length pre)
           (if s \<noteq> ''node_modules'' then paths @ [take lasti (pre @ CHR ''/'' # s @ post) @ ''/node_modules'']
            else paths)"
proof -
  let ?f = "pre @ CHR ''/'' # s @ post"
  have "nmp_loop ((pre @ [CHR ''/'']) @ s @ post) (int (length (pre @ [CHR ''/'']) + length s) - 1) (nm_state []) lasti paths =
        nmp_loop ((pre @ [CHR ''/'']) @ s @ post) (int (length (pre @ [CHR ''/''])) - 1) (nm_state s) lasti paths"
    using nmp_loop_scan [OF assms, of "pre @ [CHR ''/'']" post "[]"] by simp
  moreover have "?f ! nat (int (length pre)) = CHR ''/''"
    unfolding nat_int by (simp add: nth_append)
  ultimately show ?thesis
    by (simp add: nmp_loop.simps [of ?f "int (length pre)"] nm_state_full add.commute Let_def)
qed

lemma nm_entries_snoc:
  "nm_entries (ss @ [s]) =
     (if s \<noteq> ''node_modules'' then [abs_path (ss @ [s, ''node_modules''])] else []) @ nm_entries ss"
proof -
  let ?n = "length ss"
  have r: "rev [1..<Suc (Suc ?n)] = Suc ?n # rev [1..<Suc ?n]" by simp
  have m: "map (\<lambda>n. take n (ss @ [s])) (rev [1..<Suc ?n]) = map (\<lambda>n. take n ss) (rev [1..<Suc ?n])"
    by (rule map_cong) auto
  have mm: "map (\<lambda>n. take n (ss @ [s])) (rev [1..<Suc (Suc ?n)]) =
             (ss @ [s]) # map (\<lambda>n. take n ss) (rev [1..<Suc ?n])"
    by (simp only: r list.map(2) m) simp
  show ?thesis
    unfolding nm_entries_def length_append_singleton mm by simp
qed

lemma abs_path_snoc: "ss \<noteq> [] \<Longrightarrow> abs_path (ss @ [s]) = abs_path ss @ CHR ''/'' # s"
  by (simp add: abs_path_def join_on_snoc)

lemma nmp_loop_abs_path:
  assumes "segs \<noteq> []" and "list_all clean_seg segs"
  shows "nmp_loop (abs_path segs @ rest) (int (length (abs_path segs)) - 1) 0 (length (abs_path segs)) paths =
         Some (paths @ nm_entries segs)"
  using assms
proof (induction segs arbitrary: rest paths rule: rev_induct)
  case Nil
  then show ?case by simp
next
  case (snoc s ss)
  have s: "CHR ''/'' \<notin> set s" "list_all clean_seg ss"
    using snoc.prems(2) by (simp_all add: clean_seg_def [of s])
  show ?case
  proof (cases "ss = []")
    case True
    have f: "abs_path (ss @ [s]) @ rest = [] @ CHR ''/'' # s @ rest" by (simp add: True abs_path_def)
    show ?thesis
      unfolding f using nmp_loop_segment [OF s(1), of "[]" rest "length (abs_path [s])" paths]
      by (simp add: True abs_path_def nmp_loop.simps [of _ "-1"] nm_entries_def)
  next
    case False
    have f: "abs_path (ss @ [s]) @ rest = abs_path ss @ CHR ''/'' # s @ rest"
      by (simp add: abs_path_snoc [OF False])
    have len: "length (abs_path (ss @ [s])) = length (abs_path ss) + 1 + length s"
      by (simp add: abs_path_snoc [OF False])
    have take: "take (length (abs_path (ss @ [s]))) (abs_path ss @ CHR ''/'' # s @ rest) @ ''/node_modules'' =
                abs_path (ss @ [s, ''node_modules''])"
      using abs_path_snoc [OF False, of s] abs_path_snoc [of "ss @ [s]" "''node_modules''"] by simp
    show ?thesis
      unfolding f len
      using nmp_loop_segment [OF s(1), of "abs_path ss" rest "length (abs_path ss) + 1 + length s" paths]
        snoc.IH [OF False s(2), of "CHR ''/'' # s @ rest"] take [unfolded len]
      by (simp add: nm_entries_snoc)
  qed
qed

lemma nodeModulePaths_eq: "nodeModulePaths cwd from = Some (node_module_paths cwd from)"
proof -
  obtain segs where p: "path_resolve cwd [from] = abs_path segs" and clean: "list_all clean_seg segs"
    using is_normalized_path_resolve by (rule is_normalized_E)
  have "node_module_paths cwd from = node_module_paths cwd (abs_path segs)"
    by (simp add: node_module_paths_def p path_resolve_abs_path [OF clean])
  then have ref: "node_module_paths cwd from = nm_entries segs @ [''/node_modules'']"
    by (simp add: node_module_paths_abs [OF clean] nm_entries_def)
  show ?thesis
  proof (cases "segs = []")
    case True
    then show ?thesis by (simp add: nodeModulePaths_def p ref abs_path_def nm_entries_def)
  next
    case False
    then obtain s ss where "segs = s # ss" by (cases segs) auto
    with clean have "abs_path segs \<noteq> ''/''" by (auto simp: abs_path_def join_on_Cons clean_seg_def)
    then show ?thesis
      using nmp_loop_abs_path [OF False clean, of "[]" "[]"]
      by (simp add: nodeModulePaths_def p ref)
  qed
qed

section \<open>Properties\<close>

text \<open>C19: resolving the import of line 161 with the lookup paths of Node's character loop
  returns, in every load environment, and gives exactly \<open>import_prism\<close>: the same file,
  or the same error.\<close>

theorem import_prism_node_eq: "import_prism_node e = Some (import_prism e)"
  by (simp add: import_prism_node_def nodeModulePaths_eq import_prism_def require_resolve_def
      prism_bare_request)

end
