(* ===== verification/JsValue.thy ===== *)
theory JsValue
  imports SiteConfig
begin

text \<open>
  The configuration as the JavaScript value the source writes. A value is a \<open>jsval\<close>
  (objects keep their keys in source order); \<open>config_js\<close> (lines 164-237) and
  \<open>legacy_config_js\<close> (the commented-out lines 12-153) are the two object literals written
  out key by key, one definition per part. \<open>js_of_config\<close> serialises the record model of
  \<open>SiteConfig\<close> (absent optional keys omitted), the form in which Docusaurus receives the
  exported object.
\<close>

section \<open>Values\<close>

datatype jsval =
    JObject "(js_string \<times> jsval) list"
  | JArray "jsval list"
  | JString js_string
  | JBool bool
  | JNull

section \<open>The two object literals\<close>

text \<open>The values of \<open>prismThemes.github\<close> and \<open>prismThemes.dracula\<close>: objects of the
  package, of which the model keeps the \<open>plain\<close> entry.\<close>

definition js_PrismTheme :: "PrismTheme \<Rightarrow> jsval" where
  "js_PrismTheme t =
     JObject [(''plain'', JObject [(''color'', JString (plain_color t)),
                                 (''backgroundColor'', JString (plain_backgroundColor t))])]"

text \<open>Lines 186-201: \<open>presets\<close>.\<close>

definition presets_js :: "path \<Rightarrow> path \<Rightarrow> jsval" where
  "presets_js sidebar css = JArray
         [JArray [JString ''classic'', JObject
            [(''docs'', JObject [(''sidebarPath'', JString sidebar)]),
             (''blog'', JObject [(''showReadingTime'', JBool True)]),
             (''theme'', JObject [(''customCss'', JString css)])]]]"

text \<open>Lines 208-227: \<open>themeConfig.navbar\<close>.\<close>

definition navbar_js :: jsval where
  "navbar_js = JObject
             [(''title'', JString ''Teaching AI-Native Book''),
              (''logo'', JObject [(''alt'', JString ''AI-Native Logo''), (''src'', JString ''img/logo.svg'')]),
              (''items'', JArray
                 [JObject [(''type'', JString ''docSidebar''), (''sidebarId'', JString ''tutorialSidebar''),
                           (''position'', JString ''left''), (''label'', JString ''Book'')],
                  JObject [(''href'', JString ''https://github.com/ElishbaMehmood-01/Teaching-AI-Native-Book''),
                           (''label'', JString ''GitHub''), (''position'', JString ''right'')]])]"

text \<open>Lines 203-236: \<open>themeConfig\<close>.\<close>

definition themeConfig_js :: "js_string \<Rightarrow> jsval" where
  "themeConfig_js copyright = JObject
         [(''image'', JString ''img/docusaurus-social-card.jpg''),
          (''colorMode'', JObject [(''respectPrefersColorScheme'', JBool True)]),
          (''navbar'', navbar_js),
          (''footer'', JObject [(''style'', JString ''dark''), (''copyright'', JString copyright)]),
          (''prism'', JObject [(''theme'', js_PrismTheme prismThemes_github),
                              (''darkTheme'', js_PrismTheme prismThemes_dracula)])]"

text \<open>Lines 164-237, with the values of the two \<open>require.resolve\<close> calls and of the
  copyright template as parameters.\<close>

definition config_js :: "path \<Rightarrow> path \<Rightarrow> js_string \<Rightarrow> jsval" where
  "config_js sidebar css copyright = JObject
     [(''title'', JString ''Teaching AI-Native Book''),
      (''tagline'', JString ''An AI-native, spec-driven book on modern software development''),
      (''favicon'', JString ''img/favicon.ico''),
      (''future'', JObject [(''v4'', JBool True)]),
      (''url'', JString ''https://elishbamehmood-01.github.io''),
      (''baseUrl'', JString ''/Teaching-AI-Native-Book/''),
      (''organizationName'', JString ''ElishbaMehmood-01''),
      (''projectName'', JString ''Teaching-AI-Native-Book''),
      (''onBrokenLinks'', JString ''throw''),
      (''i18n'', JObject [(''defaultLocale'', JString ''en''), (''locales'', JArray [JString ''en''])]),
      (''presets'', presets_js sidebar css),
      (''themeConfig'', themeConfig_js copyright)]"

text \<open>Lines 42-72 (commented out): \<open>presets\<close>.\<close>

definition legacy_presets_js :: "path \<Rightarrow> jsval" where
  "legacy_presets_js sidebar = JArray
         [JArray [JString ''classic'', JObject
            [(''docs'', JObject [(''sidebarPath'', JString sidebar),
                                (''editUrl'', JString docusaurus_template_url)]),
             (''blog'', JObject
                [(''showReadingTime'', JBool True),
                 (''feedOptions'', JObject [(''type'', JArray [JString ''rss'', JString ''atom'']),
                                           (''xslt'', JBool True)]),
                 (''editUrl'', JString docusaurus_template_url),
                 (''onInlineTags'', JString ''warn''), (''onInlineAuthors'', JString ''warn''),
                 (''onUntruncatedBlogPosts'', JString ''warn'')]),
             (''theme'', JObject [(''customCss'', JString ''./src/css/custom.css'')])]]]"

text \<open>Lines 82-102 (commented out): \<open>themeConfig.navbar\<close>.\<close>

definition legacy_navbar_js :: jsval where
  "legacy_navbar_js = JObject
             [(''title'', JString ''My Site''),
              (''logo'', JObject [(''alt'', JString ''My Site Logo''), (''src'', JString ''img/logo.svg'')]),
              (''items'', JArray
                 [JObject [(''type'', JString ''docSidebar''), (''sidebarId'', JString ''tutorialSidebar''),
                           (''position'', JString ''left''), (''label'', JString ''Tutorial'')],
                  JObject [(''to'', JString ''/blog''), (''label'', JString ''Blog''), (''position'', JString ''left'')],
                  JObject [(''href'', JString ''https://github.com/ElishbaMehmood-01/Teaching-AI-Native-Book''),
                           (''label'', JString ''GitHub''), (''position'', JString ''right'')]])]"

text \<open>Lines 103-147 (commented out): \<open>themeConfig.footer\<close>.\<close>

definition legacy_footer_js :: "js_string \<Rightarrow> jsval" where
  "legacy_footer_js copyright = JObject
             [(''style'', JString ''dark''),
              (''links'', JArray
                 [JObject [(''title'', JString ''Docs''),
                           (''items'', JArray [JObject [(''label'', JString ''Tutorial''), (''to'', JString ''/docs/intro'')]])],
                  JObject [(''title'', JString ''Community''),
                           (''items'', JArray
                              [JObject [(''label'', JString ''Stack Overflow''),
                                        (''href'', JString ''https://stackoverflow.com/questions/tagged/docusaurus'')],
                               JObject [(''label'', JString ''Discord''),
                                        (''href'', JString ''https://discordapp.com/invite/docusaurus'')],
                               JObject [(''label'', JString ''X''), (''href'', JString ''https://x.com/docusaurus'')]])],
                  JObject [(''title'', JString ''More''),
                           (''items'', JArray
                              [JObject [(''label'', JString ''Blog''), (''to'', JString ''/blog'')],
                               JObject [(''href'', JString ''https://github.com/ElishbaMehmood-01/Teaching-AI-Native-Book'')]])]]),
              (''copyright'', JString copyright)]"

text \<open>Lines 74-152 (commented out): \<open>themeConfig\<close>.\<close>

definition legacy_themeConfig_js :: "js_string \<Rightarrow> jsval" where
  "legacy_themeConfig_js copyright = JObject
         [(''image'', JString ''img/docusaurus-social-card.jpg''),
          (''colorMode'', JObject [(''respectPrefersColorScheme'', JBool True)]),
          (''navbar'', legacy_navbar_js),
          (''footer'', legacy_footer_js copyright),
          (''prism'', JObject [(''theme'', js_PrismTheme prismThemes_github),
                              (''darkTheme'', js_PrismTheme prismThemes_dracula)])]"

text \<open>Lines 12-153 (commented out); \<open>customCss\<close> is the plain string there.\<close>

definition legacy_config_js :: "path \<Rightarrow> js_string \<Rightarrow> jsval" where
  "legacy_config_js sidebar copyright = JObject
     [(''favicon'', JString ''img/favicon.ico''),
      (''future'', JObject [(''v4'', JBool True)]),
      (''url'', JString ''https://your-docusaurus-site.example.com''),
      (''baseUrl'', JString ''/Teaching-AI-Native-Book/''),
      (''organizationName'', JString ''ElishbaMehmood-01''),
      (''projectName'', JString ''Teaching-AI-Native_Book''),
      (''onBrokenLinks'', JString ''throw''),
      (''i18n'', JObject [(''defaultLocale'', JString ''en''), (''locales'', JArray [JString ''en''])]),
      (''presets'', legacy_presets_js sidebar),
      (''themeConfig'', legacy_themeConfig_js copyright)]"

section \<open>Serialising the record model\<close>

definition js_opt :: "js_string \<Rightarrow> ('a \<Rightarrow> jsval) \<Rightarrow> 'a option \<Rightarrow> (js_string \<times> jsval) list" where
  "js_opt k f x = (case x of Some y \<Rightarrow> [(k, f y)] | None \<Rightarrow> [])"

definition js_severity :: "report_severity \<Rightarrow> jsval" where
  "js_severity s =
     JString (case s of Ignore \<Rightarrow> ''ignore'' | Log \<Rightarrow> ''log'' | Warn \<Rightarrow> ''warn'' | Throw \<Rightarrow> ''throw'')"

definition js_position :: "nav_position \<Rightarrow> jsval" where
  "js_position p = JString (case p of Left \<Rightarrow> ''left'' | Right \<Rightarrow> ''right'')"

definition js_link :: "link_target \<Rightarrow> js_string \<times> jsval" where
  "js_link t = (case t of To s \<Rightarrow> (''to'', JString s) | Href s \<Rightarrow> (''href'', JString s))"

fun js_navbar_item :: "navbar_item \<Rightarrow> jsval" where
  "js_navbar_item (DocSidebar sid lbl pos) =
     JObject ([(''type'', JString ''docSidebar''), (''sidebarId'', JString sid)] @
              js_opt ''position'' js_position pos @ [(''label'', JString lbl)])"
| "js_navbar_item (NavLink t lbl pos) =
     JObject ([js_link t, (''label'', JString lbl)] @ js_opt ''position'' js_position pos)"

fun js_footer_item :: "footer_item \<Rightarrow> jsval" where
  "js_footer_item (FooterLink lbl t) = JObject (js_opt ''label'' JString lbl @ [js_link t])"

definition js_footer_column :: "footer_column \<Rightarrow> jsval" where
  "js_footer_column col =
     JObject [(''title'', JString (column_title col)),
              (''items'', JArray (map js_footer_item (column_items col)))]"

definition js_classic :: "classic_options \<Rightarrow> jsval" where
  "js_classic opts =
     JObject
       [(''docs'', JObject ((''sidebarPath'', JString (sidebarPath (docs opts))) #
                            js_opt ''editUrl'' JString (docs_editUrl (docs opts)))),
        (''blog'', JObject ((''showReadingTime'', JBool (showReadingTime (blog opts))) #
           js_opt ''feedOptions''
             (\<lambda>f. JObject [(''type'', JArray (map JString (feed_type f))), (''xslt'', JBool (feed_xslt f))])
             (feedOptions (blog opts)) @
           js_opt ''editUrl'' JString (blog_editUrl (blog opts)) @
           js_opt ''onInlineTags'' js_severity (onInlineTags (blog opts)) @
           js_opt ''onInlineAuthors'' js_severity (onInlineAuthors (blog opts)) @
           js_opt ''onUntruncatedBlogPosts'' js_severity (onUntruncatedBlogPosts (blog opts)))),
        (''theme'', JObject [(''customCss'', JString (customCss (theme opts)))])]"

definition js_theme_config :: "theme_config \<Rightarrow> jsval" where
  "js_theme_config tc =
     JObject
       [(''image'', JString (social_card_image tc)),
        (''colorMode'', JObject [(''respectPrefersColorScheme'', JBool (respectPrefersColorScheme tc))]),
        (''navbar'', JObject
           [(''title'', JString (navbar_title (navbar tc))),
            (''logo'', JObject [(''alt'', JString (logo_alt (navbar_logo (navbar tc)))),
                               (''src'', JString (logo_src (navbar_logo (navbar tc))))]),
            (''items'', JArray (map js_navbar_item (navbar_items (navbar tc))))]),
        (''footer'', JObject
           ([(''style'', JString (footer_style (footer tc)))] @
            (if footer_links (footer tc) = [] then []
             else [(''links'', JArray (map js_footer_column (footer_links (footer tc))))]) @
            [(''copyright'', JString (footer_copyright (footer tc)))])),
        (''prism'', JObject [(''theme'', js_PrismTheme (prism_theme (prism tc))),
                            (''darkTheme'', js_PrismTheme (prism_darkTheme (prism tc)))])]"

definition js_of_config :: "site_config \<Rightarrow> jsval" where
  "js_of_config c =
     JObject
       (js_opt ''title'' JString (title c) @ js_opt ''tagline'' JString (tagline c) @
        [(''favicon'', JString (favicon c)),
         (''future'', JObject [(''v4'', JBool (future_v4 c))]),
         (''url'', JString (url c)), (''baseUrl'', JString (baseUrl c)),
         (''organizationName'', JString (organizationName c)),
         (''projectName'', JString (projectName c)),
         (''onBrokenLinks'', js_severity (onBrokenLinks c))] @
        js_opt ''onBrokenAnchors'' js_severity (onBrokenAnchors c) @
        [(''i18n'', JObject [(''defaultLocale'', JString (defaultLocale (i18n c))),
                            (''locales'', JArray (map JString (locales (i18n c))))]),
         (''presets'', JArray (map (\<lambda>(n, opts). JArray [JString n, js_classic opts]) (presets c))),
         (''themeConfig'', js_theme_config (themeConfig c))])"

section \<open>The record model against the source\<close>

text \<open>Serialised, the record model of \<open>SiteConfig\<close> gives back the two literals key for key
  and in the source's order: the records of \<open>site_config_literal\<close> and
  \<open>legacy_config_literal\<close> lose nothing of the text they transcribe.\<close>

lemmas config_js_defs = config_js_def presets_js_def navbar_js_def themeConfig_js_def

lemmas legacy_config_js_defs = legacy_config_js_def legacy_presets_js_def legacy_navbar_js_def
  legacy_footer_js_def legacy_themeConfig_js_def

lemma js_of_config_literals:
  "js_of_config (site_config_literal sidebar css copyright) = config_js sidebar css copyright"
  "js_of_config (legacy_config_literal sidebar copyright) = legacy_config_js sidebar copyright"
  by (simp_all add: js_of_config_def site_config_literal_def legacy_config_literal_def config_js_defs
      legacy_config_js_defs js_opt_def js_severity_def js_position_def js_link_def js_classic_def
      js_theme_config_def js_footer_column_def github_repo_url_def)

end
