(* ===== verification/Spec2Isabelle.thy ===== *)
theory Spec2Isabelle
  imports Navbar Build ColorMode Assets ModulePaths JsValue
begin

text \<open>
  A verification development for the repository ElishbaMehmood-01/Teaching-AI-Native-Book.
  Its one source file, \<open>src/website/docusaurus.config.js\<close>, is the configuration module of
  the Docusaurus site that publishes the book. Evaluating the module first runs its import
  of \<open>prism-react-renderer\<close> (line 161), then computes a single object literal
  (lines 163-237, exported at line 239). Three expressions in the literal do work at load time:
  \<^item> \<open>require.resolve('./sidebars.js')\<close> (line 191), through Node's module resolution;
  \<^item> \<open>require.resolve('./src/css/custom.css')\<close> (line 197), the same way;
  \<^item> \<open>new Date().getFullYear()\<close> (line 230), which reads the host clock and time zone and is
    printed into the footer by string concatenation (Number::toString).
  Lines 12-153 are an earlier configuration, left in a block comment; it is transcribed, but
  never executed, and no property is stated about it. Docusaurus reads the exported object:
  validation, the broken-link and broken-anchor check, the colour mode and code-block themes
  in the browser, and the URLs of the static assets. That framework code, and Node's module
  resolution, are not in the repository, so they are modelled from the spec and from their
  documented behaviour, and marked so in the manifest.

  \<^bold>\<open>Theories.\<close>
  \<^item> \<open>Prelude\<close>: the result monad \<open>bind_res\<close> over \<open>'e + 'a\<close> (an \<open>Inl\<close> is a thrown
    exception), integer division facts, and splitting and joining strings on a separator.
  \<^item> \<open>EcmaDate\<close>: the ECMA-262 time-value arithmetic behind \<open>new Date().getFullYear()\<close>
    (Day, DaysInYear, DayFromYear, TimeFromYear, TimeClip, LocalTime). YearFromTime is
    computed by 400/100/4/1-year cycles, as engines do (\<open>year_of_days\<close>), and proved equal
    to the spec's "largest y with TimeFromYear(y) \<le> t" (C4). The time zone is a function
    \<open>tza\<close> from UTC time to offset; \<open>None\<close> is NaN.
  \<^item> \<open>JsNumber\<close>: Number::toString on integers, with the parse-back used to read the year
    out of the footer.
  \<^item> \<open>NodePath\<close>: \<open>path.posix.resolve\<close>, \<open>dirname\<close>, and \<open>require.resolve\<close> over a file
    system \<open>path \<Rightarrow> fkind option\<close> with the parsed \<open>package.json\<close> files beside it
    (\<open>pkgs\<close>). \<open>find_in\<close> is one lookup path of \<open>Module._findPath\<close>: the package's
    \<open>exports\<close> under the CommonJS conditions (\<open>resolve_exports\<close>,
    \<open>package_exports_resolve\<close>, \<open>resolve_target\<close>), the file, the file with
    \<open>.js .json .node\<close>, and a directory's \<open>main\<close> then index (\<open>try_package\<close>).
    \<open>require_resolve\<close> runs it over the lookup paths and throws \<open>MODULE_NOT_FOUND\<close> when
    none answers; a wrong \<open>exports\<close> or \<open>main\<close> throws its own error.
  \<^item> \<open>SiteConfig\<close>: the configuration's data as records and datatypes with the source's field
    names. \<open>site_config_literal\<close> is the literal of lines 164-237 with its three computed
    values as parameters; \<open>load_config\<close> evaluates it in a load environment \<open>load_env\<close>
    (file system, \<open>package.json\<close> contents, working directory, config file path, clock, time
    zone): the resolves in source order, the first throw aborts, then the literal.
    \<open>import_prism\<close> is line 161 as a \<open>require\<close> of a bare request, and \<open>load_module\<close>
    the whole module, the import first. The earlier block is \<open>legacy_config_literal\<close>.
  \<^item> \<open>ModulePaths\<close>: Node's \<open>Module._nodeModulePaths\<close> as its character loop
    (\<open>nmp_loop\<close>, a \<open>partial_function (option)\<close>).
  \<^item> \<open>Validation\<close>: what the spec requires of a loaded configuration (\<open>config_valid\<close>),
    Docusaurus's \<open>baseUrl\<close> normalisation, and the GitHub Pages contract
    (\<open>github_pages_consistent\<close>).
  \<^item> \<open>Navbar\<close>: \<open>splitNavbarItems\<close>, the left/right partition of the navbar items.
  \<^item> \<open>BrokenLinks\<close>: the logger's \<open>report\<close>, the broken path links and broken anchors of
    the collected pages (\<open>get_broken_links\<close>), and \<open>handle_broken_links\<close> with the
    severities \<open>onBrokenLinks\<close> and \<open>onBrokenAnchors\<close> (defaulted by
    \<open>effective_onBrokenAnchors\<close>, since the file omits it).
  \<^item> \<open>Build\<close>: the build lifecycle as an inductive step relation \<open>build_step\<close> with its
    invariant; no property is stated about it.
  \<^item> \<open>ColorMode\<close>: \<open>themeConfig.colorMode\<close> (lines 205-207) in a browser tab: the inline
    script choosing the first mode, \<open>setColorMode\<close>, and the switch, preference and storage
    listeners as a step function \<open>cm_step\<close> with reachable states \<open>cm_reachable\<close>;
    \<open>usePrismTheme\<close> picks the code-block theme of lines 232-235.
  \<^item> \<open>Assets\<close>: Docusaurus's \<open>addBaseUrl\<close> and the URLs the site gives its asset paths.
  \<^item> \<open>JsValue\<close>: both literals as JavaScript values, one definition per part, and the
    serialisation \<open>js_of_config\<close> of the record model, proved to give them back.
  \<^item> This theory: the properties that span the loader and the clock.

  \<^bold>\<open>What is proved.\<close>
  \<^item> Loading (C1-C3, C6, C7): with both files in the site directory the literal evaluates with
    the absolute resolved paths and the current year; otherwise it throws \<open>MODULE_NOT_FOUND\<close>
    for the first failing request, in source order. Every loaded configuration names existing
    files and shows \<open>getFullYear\<close> in its footer.
  \<^item> Dates (C4, C5): \<open>getFullYear\<close> is the spec's YearFromTime of local time; for offsets
    under a day its year lies in -271821..275760.
  \<^item> Validation and deployment (C8, C9): every load is valid and consistent with its GitHub
    Pages URL.
  \<^item> Broken links (C10): a link to no route aborts the build; a missing anchor on an existing
    page only warns, because the file leaves \<open>onBrokenAnchors\<close> at \<open>'warn'\<close>.
  \<^item> Across the loader and the clock (C11-C13): loading is not idempotent across a New Year;
    it is within one local year; the footer year depends on the host time zone.
  \<^item> The import (C14, C15, C19): without the package the module fails before its body;
    with the package as published it loads the CommonJS build its \<open>exports\<close> name for
    \<open>require\<close>, from the nearest \<open>node_modules\<close>. Node's character loop for the lookup
    paths always returns and agrees with the segment-level model.
  \<^item> Colour mode and code blocks (C16, C17): in every reachable state of a tab the page shows
    the stored choice, or else follows the system preference; code blocks get the dark theme
    exactly in dark mode, readable in both modes.
  \<^item> Asset URLs (C18): every local path lands under the base path, and the absolute ones
    under the Pages root, except the base path written without its slash.

  \<^bold>\<open>Bounds and termination.\<close> Times are unbounded \<open>int\<close> milliseconds. ECMA-262 clips them
  to \<open>\<bar>t\<bar> \<le> 8.64e15\<close> (\<open>maxTime\<close>), so no double rounding arises: every value involved is an
  integer below 2^53. There is no fuel. The one loop that could in principle run forever,
  \<open>nmp_loop\<close>, is a \<open>partial_function (option)\<close>; that it returns is part of C19, proved by
  induction on the index. Every other function is total, with the size measure \<open>fun\<close>
  finds: structural recursion, the mutual \<open>resolve_target\<close>/\<open>resolve_conditions\<close> over
  the nested \<open>exports\<close> value, and \<open>nat_to_decimal\<close> (division by 10).

  \<^bold>\<open>Not modelled.\<close>
  \<^item> In module resolution: symbolic links, Node builtins, global folders, a package
    resolving itself, arrays of fallbacks and \<open>*\<close> patterns in \<open>exports\<close>, the
    \<open>module-sync\<close> condition; the loader Docusaurus uses (jiti) where it differs from Node.
  \<^item> Number::toString's exponent form (integers of 1e21 and more, never reached by a year).
  \<^item> The per-token \<open>styles\<close> of the prism themes; printing and the
    \<open>?docusaurus-theme\<close> query parameter in the colour mode.
  \<^item> The TypeScript check asked for by lines 160 and 163, and the expansion of
    \<open>future.v4\<close> into the flags of the installed release: both depend only on the constant
    literal and on a copy of the framework's types or flag list.
  \<^item> Relative links, URI-decoded variants and trailing-slash variants in the broken-link check.
  \<^item> The Docusaurus framework beyond the contracts the spec states: it is not in the
    repository.
\<close>

section \<open>Properties across components\<close>

lemma copyright_text_year:
  "copyright_text e1 = copyright_text e2 \<Longrightarrow>
   getFullYear (env_tza e1) (new_Date (env_now e1)) = getFullYear (env_tza e2) (new_Date (env_now e2))"
  using footer_year_copyright_text [of e1] footer_year_copyright_text [of e2] by simp

lemma year_2025_2026:
  "getFullYear (\<lambda>_. 0) (new_Date 1767225599999) = Some 2025"
  "getFullYear (\<lambda>_. 0) (new_Date 1767225600000) = Some 2026"
  "getFullYear (\<lambda>_. 3600000) (new_Date 1767225599999) = Some 2026"
  by (simp_all add: getFullYear_def new_Date_def TimeClip_def maxTime_def LocalTime_def
      YearFromTime_def year_of_days_def Day_def msPerDay_def Let_def)

text \<open>C11: the spec says that loading the same configuration twice yields the same object.
  It does not: the module reads the clock while it is evaluated, so two loads of the same
  files one millisecond apart, on either side of a New Year, give configurations that
  differ in the footer.\<close>

theorem load_config_not_idempotent:
  "load_config (example_env\<lparr>env_now := 1767225599999, env_tza := (\<lambda>_. 0)\<rparr>) \<noteq>
   load_config (example_env\<lparr>env_now := 1767225600000, env_tza := (\<lambda>_. 0)\<rparr>)"
proof
  assume "load_config (example_env\<lparr>env_now := 1767225599999, env_tza := (\<lambda>_. 0)\<rparr>) =
          load_config (example_env\<lparr>env_now := 1767225600000, env_tza := (\<lambda>_. 0)\<rparr>)"
  moreover obtain c where
    "load_config (example_env\<lparr>env_now := 1767225599999, env_tza := (\<lambda>_. 0)\<rparr>) = Inr c"
    using example_load_config_exists_at by blast
  ultimately have "copyright_text (example_env\<lparr>env_now := 1767225599999, env_tza := (\<lambda>_. 0)\<rparr>) =
             copyright_text (example_env\<lparr>env_now := 1767225600000, env_tza := (\<lambda>_. 0)\<rparr>)"
    by (metis load_config_footer_copyright)
  then have "getFullYear (\<lambda>_. 0) (new_Date 1767225599999) = getFullYear (\<lambda>_. 0) (new_Date 1767225600000)"
    by (auto dest: copyright_text_year)
  then show False by (simp add: year_2025_2026)
qed

text \<open>C12: what does hold: two loads with the same files (the entries and the contents of
  the \<open>package.json\<close> files), directory and configuration path whose clocks fall in the
  same local year give the same configuration.\<close>

theorem load_config_same_year:
  assumes "env_fs e1 = env_fs e2" and "env_pkgs e1 = env_pkgs e2" and "env_cwd e1 = env_cwd e2"
    and "env_config_file e1 = env_config_file e2"
    and "getFullYear (env_tza e1) (new_Date (env_now e1)) = getFullYear (env_tza e2) (new_Date (env_now e2))"
  shows "load_config e1 = load_config e2"
  using assms
  by (simp add: load_config_def resolve_sidebars_def resolve_custom_css_def copyright_text_def)

theorem load_config_same_year_witness:
  "env_fs example_env = env_fs (example_env\<lparr>env_now := 1762646400001\<rparr>) \<and>
   env_pkgs example_env = env_pkgs (example_env\<lparr>env_now := 1762646400001\<rparr>) \<and>
   env_cwd example_env = env_cwd (example_env\<lparr>env_now := 1762646400001\<rparr>) \<and>
   env_config_file example_env = env_config_file (example_env\<lparr>env_now := 1762646400001\<rparr>) \<and>
   getFullYear (env_tza example_env) (new_Date (env_now example_env)) =
     getFullYear (env_tza (example_env\<lparr>env_now := 1762646400001\<rparr>)) (new_Date (env_now (example_env\<lparr>env_now := 1762646400001\<rparr>))) \<and>
   load_config example_env = load_config (example_env\<lparr>env_now := 1762646400001\<rparr>)"
proof -
  have y: "getFullYear (env_tza example_env) (new_Date (env_now example_env)) =
     getFullYear (env_tza (example_env\<lparr>env_now := 1762646400001\<rparr>)) (new_Date (env_now (example_env\<lparr>env_now := 1762646400001\<rparr>)))"
    by (simp add: example_env_def getFullYear_def new_Date_def TimeClip_def maxTime_def LocalTime_def
        YearFromTime_def year_of_days_def Day_def msPerDay_def Let_def)
  have h: "env_fs example_env = env_fs (example_env\<lparr>env_now := 1762646400001\<rparr>)"
    "env_pkgs example_env = env_pkgs (example_env\<lparr>env_now := 1762646400001\<rparr>)"
    "env_cwd example_env = env_cwd (example_env\<lparr>env_now := 1762646400001\<rparr>)"
    "env_config_file example_env = env_config_file (example_env\<lparr>env_now := 1762646400001\<rparr>)"
    by simp_all
  show ?thesis using load_config_same_year [OF h y] h y by simp
qed

text \<open>C13: the footer depends on the build machine's time zone: at the same instant, a
  build in UTC stamps 2025 and a build one hour east of it stamps 2026.\<close>

theorem copyright_timezone_dependence:
  "copyright_text (example_env\<lparr>env_now := 1767225599999, env_tza := (\<lambda>_. 0)\<rparr>) \<noteq>
   copyright_text (example_env\<lparr>env_now := 1767225599999, env_tza := (\<lambda>_. 3600000)\<rparr>)"
proof
  assume "copyright_text (example_env\<lparr>env_now := 1767225599999, env_tza := (\<lambda>_. 0)\<rparr>) =
          copyright_text (example_env\<lparr>env_now := 1767225599999, env_tza := (\<lambda>_. 3600000)\<rparr>)"
  then have "getFullYear (\<lambda>_. 0) (new_Date 1767225599999) = getFullYear (\<lambda>_. 3600000) (new_Date 1767225599999)"
    by (auto dest: copyright_text_year)
  then show False by (simp add: year_2025_2026)
qed

end
